theory Spec2Isabelle
  imports Main "HOL-Library.Word"
begin

unbundle bit_operations_syntax

section \<open>The renderer's state-and-binding reconciliation engine\<close>

text \<open>
  A shallow embedding of \<^verbatim>\<open>src/Nazara/Renderer/Renderer.cpp\<close>. The file-scope
  variables of the anonymous namespace (\<^verbatim>\<open>s_matrices\<close>, \<^verbatim>\<open>s_updateFlags\<close>,
  \<^verbatim>\<open>s_vaos\<close>, ...) are the fields of one record that every operation takes and
  returns. Calls into the graphics backend are appended to a command log, reports of
  \<^verbatim>\<open>NazaraError\<close> and \<^verbatim>\<open>NazaraWarning\<close> to a report log. The embedding is of
  the build in which the checks under \<^verbatim>\<open>NAZARA_DEBUG\<close> and
  \<^verbatim>\<open>NAZARA_RENDERER_SAFE\<close> are compiled in.
\<close>

subsection \<open>Matrix cache: data\<close>

text \<open>
  \<^verbatim>\<open>enum MatrixType\<close>: base matrices, combined matrices, inverted matrices, in the
  order of the switch statements of \<^verbatim>\<open>SetMatrix\<close> and \<^verbatim>\<open>UpdateMatrix\<close>.
\<close>

datatype MatrixType =
    MatrixType_Projection
  | MatrixType_View
  | MatrixType_World
  | MatrixType_ViewProj
  | MatrixType_WorldView
  | MatrixType_WorldViewProj
  | MatrixType_InvProjection
  | MatrixType_InvView
  | MatrixType_InvViewProj
  | MatrixType_InvWorld
  | MatrixType_InvWorldView
  | MatrixType_InvWorldViewProj

text \<open>\<^verbatim>\<open>struct MatrixUnit { Matrix4f matrix; bool updated; int location; }\<close>\<close>

record 'm MatrixUnit =
  matrix :: 'm
  updated :: bool
  location :: int

text \<open>
  \<^verbatim>\<open>Matrix4f\<close> is defined outside the source at hand; the matrix type is the type
  parameter \<open>'m\<close> and the three operations the renderer calls on it are taken as
  parameters.
\<close>

record 'm Matrix4_ops =
  MakeIdentity :: 'm
  Concatenate :: "'m \<Rightarrow> 'm \<Rightarrow> 'm"
  ConcatenateAffine :: "'m \<Rightarrow> 'm \<Rightarrow> 'm"
  Inverse :: "'m \<Rightarrow> 'm option"

text \<open>
  Modelled from the spec: \<^verbatim>\<open>bool Matrix4f::GetInverse(Matrix4f* dest) const\<close> is
  not under src/. An inversion that fails on a singular matrix returns false and
  "leaves the previous inverse value untouched"; one that succeeds writes the inverse to
  \<^verbatim>\<open>dest\<close> and returns true. The pair is (return value, new content of \<^verbatim>\<open>dest\<close>).
\<close>

definition GetInverse :: "'m Matrix4_ops \<Rightarrow> 'm \<Rightarrow> 'm \<Rightarrow> bool \<times> 'm" where
  "GetInverse M src dest =
     (case Inverse M src of None \<Rightarrow> (False, dest) | Some r \<Rightarrow> (True, r))"

subsection \<open>Update flags\<close>

text \<open>\<^verbatim>\<open>enum UpdateFlags\<close>, kept in the \<^verbatim>\<open>UInt32 s_updateFlags\<close>.\<close>

definition Update_None :: "32 word" where "Update_None = 0"
definition Update_Matrices :: "32 word" where "Update_Matrices = 0x1"
definition Update_Shader :: "32 word" where "Update_Shader = 0x2"
definition Update_Textures :: "32 word" where "Update_Textures = 0x4"
definition Update_VAO :: "32 word" where "Update_VAO = 0x8"

subsection \<open>Reports\<close>

text \<open>
  Modelled from the spec: the error channel (\<^verbatim>\<open>NazaraError\<close>, \<^verbatim>\<open>NazaraWarning\<close>,
  \<^verbatim>\<open>Error::GetLastError\<close>, \<^verbatim>\<open>ErrorFlags\<close>) is not under src/. A report is a kind and
  a message, appended to the report log. An error also becomes the last error. While
  \<^verbatim>\<open>ErrorFlag_Silent\<close> is set, as it is inside \<^verbatim>\<open>EnsureStateUpdate\<close> ("all errors are
  silent, the calling function handles the error"), nothing is appended to the log.
\<close>

datatype report = ReportError string | ReportWarning string


subsection \<open>Resources seen through their interfaces\<close>

text \<open>
  Buffers, declarations, shaders, render targets and textures are defined outside the
  source at hand. A pointer is an address (\<open>nat\<close>), a nullable pointer an
  \<open>option\<close>, and the record \<open>world\<close> gives, for each address, what the
  renderer reads from the object there.
\<close>

datatype ComponentType =
    ComponentType_Color
  | ComponentType_Double1 | ComponentType_Double2 | ComponentType_Double3 | ComponentType_Double4
  | ComponentType_Float1 | ComponentType_Float2 | ComponentType_Float3 | ComponentType_Float4
  | ComponentType_Int1 | ComponentType_Int2 | ComponentType_Int3 | ComponentType_Int4
  | ComponentType_Quaternion

datatype ShaderUniform =
    ShaderUniform_InvProjMatrix
  | ShaderUniform_InvTargetSize
  | ShaderUniform_InvViewMatrix
  | ShaderUniform_InvViewProjMatrix
  | ShaderUniform_InvWorldMatrix
  | ShaderUniform_InvWorldViewMatrix
  | ShaderUniform_InvWorldViewProjMatrix
  | ShaderUniform_ProjMatrix
  | ShaderUniform_TargetSize
  | ShaderUniform_ViewMatrix
  | ShaderUniform_ViewProjMatrix
  | ShaderUniform_WorldMatrix
  | ShaderUniform_WorldViewMatrix
  | ShaderUniform_WorldViewProjMatrix

datatype PrimitiveMode =
    PrimitiveMode_LineList
  | PrimitiveMode_LineStrip
  | PrimitiveMode_PointList
  | PrimitiveMode_TriangleList
  | PrimitiveMode_TriangleStrip
  | PrimitiveMode_TriangleFan

datatype BufferType = BufferType_Index | BufferType_Vertex

datatype RendererCap =
    RendererCap_AnisotropicFilter
  | RendererCap_ConditionalRendering
  | RendererCap_FP64
  | RendererCap_HardwareBuffer
  | RendererCap_Instancing
  | RendererCap_MultipleRenderTargets
  | RendererCap_OcclusionQuery
  | RendererCap_PixelBufferObject
  | RendererCap_RenderTexture
  | RendererCap_Texture3D
  | RendererCap_TextureCubemap
  | RendererCap_TextureMulti
  | RendererCap_TextureNPOT

record Shader =
  IsValid :: bool
  IsLinked :: bool
  GetUniformLocation :: "ShaderUniform \<Rightarrow> int"

record RenderTarget =
  IsRenderable :: bool
  Activate :: bool
  HasContext :: bool
  GetWidth :: nat
  GetHeight :: nat

record VertexDeclaration =
  GetStride :: nat
  GetComponent :: "nat \<Rightarrow> bool \<times> ComponentType \<times> nat"

record VertexBuffer =
  vb_IsHardware :: bool
  vb_GetVertexDeclaration :: "nat option"
  vb_GetStartOffset :: nat
  vb_GetOpenGLID :: nat
  vb_GetVertexCount :: nat

record IndexBuffer =
  ib_IsHardware :: bool
  ib_HasLargeIndices :: bool
  ib_GetStartOffset :: nat
  ib_GetOpenGLID :: nat

record Texture =
  tex_HasMipmaps :: bool
  tex_GetType :: nat
  tex_GetOpenGLID :: nat

text \<open>
  The vertex components are numbered (\<^verbatim>\<open>enum VertexComponent\<close>, not under src/); the
  bounds of the two ranges the attribute loop runs over and the table
  \<^verbatim>\<open>OpenGL::VertexComponentIndex\<close> are taken as they are found in the world.
  \<open>has_glVertexAttribLPointer\<close> and \<open>has_glVertexAttribIPointer\<close> say whether
  the function pointer of that name is non-null.
\<close>

record world =
  shaders :: "nat \<Rightarrow> Shader"
  targets :: "nat \<Rightarrow> RenderTarget"
  vertexBuffers :: "nat \<Rightarrow> VertexBuffer"
  vertexDeclarations :: "nat \<Rightarrow> VertexDeclaration"
  indexBuffers :: "nat \<Rightarrow> IndexBuffer"
  textures :: "nat \<Rightarrow> Texture"
  Context_GetCurrent :: "nat option"
  has_glVertexAttribLPointer :: bool
  has_glVertexAttribIPointer :: bool
  VertexComponent_FirstVertexData :: nat
  VertexComponent_LastVertexData :: nat
  VertexComponent_FirstInstanceData :: nat
  VertexComponent_LastInstanceData :: nat
  VertexComponentIndex :: "nat \<Rightarrow> nat"

subsection \<open>Backend commands\<close>

text \<open>
  Every call the renderer makes into the graphics backend or into a collaborator that
  talks to it, with its arguments. \<open>glGenVertexArrays n\<close> records the name the
  backend returned.
\<close>

datatype ('m, 'rs, 'smp) command =
    glGenVertexArrays nat
  | glBindVertexArray nat
  | glDeleteVertexArrays nat
  | glBindBuffer BufferType nat
  | glEnableVertexAttribArray nat
  | glDisableVertexAttribArray nat
  | glVertexAttribPointer nat ComponentType bool nat nat
  | glVertexAttribLPointer nat ComponentType nat nat
  | glVertexAttribIPointer nat ComponentType nat nat
  | glVertexAttribDivisor nat nat
  | glDrawArrays PrimitiveMode nat nat
  | glDrawArraysInstanced PrimitiveMode nat nat nat
  | glDrawElements PrimitiveMode nat bool nat
  | glDrawElementsInstanced PrimitiveMode nat bool nat nat
  | OpenGL_ApplyStates 'rs
  | OpenGL_BindTexture nat nat nat
  | OpenGL_BindTextureUnit nat
  | OpenGL_SetBuffer BufferType nat
  | OpenGL_SetTarget "nat option"
  | OpenGL_DeleteVertexArray nat nat
  | Shader_Bind nat
  | Shader_SendMatrix nat int 'm
  | Shader_SendInvTargetSize nat int "nat \<times> nat"
  | Shader_SendTargetSize nat int "nat \<times> nat"
  | Sampler_Bind 'smp nat
  | Sampler_Apply 'smp nat
  | Texture_EnsureMipmapsUpdate nat
  | Target_EnsureTargetUpdated nat
  | Target_Activate nat
  | Target_Desactivate nat

subsection \<open>The renderer's state\<close>

text \<open>\<^verbatim>\<open>struct TextureUnit { TextureSampler sampler; const Texture* texture; bool samplerUpdated; }\<close>\<close>

record 'smp TextureUnit =
  sampler :: 'smp
  texture :: "nat option"
  samplerUpdated :: bool

text \<open>
  \<^verbatim>\<open>struct VAO_Entry\<close>: the backend handle and the four release slots; a slot holds
  the address of the resource whose release signal it is connected to.
\<close>

record VAO_Entry =
  vao :: nat
  onIndexBufferReleaseSlot :: "nat option"
  onVertexBufferReleaseSlot :: "nat option"
  onInstancingDeclarationReleaseSlot :: "nat option"
  onVertexDeclarationReleaseSlot :: "nat option"

text \<open>
  \<^verbatim>\<open>VAO_Key\<close>: index buffer, vertex buffer, vertex declaration, instancing
  declaration, compared as pointers. \<^verbatim>\<open>VAO_Map\<close> and \<^verbatim>\<open>Context_Map\<close> are
  association lists with at most one entry per key; a new entry goes to the end.
\<close>

type_synonym VAO_Key = "nat option \<times> nat option \<times> nat option \<times> nat option"

type_synonym VAO_Map = "(VAO_Key \<times> VAO_Entry) list"

record Context_Entry =
  vaoMap :: VAO_Map
  onReleaseSlot :: "nat option"

type_synonym Context_Map = "(nat \<times> Context_Entry) list"

text \<open>
  The variables of the anonymous namespace and \<^verbatim>\<open>s_moduleReferenceCounter\<close>,
  followed by what the embedding adds: the report log, the last error and the silent
  flag of the error channel, the log of backend commands, and the number of vertex-array
  names the backend has handed out. The limits \<^verbatim>\<open>s_maxAnisotropyLevel\<close>, \<^verbatim>\<open>s_maxColorAttachments\<close>,
  \<^verbatim>\<open>s_maxRenderTarget\<close>, \<^verbatim>\<open>s_maxTextureSize\<close> and \<^verbatim>\<open>s_maxVertexAttribs\<close> and the
  buffer \<^verbatim>\<open>s_fullscreenQuadBuffer\<close> are read by no operation embedded here and are left
  out.

  Modelled from the spec: \<^verbatim>\<open>glGenVertexArrays\<close> belongs to the backend, which
  hands out "opaque integer handles"; \<open>gl_genCount\<close> counts the names it has handed
  out, and the next one is \<open>Suc (gl_genCount s)\<close>: never 0 and never a name handed
  out before.
\<close>

record ('m, 'rs, 'smp) Renderer =
  s_vaos :: Context_Map
  s_dirtyTextureUnits :: "nat list"
  s_textureUnits :: "'smp TextureUnit list"
  s_currentVAO :: nat
  s_instanceBuffer :: VertexBuffer
  s_matrices :: "MatrixType \<Rightarrow> 'm MatrixUnit"
  s_states :: 'rs
  s_targetSize :: "nat \<times> nat"
  s_updateFlags :: "32 word"
  s_indexBuffer :: "nat option"
  s_target :: "nat option"
  s_shader :: "nat option"
  s_vertexBuffer :: "nat option"
  s_capabilities :: "RendererCap \<Rightarrow> bool"
  s_instancing :: bool
  s_useSamplerObjects :: bool
  s_useVertexArrayObjects :: bool
  s_maxTextureUnit :: nat
  s_moduleReferenceCounter :: nat
  reports :: "report list"
  lastError :: string
  ErrorFlag_Silent :: bool
  commands :: "('m, 'rs, 'smp) command list"
  gl_genCount :: nat

definition NazaraError :: "string \<Rightarrow> ('m, 'rs, 'smp) Renderer \<Rightarrow> ('m, 'rs, 'smp) Renderer" where
  "NazaraError msg s =
     (if ErrorFlag_Silent s then s\<lparr>lastError := msg\<rparr>
      else s\<lparr>reports := reports s @ [ReportError msg], lastError := msg\<rparr>)"

definition NazaraWarning :: "string \<Rightarrow> ('m, 'rs, 'smp) Renderer \<Rightarrow> ('m, 'rs, 'smp) Renderer" where
  "NazaraWarning msg s =
     (if ErrorFlag_Silent s then s
      else s\<lparr>reports := reports s @ [ReportWarning msg]\<rparr>)"

definition issue :: "('m, 'rs, 'smp) command list \<Rightarrow> ('m, 'rs, 'smp) Renderer \<Rightarrow> ('m, 'rs, 'smp) Renderer" where
  "issue cs s = s\<lparr>commands := commands s @ cs\<rparr>"

subsection \<open>Matrix cache: operations\<close>

text \<open>Writes to one element of the array \<^verbatim>\<open>s_matrices\<close>.\<close>

definition set_updated :: "MatrixType \<Rightarrow> bool \<Rightarrow> ('m, 'rs, 'smp) Renderer \<Rightarrow> ('m, 'rs, 'smp) Renderer" where
  "set_updated t b s = s\<lparr>s_matrices := (s_matrices s)(t := (s_matrices s t)\<lparr>updated := b\<rparr>)\<rparr>"

definition set_matrix :: "MatrixType \<Rightarrow> 'm \<Rightarrow> ('m, 'rs, 'smp) Renderer \<Rightarrow> ('m, 'rs, 'smp) Renderer" where
  "set_matrix t m s = s\<lparr>s_matrices := (s_matrices s)(t := (s_matrices s t)\<lparr>matrix := m\<rparr>)\<rparr>"

definition set_location :: "MatrixType \<Rightarrow> int \<Rightarrow> ('m, 'rs, 'smp) Renderer \<Rightarrow> ('m, 'rs, 'smp) Renderer" where
  "set_location t l s = s\<lparr>s_matrices := (s_matrices s)(t := (s_matrices s t)\<lparr>location := l\<rparr>)\<rparr>"

text \<open>\<^verbatim>\<open>Renderer::SetMatrix\<close> (lines 1015 to 1082).\<close>

fun SetMatrix :: "MatrixType \<Rightarrow> 'm \<Rightarrow> ('m, 'rs, 'smp) Renderer \<Rightarrow> ('m, 'rs, 'smp) Renderer" where
  "SetMatrix type m s =
    (let s = set_matrix type m s;
         s = set_updated type True s;
         s = (case type of
                MatrixType_Projection \<Rightarrow>
                  (set_updated MatrixType_WorldViewProj False
                   \<circ> set_updated MatrixType_ViewProj False
                   \<circ> set_updated MatrixType_InvWorldViewProj False
                   \<circ> set_updated MatrixType_InvViewProj False
                   \<circ> set_updated MatrixType_InvProjection False) s
              | MatrixType_View \<Rightarrow>
                  (set_updated MatrixType_WorldViewProj False
                   \<circ> set_updated MatrixType_World False
                   \<circ> set_updated MatrixType_ViewProj False
                   \<circ> set_updated MatrixType_InvWorldViewProj False
                   \<circ> set_updated MatrixType_InvWorld False
                   \<circ> set_updated MatrixType_InvViewProj False
                   \<circ> set_updated MatrixType_InvView False) s
              | MatrixType_World \<Rightarrow>
                  (set_updated MatrixType_WorldViewProj False
                   \<circ> set_updated MatrixType_WorldView False
                   \<circ> set_updated MatrixType_InvWorldViewProj False
                   \<circ> set_updated MatrixType_InvWorldView False
                   \<circ> set_updated MatrixType_InvWorld False) s
              | MatrixType_ViewProj \<Rightarrow>
                  set_updated MatrixType_InvViewProj False s
              | MatrixType_WorldView \<Rightarrow>
                  (set_updated MatrixType_WorldViewProj False
                   \<circ> set_updated MatrixType_InvWorldView False) s
              | MatrixType_WorldViewProj \<Rightarrow>
                  set_updated MatrixType_InvWorldViewProj False s
              | _ \<Rightarrow> s)
     in s\<lparr>s_updateFlags := s_updateFlags s OR Update_Matrices\<rparr>)"

text \<open>
  \<^verbatim>\<open>Renderer::UpdateMatrix\<close> (lines 1978 to 2080). The function calls itself on the
  source of a combined or inverted matrix; \<open>MatrixType_rank\<close> is the depth of a slot in
  that dependency order.
\<close>

fun MatrixType_rank :: "MatrixType \<Rightarrow> nat" where
  "MatrixType_rank MatrixType_Projection = 0"
| "MatrixType_rank MatrixType_View = 0"
| "MatrixType_rank MatrixType_World = 0"
| "MatrixType_rank MatrixType_ViewProj = 1"
| "MatrixType_rank MatrixType_WorldView = 1"
| "MatrixType_rank MatrixType_WorldViewProj = 2"
| "MatrixType_rank MatrixType_InvProjection = 1"
| "MatrixType_rank MatrixType_InvView = 1"
| "MatrixType_rank MatrixType_InvViewProj = 2"
| "MatrixType_rank MatrixType_InvWorld = 1"
| "MatrixType_rank MatrixType_InvWorldView = 2"
| "MatrixType_rank MatrixType_InvWorldViewProj = 3"

text \<open>
  The common tail of the six inverse cases: invert the source into the slot, warn when
  that fails, mark the slot updated.
\<close>

definition invert_into ::
  "'m Matrix4_ops \<Rightarrow> MatrixType \<Rightarrow> MatrixType \<Rightarrow> string \<Rightarrow> ('m, 'rs, 'smp) Renderer \<Rightarrow> ('m, 'rs, 'smp) Renderer" where
  "invert_into M src dst msg s =
     (let (ok, d) = GetInverse M (matrix (s_matrices s src)) (matrix (s_matrices s dst));
          s = set_matrix dst d s;
          s = (if \<not> ok then NazaraWarning msg s else s)
      in set_updated dst True s)"

function UpdateMatrix ::
  "'m Matrix4_ops \<Rightarrow> MatrixType \<Rightarrow> ('m, 'rs, 'smp) Renderer \<Rightarrow> ('m, 'rs, 'smp) Renderer" where
  "UpdateMatrix M MatrixType_Projection s = set_updated MatrixType_Projection True s"
| "UpdateMatrix M MatrixType_View s = set_updated MatrixType_View True s"
| "UpdateMatrix M MatrixType_World s = set_updated MatrixType_World True s"
| "UpdateMatrix M MatrixType_ViewProj s =
    (let s = set_matrix MatrixType_ViewProj (matrix (s_matrices s MatrixType_View)) s;
         s = set_matrix MatrixType_ViewProj
               (Concatenate M (matrix (s_matrices s MatrixType_ViewProj))
                              (matrix (s_matrices s MatrixType_Projection))) s
     in set_updated MatrixType_ViewProj True s)"
| "UpdateMatrix M MatrixType_WorldView s =
    (let s = set_matrix MatrixType_WorldView (matrix (s_matrices s MatrixType_World)) s;
         s = set_matrix MatrixType_WorldView
               (ConcatenateAffine M (matrix (s_matrices s MatrixType_WorldView))
                                    (matrix (s_matrices s MatrixType_View))) s
     in set_updated MatrixType_WorldView True s)"
| "UpdateMatrix M MatrixType_WorldViewProj s =
    (let s = (if \<not> updated (s_matrices s MatrixType_WorldView)
              then UpdateMatrix M MatrixType_WorldView s else s);
         s = set_matrix MatrixType_WorldViewProj (matrix (s_matrices s MatrixType_WorldView)) s;
         s = set_matrix MatrixType_WorldViewProj
               (Concatenate M (matrix (s_matrices s MatrixType_WorldViewProj))
                              (matrix (s_matrices s MatrixType_Projection))) s
     in set_updated MatrixType_WorldViewProj True s)"
| "UpdateMatrix M MatrixType_InvProjection s =
    (let s = (if \<not> updated (s_matrices s MatrixType_Projection)
              then UpdateMatrix M MatrixType_Projection s else s)
     in invert_into M MatrixType_Projection MatrixType_InvProjection
          ''Failed to inverse Proj matrix'' s)"
| "UpdateMatrix M MatrixType_InvView s =
    (let s = (if \<not> updated (s_matrices s MatrixType_View)
              then UpdateMatrix M MatrixType_View s else s)
     in invert_into M MatrixType_View MatrixType_InvView
          ''Failed to inverse View matrix'' s)"
| "UpdateMatrix M MatrixType_InvViewProj s =
    (let s = (if \<not> updated (s_matrices s MatrixType_ViewProj)
              then UpdateMatrix M MatrixType_ViewProj s else s)
     in invert_into M MatrixType_ViewProj MatrixType_InvViewProj
          ''Failed to inverse ViewProj matrix'' s)"
| "UpdateMatrix M MatrixType_InvWorld s =
    (let s = (if \<not> updated (s_matrices s MatrixType_World)
              then UpdateMatrix M MatrixType_World s else s)
     in invert_into M MatrixType_World MatrixType_InvWorld
          ''Failed to inverse World matrix'' s)"
| "UpdateMatrix M MatrixType_InvWorldView s =
    (let s = (if \<not> updated (s_matrices s MatrixType_WorldView)
              then UpdateMatrix M MatrixType_WorldView s else s)
     in invert_into M MatrixType_WorldView MatrixType_InvWorldView
          ''Failed to inverse WorldView matrix'' s)"
| "UpdateMatrix M MatrixType_InvWorldViewProj s =
    (let s = (if \<not> updated (s_matrices s MatrixType_WorldViewProj)
              then UpdateMatrix M MatrixType_WorldViewProj s else s)
     in invert_into M MatrixType_WorldViewProj MatrixType_InvWorldViewProj
          ''Failed to inverse WorldViewProj matrix'' s)"
  by pat_completeness auto
termination
  by (relation "measure (\<lambda>(M, t, s). MatrixType_rank t)") auto

text \<open>
  \<^verbatim>\<open>Renderer::GetMatrix\<close> (lines 504 to 518): the value returned and the state
  after the call.
\<close>

definition GetMatrix ::
  "'m Matrix4_ops \<Rightarrow> MatrixType \<Rightarrow> ('m, 'rs, 'smp) Renderer \<Rightarrow> 'm \<times> ('m, 'rs, 'smp) Renderer" where
  "GetMatrix M type s =
     (let s = (if \<not> updated (s_matrices s type) then UpdateMatrix M type s else s)
      in (matrix (s_matrices s type), s))"

subsection \<open>Setters\<close>

text \<open>\<^verbatim>\<open>Renderer::SetIndexBuffer\<close> (lines 985 to 1000).\<close>

definition SetIndexBuffer ::
  "world \<Rightarrow> nat option \<Rightarrow> ('m, 'rs, 'smp) Renderer \<Rightarrow> ('m, 'rs, 'smp) Renderer" where
  "SetIndexBuffer W indexBuffer s =
     (if indexBuffer \<noteq> None \<and> \<not> ib_IsHardware (indexBuffers W (the indexBuffer))
      then NazaraError ''Buffer must be hardware'' s
      else if s_indexBuffer s \<noteq> indexBuffer
      then s\<lparr>s_indexBuffer := indexBuffer, s_updateFlags := s_updateFlags s OR Update_VAO\<rparr>
      else s)"

text \<open>\<^verbatim>\<open>Renderer::SetVertexBuffer\<close> (lines 1395 to 1410).\<close>

definition SetVertexBuffer ::
  "world \<Rightarrow> nat option \<Rightarrow> ('m, 'rs, 'smp) Renderer \<Rightarrow> ('m, 'rs, 'smp) Renderer" where
  "SetVertexBuffer W vertexBuffer s =
     (if vertexBuffer \<noteq> None \<and> \<not> vb_IsHardware (vertexBuffers W (the vertexBuffer))
      then NazaraError ''Buffer must be hardware'' s
      else if vertexBuffer \<noteq> None \<and> s_vertexBuffer s \<noteq> vertexBuffer
      then s\<lparr>s_vertexBuffer := vertexBuffer, s_updateFlags := s_updateFlags s OR Update_VAO\<rparr>
      else s)"

text \<open>\<^verbatim>\<open>Renderer::SetShader\<close> (lines 1107 to 1125).\<close>

definition SetShader ::
  "world \<Rightarrow> nat option \<Rightarrow> ('m, 'rs, 'smp) Renderer \<Rightarrow> ('m, 'rs, 'smp) Renderer" where
  "SetShader W shader s =
     (if shader \<noteq> None \<and> (\<not> IsValid (shaders W (the shader)) \<or> \<not> IsLinked (shaders W (the shader)))
      then NazaraError ''Invalid shader'' s
      else if s_shader s \<noteq> shader
      then s\<lparr>s_shader := shader, s_updateFlags := s_updateFlags s OR Update_Shader\<rparr>
      else s)"

text \<open>
  \<^verbatim>\<open>Renderer::SetTarget\<close> (lines 1313 to 1348): the value returned and the state
  after the call.
\<close>

definition SetTarget ::
  "world \<Rightarrow> nat option \<Rightarrow> ('m, 'rs, 'smp) Renderer \<Rightarrow> bool \<times> ('m, 'rs, 'smp) Renderer" where
  "SetTarget W target s =
     (if s_target s = target then (True, s)
      else
        let s = (case s_target s of
                   None \<Rightarrow> s
                 | Some old \<Rightarrow>
                     (if \<not> HasContext (targets W old) then issue [Target_Desactivate old] s else s)
                       \<lparr>s_target := None\<rparr>)
        in case target of
             None \<Rightarrow> (True, issue [OpenGL_SetTarget (s_target s)] s)
           | Some t \<Rightarrow>
               if \<not> IsRenderable (targets W t)
               then (False, NazaraError ''Target not renderable'' s)
               else
                 let s = issue [Target_Activate t] s
                 in if \<not> Activate (targets W t)
                    then (False, NazaraError ''Failed to activate target'' s)
                    else
                      let s = s\<lparr>s_target := Some t\<rparr>
                      in (True, issue [OpenGL_SetTarget (s_target s)] s))"

text \<open>\<^verbatim>\<open>Renderer::EnableInstancing\<close> (lines 1468 to 1475).\<close>

definition EnableInstancing :: "bool \<Rightarrow> ('m, 'rs, 'smp) Renderer \<Rightarrow> ('m, 'rs, 'smp) Renderer" where
  "EnableInstancing instancing s =
     (if s_instancing s \<noteq> instancing
      then s\<lparr>s_updateFlags := s_updateFlags s OR Update_VAO, s_instancing := instancing\<rparr>
      else s)"

subsection \<open>Release notifications\<close>

text \<open>
  The loop shared by \<^verbatim>\<open>OnIndexBufferRelease\<close>, \<^verbatim>\<open>OnVertexBufferRelease\<close> and
  \<^verbatim>\<open>OnVertexDeclarationRelease\<close> (lines 1870 to 1976): in the map of every context,
  each entry whose key satisfies the test is handed to \<^verbatim>\<open>OpenGL::DeleteVertexArray\<close>
  with its context and erased.
\<close>

definition deleted_VAOs :: "(VAO_Key \<Rightarrow> bool) \<Rightarrow> Context_Map \<Rightarrow> ('m, 'rs, 'smp) command list" where
  "deleted_VAOs P vaos =
     concat (map (\<lambda>(context, entry).
                    map (\<lambda>(key, e). OpenGL_DeleteVertexArray context (vao e))
                        (filter (\<lambda>(key, e). P key) (vaoMap entry)))
                 vaos)"

definition erase_VAOs :: "(VAO_Key \<Rightarrow> bool) \<Rightarrow> Context_Map \<Rightarrow> Context_Map" where
  "erase_VAOs P vaos =
     map (\<lambda>(context, entry).
            (context, entry\<lparr>vaoMap := filter (\<lambda>(key, e). \<not> P key) (vaoMap entry)\<rparr>))
         vaos"

definition release_VAOs ::
  "(VAO_Key \<Rightarrow> bool) \<Rightarrow> ('m, 'rs, 'smp) Renderer \<Rightarrow> ('m, 'rs, 'smp) Renderer" where
  "release_VAOs P s = issue (deleted_VAOs P (s_vaos s)) (s\<lparr>s_vaos := erase_VAOs P (s_vaos s)\<rparr>)"

definition OnIndexBufferRelease ::
  "nat option \<Rightarrow> ('m, 'rs, 'smp) Renderer \<Rightarrow> ('m, 'rs, 'smp) Renderer" where
  "OnIndexBufferRelease indexBuffer s =
     release_VAOs (\<lambda>(vaoIndexBuffer, vaoVertexBuffer, vaoVertexDeclaration, vaoInstancingDeclaration).
                     vaoIndexBuffer = indexBuffer) s"

definition OnVertexBufferRelease ::
  "nat option \<Rightarrow> ('m, 'rs, 'smp) Renderer \<Rightarrow> ('m, 'rs, 'smp) Renderer" where
  "OnVertexBufferRelease vertexBuffer s =
     release_VAOs (\<lambda>(vaoIndexBuffer, vaoVertexBuffer, vaoVertexDeclaration, vaoInstancingDeclaration).
                     vaoVertexBuffer = vertexBuffer) s"

definition OnVertexDeclarationRelease ::
  "nat option \<Rightarrow> ('m, 'rs, 'smp) Renderer \<Rightarrow> ('m, 'rs, 'smp) Renderer" where
  "OnVertexDeclarationRelease vertexDeclaration s =
     release_VAOs (\<lambda>(vaoIndexBuffer, vaoVertexBuffer, vaoVertexDeclaration, vaoInstancingDeclaration).
                     vaoVertexDeclaration = vertexDeclaration
                     \<or> vaoInstancingDeclaration = vertexDeclaration) s"

text \<open>\<^verbatim>\<open>Renderer::OnContextRelease\<close> (lines 1865 to 1868).\<close>

definition OnContextRelease :: "nat \<Rightarrow> ('m, 'rs, 'smp) Renderer \<Rightarrow> ('m, 'rs, 'smp) Renderer" where
  "OnContextRelease context s = s\<lparr>s_vaos := filter (\<lambda>(c, entry). c \<noteq> context) (s_vaos s)\<rparr>"

text \<open>\<^verbatim>\<open>Renderer::OnShaderReleased\<close> (lines 1899 to 1906).\<close>

definition OnShaderReleased :: "nat option \<Rightarrow> ('m, 'rs, 'smp) Renderer \<Rightarrow> ('m, 'rs, 'smp) Renderer" where
  "OnShaderReleased shader s =
     (if s_shader s = shader
      then s\<lparr>s_shader := None, s_updateFlags := s_updateFlags s OR Update_Shader\<rparr>
      else s)"

subsection \<open>Reconciliation\<close>

text \<open>
  What the C++ leaves undefined: reading through a null pointer and indexing a vector
  out of range. A function of the embedding that can reach one of them returns
  \<open>Inl\<close> of the fault.
\<close>

datatype fault = NullPointerDereference | OutOfBounds

text \<open>\<^verbatim>\<open>Renderer::IsComponentTypeSupported\<close> (lines 825 to 854).\<close>

fun IsComponentTypeSupported :: "world \<Rightarrow> ComponentType \<Rightarrow> bool" where
  "IsComponentTypeSupported W ComponentType_Color = True"
| "IsComponentTypeSupported W ComponentType_Float1 = True"
| "IsComponentTypeSupported W ComponentType_Float2 = True"
| "IsComponentTypeSupported W ComponentType_Float3 = True"
| "IsComponentTypeSupported W ComponentType_Float4 = True"
| "IsComponentTypeSupported W ComponentType_Double1 = has_glVertexAttribLPointer W"
| "IsComponentTypeSupported W ComponentType_Double2 = has_glVertexAttribLPointer W"
| "IsComponentTypeSupported W ComponentType_Double3 = has_glVertexAttribLPointer W"
| "IsComponentTypeSupported W ComponentType_Double4 = has_glVertexAttribLPointer W"
| "IsComponentTypeSupported W ComponentType_Int1 = has_glVertexAttribIPointer W"
| "IsComponentTypeSupported W ComponentType_Int2 = has_glVertexAttribIPointer W"
| "IsComponentTypeSupported W ComponentType_Int3 = has_glVertexAttribIPointer W"
| "IsComponentTypeSupported W ComponentType_Int4 = has_glVertexAttribIPointer W"
| "IsComponentTypeSupported W ComponentType_Quaternion = False"

text \<open>
  Lines 1509 to 1531 of \<^verbatim>\<open>EnsureStateUpdate\<close>: the program has changed, the
  location of every matrix is asked of the new program.
\<close>

definition resolve_locations ::
  "world \<Rightarrow> nat \<Rightarrow> ('m, 'rs, 'smp) Renderer \<Rightarrow> ('m, 'rs, 'smp) Renderer" where
  "resolve_locations W shader s =
     (let loc = GetUniformLocation (shaders W shader);
          s = set_location MatrixType_Projection (loc ShaderUniform_ProjMatrix) s;
          s = set_location MatrixType_View (loc ShaderUniform_ViewMatrix) s;
          s = set_location MatrixType_World (loc ShaderUniform_WorldMatrix) s;
          s = set_location MatrixType_ViewProj (loc ShaderUniform_ViewProjMatrix) s;
          s = set_location MatrixType_WorldView (loc ShaderUniform_WorldViewMatrix) s;
          s = set_location MatrixType_WorldViewProj (loc ShaderUniform_WorldViewProjMatrix) s;
          s = set_location MatrixType_InvProjection (loc ShaderUniform_InvProjMatrix) s;
          s = set_location MatrixType_InvView (loc ShaderUniform_InvViewMatrix) s;
          s = set_location MatrixType_InvViewProj (loc ShaderUniform_InvViewProjMatrix) s;
          s = set_location MatrixType_InvWorld (loc ShaderUniform_InvWorldMatrix) s;
          s = set_location MatrixType_InvWorldView (loc ShaderUniform_InvWorldViewMatrix) s;
          s = set_location MatrixType_InvWorldViewProj (loc ShaderUniform_InvWorldViewProjMatrix) s;
          s = s\<lparr>s_targetSize := (0, 0)\<rparr>;
          s = s\<lparr>s_updateFlags := s_updateFlags s OR Update_Matrices\<rparr>
      in s\<lparr>s_updateFlags := s_updateFlags s AND NOT Update_Shader\<rparr>)"

text \<open>Lines 1533 to 1548: the uniforms that depend on the size of the target.\<close>

definition send_target_size ::
  "world \<Rightarrow> nat \<Rightarrow> nat \<Rightarrow> ('m, 'rs, 'smp) Renderer \<Rightarrow> ('m, 'rs, 'smp) Renderer" where
  "send_target_size W shader target s =
     (let targetSize = (GetWidth (targets W target), GetHeight (targets W target))
      in if s_targetSize s \<noteq> targetSize
         then
           let loc = GetUniformLocation (shaders W shader) ShaderUniform_InvTargetSize;
               s = (if loc \<noteq> -1 then issue [Shader_SendInvTargetSize shader loc targetSize] s else s);
               loc = GetUniformLocation (shaders W shader) ShaderUniform_TargetSize;
               s = (if loc \<noteq> -1 then issue [Shader_SendTargetSize shader loc targetSize] s else s)
           in s\<lparr>s_targetSize := targetSize\<rparr>
         else s)"

text \<open>
  Lines 1552 to 1584: the dirty texture units. The source has one loop for sampler
  objects and one without; \<open>s_useSamplerObjects\<close> does not change in between, so it
  is tested at each unit here.
\<close>

fun apply_samplers ::
  "nat list \<Rightarrow> ('m, 'rs, 'smp) Renderer \<Rightarrow> fault + ('m, 'rs, 'smp) Renderer" where
  "apply_samplers [] s = Inr s"
| "apply_samplers (i # rest) s =
     (if i \<ge> length (s_textureUnits s) then Inl OutOfBounds
      else
        let unit = s_textureUnits s ! i
        in case texture unit of
             None \<Rightarrow> apply_samplers rest s
           | Some tex \<Rightarrow>
               if \<not> samplerUpdated unit
               then
                 let s = (if s_useSamplerObjects s
                          then issue [Sampler_Bind (sampler unit) i] s
                          else issue [OpenGL_BindTextureUnit i, Sampler_Apply (sampler unit) tex] s);
                     s = s\<lparr>s_textureUnits := (s_textureUnits s)[i := unit\<lparr>samplerUpdated := True\<rparr>]\<rparr>
                 in apply_samplers rest s
               else apply_samplers rest s)"

definition update_textures :: "('m, 'rs, 'smp) Renderer \<Rightarrow> fault + ('m, 'rs, 'smp) Renderer" where
  "update_textures s =
     (case apply_samplers (s_dirtyTextureUnits s) s of
        Inl f \<Rightarrow> Inl f
      | Inr s \<Rightarrow>
          Inr (s\<lparr>s_dirtyTextureUnits := [], s_updateFlags := s_updateFlags s AND NOT Update_Textures\<rparr>))"

text \<open>
  Lines 1586 to 1601: every matrix the program has a location for is brought up to date
  and sent, from \<^verbatim>\<open>i = 0\<close> to \<^verbatim>\<open>MatrixType_Max\<close>.
\<close>

definition all_MatrixTypes :: "MatrixType list" where
  "all_MatrixTypes =
     [MatrixType_Projection, MatrixType_View, MatrixType_World,
      MatrixType_ViewProj, MatrixType_WorldView, MatrixType_WorldViewProj,
      MatrixType_InvProjection, MatrixType_InvView, MatrixType_InvViewProj,
      MatrixType_InvWorld, MatrixType_InvWorldView, MatrixType_InvWorldViewProj]"

fun send_matrices ::
  "'m Matrix4_ops \<Rightarrow> nat \<Rightarrow> MatrixType list \<Rightarrow> ('m, 'rs, 'smp) Renderer \<Rightarrow> ('m, 'rs, 'smp) Renderer" where
  "send_matrices M shader [] s = s"
| "send_matrices M shader (i # rest) s =
     (if location (s_matrices s i) \<noteq> -1
      then
        let s = (if \<not> updated (s_matrices s i) then UpdateMatrix M i s else s);
            s = issue [Shader_SendMatrix shader (location (s_matrices s i)) (matrix (s_matrices s i))] s
        in send_matrices M shader rest s
      else send_matrices M shader rest s)"

definition update_matrices ::
  "'m Matrix4_ops \<Rightarrow> nat \<Rightarrow> ('m, 'rs, 'smp) Renderer \<Rightarrow> ('m, 'rs, 'smp) Renderer" where
  "update_matrices M shader s =
     (let s = send_matrices M shader all_MatrixTypes s
      in s\<lparr>s_updateFlags := s_updateFlags s AND NOT Update_Matrices\<rparr>)"

text \<open>
  Lines 1714 to 1776: the switch on the type of an enabled component. The default
  case reports an internal error and sets no pointer.
\<close>

fun set_attribute_pointer ::
  "nat \<Rightarrow> ComponentType \<Rightarrow> nat \<Rightarrow> nat \<Rightarrow> ('m, 'rs, 'smp) Renderer \<Rightarrow> ('m, 'rs, 'smp) Renderer" where
  "set_attribute_pointer index ComponentType_Color stride pointer s =
     issue [glVertexAttribPointer index ComponentType_Color True stride pointer] s"
| "set_attribute_pointer index ComponentType_Double1 stride pointer s =
     issue [glVertexAttribLPointer index ComponentType_Double1 stride pointer] s"
| "set_attribute_pointer index ComponentType_Double2 stride pointer s =
     issue [glVertexAttribLPointer index ComponentType_Double2 stride pointer] s"
| "set_attribute_pointer index ComponentType_Double3 stride pointer s =
     issue [glVertexAttribLPointer index ComponentType_Double3 stride pointer] s"
| "set_attribute_pointer index ComponentType_Double4 stride pointer s =
     issue [glVertexAttribLPointer index ComponentType_Double4 stride pointer] s"
| "set_attribute_pointer index ComponentType_Float1 stride pointer s =
     issue [glVertexAttribPointer index ComponentType_Float1 False stride pointer] s"
| "set_attribute_pointer index ComponentType_Float2 stride pointer s =
     issue [glVertexAttribPointer index ComponentType_Float2 False stride pointer] s"
| "set_attribute_pointer index ComponentType_Float3 stride pointer s =
     issue [glVertexAttribPointer index ComponentType_Float3 False stride pointer] s"
| "set_attribute_pointer index ComponentType_Float4 stride pointer s =
     issue [glVertexAttribPointer index ComponentType_Float4 False stride pointer] s"
| "set_attribute_pointer index ComponentType_Int1 stride pointer s =
     issue [glVertexAttribIPointer index ComponentType_Int1 stride pointer] s"
| "set_attribute_pointer index ComponentType_Int2 stride pointer s =
     issue [glVertexAttribIPointer index ComponentType_Int2 stride pointer] s"
| "set_attribute_pointer index ComponentType_Int3 stride pointer s =
     issue [glVertexAttribIPointer index ComponentType_Int3 stride pointer] s"
| "set_attribute_pointer index ComponentType_Int4 stride pointer s =
     issue [glVertexAttribIPointer index ComponentType_Int4 stride pointer] s"
| "set_attribute_pointer index ComponentType_Quaternion stride pointer s =
     NazaraError ''Unsupported component type'' s"

text \<open>
  Lines 1696 to 1783: the loop over the components \<open>j\<close> of one declaration, in
  iteration \<open>i\<close> of the outer loop (0 for the vertex buffer, 1 for the instance
  buffer). The result says whether the loop was left by the \<^verbatim>\<open>break\<close> that sets
  \<^verbatim>\<open>updateFailed\<close>. The error message of the source also spells out the pointer
  and the numbers of the component and of its type.
\<close>

fun declare_components ::
  "world \<Rightarrow> nat \<Rightarrow> nat \<Rightarrow> VertexDeclaration \<Rightarrow> nat list \<Rightarrow> ('m, 'rs, 'smp) Renderer
   \<Rightarrow> bool \<times> ('m, 'rs, 'smp) Renderer" where
  "declare_components W i bufferOffset decl [] s = (False, s)"
| "declare_components W i bufferOffset decl (j # rest) s =
     (case GetComponent decl j of (enabled, type, offset) \<Rightarrow>
        if enabled
        then
          if \<not> IsComponentTypeSupported W type
          then (True, NazaraError ''Invalid vertex declaration: vertex component is not supported'' s)
          else
            let s = issue [glEnableVertexAttribArray (VertexComponentIndex W j)] s;
                s = set_attribute_pointer (VertexComponentIndex W j) type (GetStride decl)
                      (bufferOffset + offset) s;
                s = (if i = 1 then issue [glVertexAttribDivisor (VertexComponentIndex W j) 1] s else s)
            in declare_components W i bufferOffset decl rest s
        else
          declare_components W i bufferOffset decl rest
            (issue [glDisableVertexAttribArray (VertexComponentIndex W j)] s))"

text \<open>
  Lines 1684 to 1783: one iteration of the outer loop, on the vertex buffer
  (\<open>i = 0\<close>) or on the instance buffer (\<open>i = 1\<close>).
\<close>

definition program_buffer ::
  "world \<Rightarrow> nat \<Rightarrow> VertexBuffer \<Rightarrow> ('m, 'rs, 'smp) Renderer
   \<Rightarrow> fault + (bool \<times> ('m, 'rs, 'smp) Renderer)" where
  "program_buffer W i vertexBuffer s =
     (let s = issue [glBindBuffer BufferType_Vertex (vb_GetOpenGLID vertexBuffer)] s;
          bufferOffset = vb_GetStartOffset vertexBuffer
      in case vb_GetVertexDeclaration vertexBuffer of
           None \<Rightarrow> Inl NullPointerDereference
         | Some d \<Rightarrow>
             let start = (if i = 0 then VertexComponent_FirstVertexData W
                          else VertexComponent_FirstInstanceData W);
                 end = (if i = 0 then VertexComponent_LastVertexData W
                        else VertexComponent_LastInstanceData W)
             in Inr (declare_components W i bufferOffset (vertexDeclarations W d)
                       [start ..< Suc end] s))"

text \<open>
  Lines 1678 to 1806, the body of \<^verbatim>\<open>if (update)\<close>: both iterations of the outer
  loop (the second only when instancing), the instance attributes switched off when
  not instancing, the index buffer, and the buffer bindings invalidated. The result
  is \<^verbatim>\<open>updateFailed\<close> and the state.
\<close>

definition program_attributes ::
  "world \<Rightarrow> nat \<Rightarrow> ('m, 'rs, 'smp) Renderer \<Rightarrow> fault + (bool \<times> ('m, 'rs, 'smp) Renderer)" where
  "program_attributes W vb s =
     (case program_buffer W 0 (vertexBuffers W vb) s of
        Inl f \<Rightarrow> Inl f
      | Inr (failed0, s) \<Rightarrow>
          (case (if s_instancing s then program_buffer W 1 (s_instanceBuffer s) s
                 else Inr (False, s)) of
             Inl f \<Rightarrow> Inl f
           | Inr (failed1, s) \<Rightarrow>
               let s = (if \<not> s_instancing s
                        then issue (map (\<lambda>i. glDisableVertexAttribArray (VertexComponentIndex W i))
                                      [VertexComponent_FirstInstanceData W ..<
                                         Suc (VertexComponent_LastInstanceData W)]) s
                        else s);
                   s = (case s_indexBuffer s of
                          Some ib \<Rightarrow> issue [glBindBuffer BufferType_Index (ib_GetOpenGLID (indexBuffers W ib))] s
                        | None \<Rightarrow> issue [glBindBuffer BufferType_Index 0] s);
                   s = issue [OpenGL_SetBuffer BufferType_Index 0, OpenGL_SetBuffer BufferType_Vertex 0] s
               in Inr (failed0 \<or> failed1, s)))"

text \<open>Access to the \<^verbatim>\<open>VAO_Map\<close> of one context inside \<^verbatim>\<open>s_vaos\<close>.\<close>

definition context_vaoMap :: "Context_Map \<Rightarrow> nat \<Rightarrow> VAO_Map" where
  "context_vaoMap vaos context =
     (case map_of vaos context of None \<Rightarrow> [] | Some entry \<Rightarrow> vaoMap entry)"

definition map_vaoMap :: "nat \<Rightarrow> (VAO_Map \<Rightarrow> VAO_Map) \<Rightarrow> Context_Map \<Rightarrow> Context_Map" where
  "map_vaoMap context f vaos =
     map (\<lambda>(c, entry). if c = context then (c, entry\<lparr>vaoMap := f (vaoMap entry)\<rparr>) else (c, entry))
         vaos"

text \<open>The key built at lines 1634 to 1636.\<close>

definition VAO_key :: "world \<Rightarrow> nat \<Rightarrow> ('m, 'rs, 'smp) Renderer \<Rightarrow> VAO_Key" where
  "VAO_key W vb s =
     (let vertexDeclaration = vb_GetVertexDeclaration (vertexBuffers W vb);
          instancingDeclaration =
            (if s_instancing s then vb_GetVertexDeclaration (s_instanceBuffer s) else None)
      in (s_indexBuffer s, s_vertexBuffer s, vertexDeclaration, instancingDeclaration))"

text \<open>
  Lines 1617 to 1672, the vertex-array objects being supported: the map of the current
  context is created when missing, the key is looked up, and a missing entry is
  created with a new vertex array. The result is \<^verbatim>\<open>update\<close>, the key of the
  entry \<^verbatim>\<open>vaoIt\<close> points to, and the state. Connecting the slot of the vertex
  declaration reads through the declaration pointer.
\<close>

definition find_or_create_VAO ::
  "world \<Rightarrow> nat \<Rightarrow> nat \<Rightarrow> ('m, 'rs, 'smp) Renderer
   \<Rightarrow> fault + (bool \<times> VAO_Key \<times> ('m, 'rs, 'smp) Renderer)" where
  "find_or_create_VAO W context vb s =
     (let s = (if map_of (s_vaos s) context = None
               then s\<lparr>s_vaos := s_vaos s @ [(context, \<lparr>vaoMap = [], onReleaseSlot = Some context\<rparr>)]\<rparr>
               else s);
          key = VAO_key W vb s
      in case map_of (context_vaoMap (s_vaos s) context) key of
           None \<Rightarrow>
             let h = Suc (gl_genCount s);
                 s = s\<lparr>gl_genCount := h, s_currentVAO := h\<rparr>;
                 s = issue [glGenVertexArrays h, glBindVertexArray h] s;
                 entry = \<lparr>vao = s_currentVAO s,
                          onIndexBufferReleaseSlot = s_indexBuffer s,
                          onVertexBufferReleaseSlot = s_vertexBuffer s,
                          onInstancingDeclarationReleaseSlot = snd (snd (snd key)),
                          onVertexDeclarationReleaseSlot = fst (snd (snd key))\<rparr>
             in if fst (snd (snd key)) = None then Inl NullPointerDereference
                else Inr (True, key,
                          s\<lparr>s_vaos := map_vaoMap context (\<lambda>m. m @ [(key, entry)]) (s_vaos s)\<rparr>)
         | Some entry \<Rightarrow> Inr (False, key, s\<lparr>s_currentVAO := vao entry\<rparr>))"

text \<open>
  Lines 1812 to 1818: the build has failed; the vertex array of the entry is deleted
  and the entry stays in the map with the handle 0.
\<close>

definition mark_VAO_failed ::
  "nat \<Rightarrow> VAO_Key \<Rightarrow> ('m, 'rs, 'smp) Renderer \<Rightarrow> ('m, 'rs, 'smp) Renderer" where
  "mark_VAO_failed context key s =
     (let s = (case map_of (context_vaoMap (s_vaos s) context) key of
                 None \<Rightarrow> s
               | Some entry \<Rightarrow> issue [glDeleteVertexArrays (vao entry)] s);
          s = s\<lparr>s_vaos := map_vaoMap context
                              (map (\<lambda>(k, entry). if k = key then (k, entry\<lparr>vao := 0\<rparr>) else (k, entry)))
                              (s_vaos s)\<rparr>
      in s\<lparr>s_currentVAO := 0\<rparr>)"

text \<open>
  Lines 1603 to 1826, the block under \<^verbatim>\<open>Update_VAO\<close>. The result is whether
  \<^verbatim>\<open>EnsureStateUpdate\<close> goes on (false: it returns false here) and the state.
\<close>

definition update_VAO ::
  "world \<Rightarrow> nat \<Rightarrow> ('m, 'rs, 'smp) Renderer \<Rightarrow> fault + (bool \<times> ('m, 'rs, 'smp) Renderer)" where
  "update_VAO W context s =
     (case s_vertexBuffer s of
        None \<Rightarrow> Inr (False, NazaraError ''No vertex buffer'' s)
      | Some vb \<Rightarrow>
          (case (if s_useVertexArrayObjects s
                 then find_or_create_VAO W context vb s
                 else Inr (True, VAO_key W vb s, s)) of
             Inl f \<Rightarrow> Inl f
           | Inr (update, key, s) \<Rightarrow>
               (case (if update then program_attributes W vb s else Inr (False, s)) of
                  Inl f \<Rightarrow> Inl f
                | Inr (updateFailed, s) \<Rightarrow>
                    if s_useVertexArrayObjects s
                    then
                      let s = (if update
                               then (if updateFailed then mark_VAO_failed context key s
                                     else issue [glBindVertexArray 0] s)
                               else s)
                      in Inr (True, s\<lparr>s_updateFlags := s_updateFlags s AND NOT Update_VAO\<rparr>)
                    else Inr (True, s))))"

text \<open>Lines 1550 to 1832, the block under \<^verbatim>\<open>s_updateFlags != Update_None\<close>.\<close>

definition update_flagged ::
  "world \<Rightarrow> 'm Matrix4_ops \<Rightarrow> nat \<Rightarrow> nat \<Rightarrow> ('m, 'rs, 'smp) Renderer
   \<Rightarrow> fault + (bool \<times> ('m, 'rs, 'smp) Renderer)" where
  "update_flagged W M context shader s =
     (if s_updateFlags s \<noteq> Update_None
      then
        (case (if s_updateFlags s AND Update_Textures \<noteq> 0 then update_textures s else Inr s) of
           Inl f \<Rightarrow> Inl f
         | Inr s \<Rightarrow>
             let s = (if s_updateFlags s AND Update_Matrices \<noteq> 0 then update_matrices M shader s
                      else s)
             in case (if s_updateFlags s AND Update_VAO \<noteq> 0 then update_VAO W context s
                      else Inr (True, s)) of
                  Inl f \<Rightarrow> Inl f
                | Inr (False, s) \<Rightarrow> Inr (False, s)
                | Inr (True, s) \<Rightarrow>
                    Inr (True,
                         if s_updateFlags s \<noteq> Update_None \<and> \<not> s_useVertexArrayObjects s
                            \<and> s_updateFlags s \<noteq> Update_VAO
                         then NazaraWarning ''Update flags not fully cleared'' s
                         else s))
      else Inr (True, s))"

text \<open>Lines 1846 to 1857: the textures of all units are bound again.\<close>

fun bind_textures ::
  "world \<Rightarrow> nat list \<Rightarrow> ('m, 'rs, 'smp) Renderer \<Rightarrow> fault + ('m, 'rs, 'smp) Renderer" where
  "bind_textures W [] s = Inr s"
| "bind_textures W (i # rest) s =
     (if i \<ge> length (s_textureUnits s) then Inl OutOfBounds
      else
        case texture (s_textureUnits s ! i) of
          None \<Rightarrow> bind_textures W rest s
        | Some tex \<Rightarrow>
            bind_textures W rest
              (issue [OpenGL_BindTexture i (tex_GetType (textures W tex)) (tex_GetOpenGLID (textures W tex)),
                      Texture_EnsureMipmapsUpdate tex] s))"

text \<open>
  \<^verbatim>\<open>Renderer::EnsureStateUpdate\<close> (lines 1477 to 1863), between the constructor and
  the destructor of its \<^verbatim>\<open>ErrorFlags\<close> object.
\<close>

definition EnsureStateUpdate_body ::
  "world \<Rightarrow> 'm Matrix4_ops \<Rightarrow> ('m, 'rs, 'smp) Renderer \<Rightarrow> fault + (bool \<times> ('m, 'rs, 'smp) Renderer)" where
  "EnsureStateUpdate_body W M s =
     (case Context_GetCurrent W of
        None \<Rightarrow> Inr (False, NazaraError ''No active context'' s)
      | Some context \<Rightarrow>
     (case s_shader s of
        None \<Rightarrow> Inr (False, NazaraError ''No shader'' s)
      | Some shader \<Rightarrow>
     (case s_target s of
        None \<Rightarrow> Inr (False, NazaraError ''No target'' s)
      | Some target \<Rightarrow>
          let s = issue [Target_EnsureTargetUpdated target] s;
              s = issue [Shader_Bind shader] s;
              s = (if s_updateFlags s AND Update_Shader \<noteq> 0 then resolve_locations W shader s else s);
              s = send_target_size W shader target s
          in case update_flagged W M context shader s of
               Inl f \<Rightarrow> Inl f
             | Inr (False, s) \<Rightarrow> Inr (False, s)
             | Inr (True, s) \<Rightarrow>
                 if s_useVertexArrayObjects s \<and> s_currentVAO s = 0
                 then Inr (False, NazaraError ''Failed to create VAO'' s)
                 else
                   let s = (if s_useVertexArrayObjects s
                            then issue [glBindVertexArray (s_currentVAO s)] s else s)
                   in case bind_textures W [0 ..< s_maxTextureUnit s] s of
                        Inl f \<Rightarrow> Inl f
                      | Inr s \<Rightarrow> Inr (True, issue [OpenGL_ApplyStates (s_states s)] s))))"

definition EnsureStateUpdate ::
  "world \<Rightarrow> 'm Matrix4_ops \<Rightarrow> ('m, 'rs, 'smp) Renderer \<Rightarrow> fault + (bool \<times> ('m, 'rs, 'smp) Renderer)" where
  "EnsureStateUpdate W M s =
     (case EnsureStateUpdate_body W M (s\<lparr>ErrorFlag_Silent := True\<rparr>) of
        Inl f \<Rightarrow> Inl f
      | Inr (ok, s') \<Rightarrow> Inr (ok, s'\<lparr>ErrorFlag_Silent := ErrorFlag_Silent s\<rparr>))"

subsection \<open>Draw calls\<close>

text \<open>
  \<^verbatim>\<open>Renderer::DrawPrimitives\<close> (lines 338 to 366). A \<open>PrimitiveMode\<close> is never
  "out of enum".
\<close>

definition DrawPrimitives ::
  "world \<Rightarrow> 'm Matrix4_ops \<Rightarrow> PrimitiveMode \<Rightarrow> nat \<Rightarrow> nat \<Rightarrow> ('m, 'rs, 'smp) Renderer
   \<Rightarrow> fault + ('m, 'rs, 'smp) Renderer" where
  "DrawPrimitives W M mode firstVertex vertexCount s =
     (if Context_GetCurrent W = None then Inr (NazaraError ''No active context'' s)
      else
        let s = EnableInstancing False s
        in case EnsureStateUpdate W M s of
             Inl f \<Rightarrow> Inl f
           | Inr (False, s) \<Rightarrow> Inr (NazaraError (''Failed to update states: '' @ lastError s) s)
           | Inr (True, s) \<Rightarrow>
               let s = issue [glDrawArrays mode firstVertex vertexCount] s
               in Inr (if s_useVertexArrayObjects s then issue [glBindVertexArray 0] s else s))"

text \<open>
  \<^verbatim>\<open>Renderer::DrawPrimitivesInstanced\<close> (lines 368 to 417). The message of the
  last check also spells out the instance count and the configured maximum.
\<close>

definition DrawPrimitivesInstanced ::
  "world \<Rightarrow> 'm Matrix4_ops \<Rightarrow> nat \<Rightarrow> PrimitiveMode \<Rightarrow> nat \<Rightarrow> nat \<Rightarrow> ('m, 'rs, 'smp) Renderer
   \<Rightarrow> fault + ('m, 'rs, 'smp) Renderer" where
  "DrawPrimitivesInstanced W M instanceCount mode firstVertex vertexCount s =
     (if Context_GetCurrent W = None then Inr (NazaraError ''No active context'' s)
      else if \<not> s_capabilities s RendererCap_Instancing
      then Inr (NazaraError ''Instancing not supported'' s)
      else if instanceCount = 0
      then Inr (NazaraError ''Instance count must be over zero'' s)
      else if instanceCount > vb_GetVertexCount (s_instanceBuffer s)
      then Inr (NazaraError ''Instance count is over maximum instance count'' s)
      else
        let s = EnableInstancing True s
        in case EnsureStateUpdate W M s of
             Inl f \<Rightarrow> Inl f
           | Inr (False, s) \<Rightarrow> Inr (NazaraError (''Failed to update states: '' @ lastError s) s)
           | Inr (True, s) \<Rightarrow>
               let s = issue [glDrawArraysInstanced mode firstVertex vertexCount instanceCount] s
               in Inr (if s_useVertexArrayObjects s then issue [glBindVertexArray 0] s else s))"

subsection \<open>Module start and stop\<close>

text \<open>
  What \<^verbatim>\<open>Initialize\<close> and \<^verbatim>\<open>Uninitialize\<close> get from outside the source at hand:
  the outcome of each step that can fail, the extensions the backend supports, the
  number of texture units it reports, the default render states and sampler, the
  instance buffer as \<^verbatim>\<open>Reset\<close> with a size leaves it (\<open>None\<close>: the exception is
  thrown), and a vertex buffer as \<^verbatim>\<open>Reset()\<close> leaves it.
\<close>

datatype OpenGLExtension =
    OpenGLExtension_AnisotropicFilter
  | OpenGLExtension_ConditionalRender
  | OpenGLExtension_DrawInstanced
  | OpenGLExtension_FP64
  | OpenGLExtension_FrameBufferObject
  | OpenGLExtension_InstancedArray
  | OpenGLExtension_PixelBufferObject
  | OpenGLExtension_SamplerObjects
  | OpenGLExtension_VertexArrayObjects

record ('rs, 'smp) startup =
  Utility_Initialize :: bool
  OpenGL_Initialize :: bool
  OpenGL_IsSupported :: "OpenGLExtension \<Rightarrow> bool"
  glBindFragDataLocation :: bool
  GL_MAX_COMBINED_TEXTURE_IMAGE_UNITS :: nat
  RenderStates_default :: 'rs
  TextureSampler_default :: 'smp
  fullscreenQuadBuffer_Fill :: bool
  instanceBuffer_Reset :: "VertexBuffer option"
  VertexBuffer_empty :: VertexBuffer
  RenderBuffer_Initialize :: bool
  Shader_Initialize :: bool
  Texture_Initialize :: bool
  TextureSampler_Initialize :: bool
  UberShader_Initialize :: bool
  debugShader_Create :: bool
  debugShader_AttachFragment :: bool
  debugShader_AttachVertex :: bool
  debugShader_Link :: bool

text \<open>
  \<^verbatim>\<open>Renderer::Uninitialize\<close> (lines 1417 to 1466). The other modules it stops keep
  no state of the renderer.
\<close>

definition Uninitialize ::
  "('rs, 'smp) startup \<Rightarrow> ('m, 'rs, 'smp) Renderer \<Rightarrow> ('m, 'rs, 'smp) Renderer" where
  "Uninitialize E s =
     (if s_moduleReferenceCounter s \<noteq> 1
      then (if s_moduleReferenceCounter s > 1
            then s\<lparr>s_moduleReferenceCounter := s_moduleReferenceCounter s - 1\<rparr>
            else s)
      else
        let s = s\<lparr>s_moduleReferenceCounter := 0\<rparr>;
            s = s\<lparr>s_textureUnits := []\<rparr>;
            s = s\<lparr>s_instanceBuffer := VertexBuffer_empty E\<rparr>;
            s = issue (deleted_VAOs (\<lambda>key. True) (s_vaos s)) s
        in s\<lparr>s_vaos := []\<rparr>)"

text \<open>Lines 625 to 708 of \<^verbatim>\<open>Initialize\<close>: the assignments to the renderer's variables.\<close>

definition Initialize_capabilities :: "('rs, 'smp) startup \<Rightarrow> RendererCap \<Rightarrow> bool" where
  "Initialize_capabilities E cap =
     (case cap of
        RendererCap_AnisotropicFilter \<Rightarrow> OpenGL_IsSupported E OpenGLExtension_AnisotropicFilter
      | RendererCap_ConditionalRendering \<Rightarrow> OpenGL_IsSupported E OpenGLExtension_ConditionalRender
      | RendererCap_FP64 \<Rightarrow> OpenGL_IsSupported E OpenGLExtension_FP64
      | RendererCap_HardwareBuffer \<Rightarrow> True
      | RendererCap_Instancing \<Rightarrow>
          OpenGL_IsSupported E OpenGLExtension_DrawInstanced
          \<and> OpenGL_IsSupported E OpenGLExtension_InstancedArray
      | RendererCap_MultipleRenderTargets \<Rightarrow> glBindFragDataLocation E
      | RendererCap_OcclusionQuery \<Rightarrow> True
      | RendererCap_PixelBufferObject \<Rightarrow> OpenGL_IsSupported E OpenGLExtension_PixelBufferObject
      | RendererCap_RenderTexture \<Rightarrow> OpenGL_IsSupported E OpenGLExtension_FrameBufferObject
      | RendererCap_Texture3D \<Rightarrow> True
      | RendererCap_TextureCubemap \<Rightarrow> True
      | RendererCap_TextureMulti \<Rightarrow> True
      | RendererCap_TextureNPOT \<Rightarrow> True)"

definition resize_textureUnits ::
  "nat \<Rightarrow> 'smp \<Rightarrow> 'smp TextureUnit list \<Rightarrow> 'smp TextureUnit list" where
  "resize_textureUnits n smp units =
     take n units
     @ replicate (n - length units) \<lparr>sampler = smp, texture = None, samplerUpdated = False\<rparr>"

definition Initialize_variables ::
  "('rs, 'smp) startup \<Rightarrow> 'm Matrix4_ops \<Rightarrow> ('m, 'rs, 'smp) Renderer \<Rightarrow> ('m, 'rs, 'smp) Renderer" where
  "Initialize_variables E M s =
     (let s = s\<lparr>s_matrices := (\<lambda>i. \<lparr>matrix = MakeIdentity M, updated = True, location = -1\<rparr>)\<rparr>;
          s = s\<lparr>s_capabilities := Initialize_capabilities E\<rparr>;
          s = s\<lparr>s_maxTextureUnit := (if s_capabilities s RendererCap_TextureMulti
                                      then GL_MAX_COMBINED_TEXTURE_IMAGE_UNITS E else 1)\<rparr>;
          s = s\<lparr>s_states := RenderStates_default E\<rparr>;
          s = s\<lparr>s_indexBuffer := None, s_shader := None, s_target := None, s_targetSize := (0, 0)\<rparr>;
          s = s\<lparr>s_textureUnits :=
                  resize_textureUnits (s_maxTextureUnit s) (TextureSampler_default E) (s_textureUnits s)\<rparr>;
          s = s\<lparr>s_useSamplerObjects := OpenGL_IsSupported E OpenGLExtension_SamplerObjects\<rparr>;
          s = s\<lparr>s_useVertexArrayObjects := OpenGL_IsSupported E OpenGLExtension_VertexArrayObjects\<rparr>;
          s = s\<lparr>s_updateFlags := Update_Matrices OR Update_Shader OR Update_VAO\<rparr>
      in s\<lparr>s_vertexBuffer := None\<rparr>)"

text \<open>Lines 726 to 740: the instance buffer is created when instancing is supported.\<close>

definition Initialize_instanceBuffer ::
  "('rs, 'smp) startup \<Rightarrow> ('m, 'rs, 'smp) Renderer \<Rightarrow> ('m, 'rs, 'smp) Renderer" where
  "Initialize_instanceBuffer E s =
     (if s_capabilities s RendererCap_Instancing
      then (case instanceBuffer_Reset E of
              Some buffer \<Rightarrow> s\<lparr>s_instanceBuffer := buffer\<rparr>
            | None \<Rightarrow>
                NazaraError ''Failed to create instancing buffer''
                  (s\<lparr>s_capabilities := (s_capabilities s)(RendererCap_Instancing := False)\<rparr>))
      else s)"

text \<open>
  Lines 742 to 815: the steps after the buffers, each with the message reported when
  it fails; the first that fails ends the initialization.
\<close>

definition Initialize_steps :: "('rs, 'smp) startup \<Rightarrow> (bool \<times> string) list" where
  "Initialize_steps E =
     [(RenderBuffer_Initialize E, ''Failed to initialize render buffers''),
      (Shader_Initialize E, ''Failed to initialize shaders''),
      (Texture_Initialize E, ''Failed to initialize textures''),
      (TextureSampler_Initialize E, ''Failed to initialize texture samplers''),
      (UberShader_Initialize E, ''Failed to initialize uber shaders''),
      (debugShader_Create E, ''Failed to create debug shader''),
      (debugShader_AttachFragment E, ''Failed to attach fragment stage''),
      (debugShader_AttachVertex E, ''Failed to attach vertex stage''),
      (debugShader_Link E, ''Failed to link shader'')]"

fun first_failure :: "(bool \<times> string) list \<Rightarrow> string option" where
  "first_failure [] = None"
| "first_failure ((ok, msg) # rest) = (if \<not> ok then Some msg else first_failure rest)"

text \<open>
  \<^verbatim>\<open>Renderer::Initialize\<close> (lines 593 to 823). A return of false after the counter
  was raised runs \<^verbatim>\<open>Uninitialize\<close>, through the \<^verbatim>\<open>CallOnExit\<close> object.
\<close>

definition Initialize ::
  "('rs, 'smp) startup \<Rightarrow> 'm Matrix4_ops \<Rightarrow> ('m, 'rs, 'smp) Renderer
   \<Rightarrow> bool \<times> ('m, 'rs, 'smp) Renderer" where
  "Initialize E M s =
     (if s_moduleReferenceCounter s > 0
      then (True, s\<lparr>s_moduleReferenceCounter := s_moduleReferenceCounter s + 1\<rparr>)
      else if \<not> Utility_Initialize E
      then (False, NazaraError ''Failed to initialize Utility module'' s)
      else
        let s = s\<lparr>s_moduleReferenceCounter := s_moduleReferenceCounter s + 1\<rparr>
        in if \<not> OpenGL_Initialize E
           then (False, Uninitialize E (NazaraError ''Failed to initialize OpenGL'' s))
           else
             let s = Initialize_variables E M s
             in if \<not> fullscreenQuadBuffer_Fill E
                then (False, Uninitialize E (NazaraError ''Failed to fill fullscreen quad buffer'' s))
                else
                  let s = Initialize_instanceBuffer E s
                  in case first_failure (Initialize_steps E) of
                       Some msg \<Rightarrow> (False, Uninitialize E (NazaraError msg s))
                     | None \<Rightarrow> (True, s))"

subsection \<open>Notions used to state the properties\<close>

text \<open>A sequence of \<^verbatim>\<open>SetMatrix\<close> calls, in order.\<close>

definition apply_sets ::
  "(MatrixType \<times> 'm) list \<Rightarrow> ('m, 'rs, 'smp) Renderer \<Rightarrow> ('m, 'rs, 'smp) Renderer" where
  "apply_sets calls s = foldl (\<lambda>s (t, m). SetMatrix t m s) s calls"

text \<open>
  The value most recently set for slot \<open>t\<close> by a sequence of calls; \<open>d\<close> when the
  sequence does not set it.
\<close>

fun latest :: "MatrixType \<Rightarrow> (MatrixType \<times> 'm) list \<Rightarrow> 'm \<Rightarrow> 'm" where
  "latest t [] d = d"
| "latest t ((t', m) # cs) d = latest t cs (if t' = t then m else d)"

text \<open>The cached product of view and projection, when marked up to date, is their product.\<close>

definition ViewProj_coherent :: "'m Matrix4_ops \<Rightarrow> ('m, 'rs, 'smp) Renderer \<Rightarrow> bool" where
  "ViewProj_coherent M s \<longleftrightarrow>
     (updated (s_matrices s MatrixType_ViewProj) \<longrightarrow>
      matrix (s_matrices s MatrixType_ViewProj) =
        Concatenate M (matrix (s_matrices s MatrixType_View))
                      (matrix (s_matrices s MatrixType_Projection)))"

text \<open>The matrix an inverse slot is the inverse of.\<close>

fun inverse_source :: "MatrixType \<Rightarrow> MatrixType option" where
  "inverse_source MatrixType_InvProjection = Some MatrixType_Projection"
| "inverse_source MatrixType_InvView = Some MatrixType_View"
| "inverse_source MatrixType_InvViewProj = Some MatrixType_ViewProj"
| "inverse_source MatrixType_InvWorld = Some MatrixType_World"
| "inverse_source MatrixType_InvWorldView = Some MatrixType_WorldView"
| "inverse_source MatrixType_InvWorldViewProj = Some MatrixType_WorldViewProj"
| "inverse_source _ = None"

text \<open>The test \<^verbatim>\<open>if (!s_matrices[t].updated) UpdateMatrix(t)\<close>, as a step of its own.\<close>

definition ensure_updated ::
  "'m Matrix4_ops \<Rightarrow> MatrixType \<Rightarrow> ('m, 'rs, 'smp) Renderer \<Rightarrow> ('m, 'rs, 'smp) Renderer" where
  "ensure_updated M t s = (if \<not> updated (s_matrices s t) then UpdateMatrix M t s else s)"

text \<open>The matrix slot whose location is asked under each uniform name (lines 1512 to 1525).\<close>

fun MatrixType_uniform :: "MatrixType \<Rightarrow> ShaderUniform" where
  "MatrixType_uniform MatrixType_Projection = ShaderUniform_ProjMatrix"
| "MatrixType_uniform MatrixType_View = ShaderUniform_ViewMatrix"
| "MatrixType_uniform MatrixType_World = ShaderUniform_WorldMatrix"
| "MatrixType_uniform MatrixType_ViewProj = ShaderUniform_ViewProjMatrix"
| "MatrixType_uniform MatrixType_WorldView = ShaderUniform_WorldViewMatrix"
| "MatrixType_uniform MatrixType_WorldViewProj = ShaderUniform_WorldViewProjMatrix"
| "MatrixType_uniform MatrixType_InvProjection = ShaderUniform_InvProjMatrix"
| "MatrixType_uniform MatrixType_InvView = ShaderUniform_InvViewMatrix"
| "MatrixType_uniform MatrixType_InvViewProj = ShaderUniform_InvViewProjMatrix"
| "MatrixType_uniform MatrixType_InvWorld = ShaderUniform_InvWorldMatrix"
| "MatrixType_uniform MatrixType_InvWorldView = ShaderUniform_InvWorldViewMatrix"
| "MatrixType_uniform MatrixType_InvWorldViewProj = ShaderUniform_InvWorldViewProjMatrix"

text \<open>The draw commands among the backend commands, and the locations matrices are sent to.\<close>

fun is_draw :: "('m, 'rs, 'smp) command \<Rightarrow> bool" where
  "is_draw (glDrawArrays mode first count) = True"
| "is_draw (glDrawArraysInstanced mode first count instances) = True"
| "is_draw (glDrawElements mode count large offset) = True"
| "is_draw (glDrawElementsInstanced mode count large offset instances) = True"
| "is_draw _ = False"

fun sent_location :: "('m, 'rs, 'smp) command \<Rightarrow> int option" where
  "sent_location (Shader_SendMatrix shader loc m) = Some loc"
| "sent_location _ = None"

definition sent_locations :: "('m, 'rs, 'smp) command list \<Rightarrow> int list" where
  "sent_locations cs = concat (map (\<lambda>c. case sent_location c of None \<Rightarrow> [] | Some l \<Rightarrow> [l]) cs)"

text \<open>The commands issued between two states.\<close>

definition new_commands ::
  "('m, 'rs, 'smp) Renderer \<Rightarrow> ('m, 'rs, 'smp) Renderer \<Rightarrow> ('m, 'rs, 'smp) command list" where
  "new_commands s s' = drop (length (commands s)) (commands s')"

text \<open>The parts of a key.\<close>

definition key_indexBuffer :: "VAO_Key \<Rightarrow> nat option" where
  "key_indexBuffer key = fst key"

definition key_vertexBuffer :: "VAO_Key \<Rightarrow> nat option" where
  "key_vertexBuffer key = fst (snd key)"

definition key_vertexDeclaration :: "VAO_Key \<Rightarrow> nat option" where
  "key_vertexDeclaration key = fst (snd (snd key))"

definition key_instancingDeclaration :: "VAO_Key \<Rightarrow> nat option" where
  "key_instancingDeclaration key = snd (snd (snd key))"

text \<open>The entry cached for a key in the map of a context, if any.\<close>

definition cached_VAO :: "('m, 'rs, 'smp) Renderer \<Rightarrow> nat \<Rightarrow> VAO_Key \<Rightarrow> VAO_Entry option" where
  "cached_VAO s context key = map_of (context_vaoMap (s_vaos s) context) key"


text \<open>An enabled vertex component of a declaration whose type the backend does not support.\<close>

definition unsupported_component :: "world \<Rightarrow> VertexDeclaration \<Rightarrow> nat \<Rightarrow> bool" where
  "unsupported_component W decl j =
     (case GetComponent decl j of (enabled, type, offset) \<Rightarrow>
        enabled \<and> \<not> IsComponentTypeSupported W type)"

text \<open>
  The lookup in a state builds a new entry: it asks for \<^verbatim>\<open>update\<close>, the current
  vertex array is a name the backend has just generated, and the entry cached for the
  key holds that name.
\<close>

definition builds_fresh_VAO :: "world \<Rightarrow> nat \<Rightarrow> nat \<Rightarrow> ('m, 'rs, 'smp) Renderer \<Rightarrow> bool" where
  "builds_fresh_VAO W context vb s =
     (case find_or_create_VAO W context vb s of
        Inl f \<Rightarrow> False
      | Inr (update, key, s') \<Rightarrow>
          update
          \<and> key = VAO_key W vb s
          \<and> s_currentVAO s' = Suc (gl_genCount s)
          \<and> new_commands s s' =
              [glGenVertexArrays (Suc (gl_genCount s)), glBindVertexArray (Suc (gl_genCount s))]
          \<and> map_option vao (cached_VAO s' context key) = Some (Suc (gl_genCount s)))"

text \<open>
  A command that is neither a draw nor the sending of a matrix, and a step from one
  state to another that issues only such commands and otherwise touches the error
  channel only (the report log not at all when the channel is silenced).
\<close>

definition quiet :: "('m, 'rs, 'smp) command \<Rightarrow> bool" where
  "quiet c \<longleftrightarrow> \<not> is_draw c \<and> sent_location c = None"

definition quiet_step :: "('m, 'rs, 'smp) Renderer \<Rightarrow> ('m, 'rs, 'smp) Renderer \<Rightarrow> bool" where
  "quiet_step s s' \<longleftrightarrow>
     (\<exists>cs e r. s' = s\<lparr>commands := commands s @ cs, lastError := e, reports := r\<rparr>
               \<and> list_all quiet cs
               \<and> (ErrorFlag_Silent s \<longrightarrow> r = reports s))"

text \<open>The two ranges of components the attribute loop runs over.\<close>

definition vertex_components :: "world \<Rightarrow> nat list" where
  "vertex_components W =
     [VertexComponent_FirstVertexData W ..< Suc (VertexComponent_LastVertexData W)]"

definition instance_components :: "world \<Rightarrow> nat list" where
  "instance_components W =
     [VertexComponent_FirstInstanceData W ..< Suc (VertexComponent_LastInstanceData W)]"

text \<open>
  The attribute loop meets an unsupported enabled component: in the declaration of the
  vertex buffer or, when instancing, in the declaration of the instance buffer.
\<close>

definition attributes_fail :: "world \<Rightarrow> nat \<Rightarrow> ('m, 'rs, 'smp) Renderer \<Rightarrow> bool" where
  "attributes_fail W vb s \<longleftrightarrow>
     (case vb_GetVertexDeclaration (vertexBuffers W vb) of
        None \<Rightarrow> False
      | Some d \<Rightarrow> list_ex (unsupported_component W (vertexDeclarations W d)) (vertex_components W))
     \<or> (s_instancing s
        \<and> (case vb_GetVertexDeclaration (s_instanceBuffer s) of
             None \<Rightarrow> False
           | Some d \<Rightarrow> list_ex (unsupported_component W (vertexDeclarations W d))
                        (instance_components W)))"

text \<open>No declaration pointer the attribute loop reads through is null.\<close>

definition declarations_present :: "world \<Rightarrow> nat \<Rightarrow> ('m, 'rs, 'smp) Renderer \<Rightarrow> bool" where
  "declarations_present W vb s \<longleftrightarrow>
     vb_GetVertexDeclaration (vertexBuffers W vb) \<noteq> None
     \<and> (\<not> s_instancing s \<or> vb_GetVertexDeclaration (s_instanceBuffer s) \<noteq> None)"

text \<open>
  A step that appends commands, none of them a draw, through which matrices are sent
  to the locations \<open>L\<close>, in that order.
\<close>

definition extends_log ::
  "('m, 'rs, 'smp) Renderer \<Rightarrow> ('m, 'rs, 'smp) Renderer \<Rightarrow> int list \<Rightarrow> bool" where
  "extends_log s s' L \<longleftrightarrow>
     (\<exists>cs. commands s' = commands s @ cs \<and> list_all (\<lambda>c. \<not> is_draw c) cs
           \<and> sent_locations cs = L)"

text \<open>
  A step of the matrix cache: it changes the matrix slots but none of their locations,
  sends matrices to the locations \<open>L\<close>, and may warn when the error channel is not
  silenced.
\<close>

definition matrix_phase ::
  "('m, 'rs, 'smp) Renderer \<Rightarrow> ('m, 'rs, 'smp) Renderer \<Rightarrow> int list \<Rightarrow> bool" where
  "matrix_phase s s' L \<longleftrightarrow>
     (\<exists>mats cs r. s' = s\<lparr>s_matrices := mats, commands := commands s @ cs, reports := r\<rparr>
                 \<and> (\<forall>i. location (mats i) = location (s_matrices s i))
                 \<and> (ErrorFlag_Silent s \<longrightarrow> r = reports s)
                 \<and> list_all (\<lambda>c. \<not> is_draw c) cs
                 \<and> sent_locations cs = L)"

text \<open>
  What no step of a reconciliation changes: the bindings, the capabilities, the render
  states, the number of texture units, the silent flag and, while it is set, the report
  log. With it, a reconciliation step extends the command log.
\<close>

definition reconcile_frame :: "('m, 'rs, 'smp) Renderer \<Rightarrow> ('m, 'rs, 'smp) Renderer \<Rightarrow> bool" where
  "reconcile_frame s s' \<longleftrightarrow>
     s_instanceBuffer s' = s_instanceBuffer s \<and> s_states s' = s_states s
     \<and> s_indexBuffer s' = s_indexBuffer s \<and> s_target s' = s_target s
     \<and> s_shader s' = s_shader s \<and> s_vertexBuffer s' = s_vertexBuffer s
     \<and> s_capabilities s' = s_capabilities s \<and> s_instancing s' = s_instancing s
     \<and> s_useSamplerObjects s' = s_useSamplerObjects s
     \<and> s_useVertexArrayObjects s' = s_useVertexArrayObjects s
     \<and> s_maxTextureUnit s' = s_maxTextureUnit s
     \<and> s_moduleReferenceCounter s' = s_moduleReferenceCounter s
     \<and> ErrorFlag_Silent s' = ErrorFlag_Silent s
     \<and> length (s_textureUnits s') = length (s_textureUnits s)
     \<and> (ErrorFlag_Silent s \<longrightarrow> reports s' = reports s)"

definition reconcile_step ::
  "('m, 'rs, 'smp) Renderer \<Rightarrow> ('m, 'rs, 'smp) Renderer \<Rightarrow> int list \<Rightarrow> bool" where
  "reconcile_step s s' L \<longleftrightarrow> reconcile_frame s s' \<and> extends_log s s' L"

text \<open>The locations the program of a shader has for the matrices, absent ones left out.\<close>

definition program_locations :: "world \<Rightarrow> nat \<Rightarrow> int list" where
  "program_locations W sh =
     filter (\<lambda>l. l \<noteq> - 1)
       (map (\<lambda>i. GetUniformLocation (shaders W sh) (MatrixType_uniform i)) all_MatrixTypes)"

text \<open>The locations the matrix slots of a state have, absent ones left out.\<close>

definition slot_locations :: "('m, 'rs, 'smp) Renderer \<Rightarrow> int list" where
  "slot_locations s =
     filter (\<lambda>l. l \<noteq> - 1) (map (\<lambda>i. location (s_matrices s i)) all_MatrixTypes)"

subsection \<open>Concrete inputs\<close>

text \<open>
  The variables as static storage has them before the first call, given the matrix of
  zeros, the default render states and a default-constructed vertex buffer.
\<close>

definition static_init :: "'m \<Rightarrow> 'rs \<Rightarrow> VertexBuffer \<Rightarrow> ('m, 'rs, 'smp) Renderer" where
  "static_init m0 rs vb =
     \<lparr>s_vaos = [], s_dirtyTextureUnits = [], s_textureUnits = [], s_currentVAO = 0,
      s_instanceBuffer = vb,
      s_matrices = (\<lambda>i. \<lparr>matrix = m0, updated = False, location = 0\<rparr>),
      s_states = rs, s_targetSize = (0, 0), s_updateFlags = 0,
      s_indexBuffer = None, s_target = None, s_shader = None, s_vertexBuffer = None,
      s_capabilities = (\<lambda>cap. False), s_instancing = False,
      s_useSamplerObjects = False, s_useVertexArrayObjects = False,
      s_maxTextureUnit = 0, s_moduleReferenceCounter = 0,
      reports = [], lastError = [], ErrorFlag_Silent = False, commands = [], gl_genCount = 0\<rparr>"

text \<open>One-by-one integer matrices: the product is the product, only 1 and -1 have an inverse.\<close>

definition int_ops :: "int Matrix4_ops" where
  "int_ops =
     \<lparr>MakeIdentity = 1, Concatenate = (\<lambda>a b. a * b), ConcatenateAffine = (\<lambda>a b. a * b),
      Inverse = (\<lambda>a. if a = 1 \<or> a = - 1 then Some a else None)\<rparr>"

definition empty_VertexBuffer :: VertexBuffer where
  "empty_VertexBuffer =
     \<lparr>vb_IsHardware = False, vb_GetVertexDeclaration = None, vb_GetStartOffset = 0,
      vb_GetOpenGLID = 0, vb_GetVertexCount = 0\<rparr>"

definition state0 :: "(int, unit, unit) Renderer" where
  "state0 = static_init 0 () empty_VertexBuffer"

text \<open>
  A world with one kind of each resource: a linked program that has the uniforms of the
  world-view-projection matrix (location 0) and of the view matrix (location 3) only, a
  renderable 800 by 600 target, hardware buffers, and declarations of stride 8 whose one
  enabled component, number 8, is two floats in declaration 0 and a quaternion in every
  other declaration. Vertex buffer \<open>v\<close> has declaration \<open>v\<close>. The vertex
  data are the components 8 and 9, the instance data the components 0 and 1.
\<close>

definition world0 :: world where
  "world0 =
     \<lparr>shaders = (\<lambda>p. \<lparr>IsValid = True, IsLinked = True,
                       GetUniformLocation =
                         (\<lambda>u. if u = ShaderUniform_WorldViewProjMatrix then 0
                               else if u = ShaderUniform_ViewMatrix then 3 else - 1)\<rparr>),
      targets = (\<lambda>p. \<lparr>IsRenderable = True, Activate = True, HasContext = True,
                       GetWidth = 800, GetHeight = 600\<rparr>),
      vertexBuffers = (\<lambda>p. \<lparr>vb_IsHardware = True, vb_GetVertexDeclaration = Some p,
                             vb_GetStartOffset = 0, vb_GetOpenGLID = Suc p, vb_GetVertexCount = 4\<rparr>),
      vertexDeclarations =
        (\<lambda>p. \<lparr>GetStride = 8,
               GetComponent = (\<lambda>j. (j = 8, if p = 0 then ComponentType_Float2
                                             else ComponentType_Quaternion, 0))\<rparr>),
      indexBuffers = (\<lambda>p. \<lparr>ib_IsHardware = True, ib_HasLargeIndices = False,
                            ib_GetStartOffset = 0, ib_GetOpenGLID = Suc p\<rparr>),
      textures = (\<lambda>p. \<lparr>tex_HasMipmaps = False, tex_GetType = 0, tex_GetOpenGLID = Suc p\<rparr>),
      Context_GetCurrent = Some 0,
      has_glVertexAttribLPointer = False,
      has_glVertexAttribIPointer = False,
      VertexComponent_FirstVertexData = 8,
      VertexComponent_LastVertexData = 9,
      VertexComponent_FirstInstanceData = 0,
      VertexComponent_LastInstanceData = 1,
      VertexComponentIndex = (\<lambda>j. j)\<rparr>"

text \<open>A start at which every step succeeds, with vertex-array objects and two texture units.\<close>

definition startup0 :: "(unit, unit) startup" where
  "startup0 =
     \<lparr>Utility_Initialize = True, OpenGL_Initialize = True,
      OpenGL_IsSupported = (\<lambda>ext. True), glBindFragDataLocation = True,
      GL_MAX_COMBINED_TEXTURE_IMAGE_UNITS = 2,
      RenderStates_default = (), TextureSampler_default = (),
      fullscreenQuadBuffer_Fill = True,
      instanceBuffer_Reset = Some (empty_VertexBuffer\<lparr>vb_IsHardware := True, vb_GetVertexCount := 100\<rparr>),
      VertexBuffer_empty = empty_VertexBuffer,
      RenderBuffer_Initialize = True, Shader_Initialize = True, Texture_Initialize = True,
      TextureSampler_Initialize = True, UberShader_Initialize = True,
      debugShader_Create = True, debugShader_AttachFragment = True,
      debugShader_AttachVertex = True, debugShader_Link = True\<rparr>"

definition state1 :: "(int, unit, unit) Renderer" where
  "state1 = snd (Initialize startup0 int_ops state0)"

text \<open>
  From there: target 7 is set; then shader 5 and vertex buffer \<open>v\<close> are bound as
  well. And the state after the vertex array of vertex buffer 0 has been built in
  context 0.
\<close>

definition state_target :: "(int, unit, unit) Renderer" where
  "state_target = snd (SetTarget world0 (Some 7) state1)"

definition state_ready :: "nat \<Rightarrow> (int, unit, unit) Renderer" where
  "state_ready v = SetVertexBuffer world0 (Some v) (SetShader world0 (Some 5) state_target)"

definition state_cached :: "(int, unit, unit) Renderer" where
  "state_cached = snd (projr (update_VAO world0 0 (SetVertexBuffer world0 (Some 0) state1)))"

section \<open>Properties\<close>

subsection \<open>Matrix cache\<close>

lemma matrix_unit_simps:
  "matrix (s_matrices (set_updated t b s) t') = matrix (s_matrices s t')"
  "matrix (s_matrices (set_matrix t m s) t') = (if t' = t then m else matrix (s_matrices s t'))"
  "updated (s_matrices (set_updated t b s) t') = (if t' = t then b else updated (s_matrices s t'))"
  "updated (s_matrices (set_matrix t m s) t') = updated (s_matrices s t')"
  "s_matrices (NazaraWarning msg s) = s_matrices s"
  by (simp_all add: set_updated_def set_matrix_def NazaraWarning_def)



text \<open>
  C1. When the view matrix is set, the slots of the world-view product and of its
  inverse keep the flag they had, so a world-view product computed from the old view
  matrix stays marked up to date; the flag cleared in their place is that of the world
  matrix, a base matrix. The case of the world matrix, next to it in the source,
  clears the flags of the world-view product and of its inverse.
\<close>

theorem SetMatrix_View_keeps_WorldView:
  "updated (s_matrices (SetMatrix MatrixType_View m s) MatrixType_WorldView)
     = updated (s_matrices s MatrixType_WorldView)
   \<and> updated (s_matrices (SetMatrix MatrixType_View m s) MatrixType_InvWorldView)
     = updated (s_matrices s MatrixType_InvWorldView)
   \<and> \<not> updated (s_matrices (SetMatrix MatrixType_View m s) MatrixType_World)
   \<and> \<not> updated (s_matrices (SetMatrix MatrixType_World m s) MatrixType_WorldView)
   \<and> \<not> updated (s_matrices (SetMatrix MatrixType_World m s) MatrixType_InvWorldView)"
  by (simp add: matrix_unit_simps Let_def)

lemma SetMatrix_matrix:
  "matrix (s_matrices (SetMatrix t m s) t') = (if t' = t then m else matrix (s_matrices s t'))"
  by (cases t) (simp_all add: matrix_unit_simps Let_def)

lemma apply_sets_matrix:
  "matrix (s_matrices (apply_sets calls s) t) = latest t calls (matrix (s_matrices s t))"
  unfolding apply_sets_def
  by (induction calls arbitrary: s) (auto simp: SetMatrix_matrix simp del: SetMatrix.simps)

lemma apply_sets_snoc: "apply_sets (cs @ [(t, m)]) s = SetMatrix t m (apply_sets cs s)"
  by (simp add: apply_sets_def)

lemma SetMatrix_invalidates_ViewProj:
  "t = MatrixType_Projection \<or> t = MatrixType_View \<Longrightarrow>
   \<not> updated (s_matrices (SetMatrix t m s) MatrixType_ViewProj)"
  by (auto simp: matrix_unit_simps Let_def)

lemma GetMatrix_ViewProj_stale:
  "\<not> updated (s_matrices s MatrixType_ViewProj) \<Longrightarrow>
   fst (GetMatrix M MatrixType_ViewProj s) =
     Concatenate M (matrix (s_matrices s MatrixType_View))
                   (matrix (s_matrices s MatrixType_Projection))"
  by (simp add: GetMatrix_def matrix_unit_simps)

text \<open>
  C2. After any sequence of \<^verbatim>\<open>SetMatrix\<close> calls on the projection and view slots,
  \<^verbatim>\<open>GetMatrix(ViewProj)\<close> returns the product of the view and projection matrices
  most recently set (a slot the sequence does not set keeps the value it had). The
  sequence is not empty, or the cached product was coherent before it.
\<close>

theorem GetMatrix_ViewProj_latest:
  assumes "\<forall>c \<in> set calls. fst c = MatrixType_Projection \<or> fst c = MatrixType_View"
    and "calls \<noteq> [] \<or> ViewProj_coherent M s"
  shows "fst (GetMatrix M MatrixType_ViewProj (apply_sets calls s)) =
    Concatenate M (latest MatrixType_View calls (matrix (s_matrices s MatrixType_View)))
                  (latest MatrixType_Projection calls (matrix (s_matrices s MatrixType_Projection)))"
proof (cases calls rule: rev_cases)
  case Nil
  with assms(2) have coh: "ViewProj_coherent M s" by simp
  show ?thesis
  proof (cases "updated (s_matrices s MatrixType_ViewProj)")
    case True
    with coh show ?thesis
      by (simp add: Nil apply_sets_def GetMatrix_def ViewProj_coherent_def)
  next
    case False
    then show ?thesis
      by (simp add: Nil apply_sets_def GetMatrix_ViewProj_stale)
  qed
next
  case (snoc cs c)
  obtain t m where c: "c = (t, m)" by (cases c)
  with assms(1) snoc have "t = MatrixType_Projection \<or> t = MatrixType_View" by auto
  then have "\<not> updated (s_matrices (apply_sets calls s) MatrixType_ViewProj)"
    unfolding snoc c apply_sets_snoc by (rule SetMatrix_invalidates_ViewProj)
  then show ?thesis
    by (simp add: GetMatrix_ViewProj_stale apply_sets_matrix)
qed

theorem GetMatrix_ViewProj_latest_witness:
  "fst (GetMatrix int_ops MatrixType_ViewProj
         (apply_sets [(MatrixType_View, 2), (MatrixType_Projection, 3), (MatrixType_View, 5)] state0))
     = 15"
  using GetMatrix_ViewProj_latest
    [of "[(MatrixType_View, 2), (MatrixType_Projection, 3), (MatrixType_View, 5)]" int_ops state0]
  by (simp add: int_ops_def)




lemma UpdateMatrix_inverse:
  "inverse_source t = Some src \<Longrightarrow>
   \<exists>msg. UpdateMatrix M t s = invert_into M src t msg (ensure_updated M src s)"
  by (cases t) (auto simp: ensure_updated_def)




subsection \<open>Buffer setters\<close>

text \<open>
  C10, as stated, at a concrete input: the state after the first draw of the setup on
  \<open>world0\<close>. No index buffer is tracked and the draw has cleared the
  \<^verbatim>\<open>Update_VAO\<close> bit; \<^verbatim>\<open>SetIndexBuffer(nullptr)\<close> does not set it.
\<close>

theorem SetIndexBuffer_null_counterexample:
  "\<not> isl (DrawPrimitives world0 int_ops PrimitiveMode_TriangleStrip 0 4 (state_ready 0))
   \<and> s_indexBuffer
        (projr (DrawPrimitives world0 int_ops PrimitiveMode_TriangleStrip 0 4 (state_ready 0)))
       = None
   \<and> s_updateFlags
        (SetIndexBuffer world0 None
           (projr (DrawPrimitives world0 int_ops PrimitiveMode_TriangleStrip 0 4 (state_ready 0))))
        AND Update_VAO = 0"
proof -
  have "let r = DrawPrimitives world0 int_ops PrimitiveMode_TriangleStrip 0 4 (state_ready 0)
        in \<not> isl r \<and> s_indexBuffer (projr r) = None
           \<and> s_updateFlags (SetIndexBuffer world0 None (projr r)) AND Update_VAO = 0"
    by code_simp
  then show ?thesis by (simp add: Let_def)
qed

text \<open>
  C10, amended. \<^verbatim>\<open>SetVertexBuffer(nullptr)\<close> changes nothing at all.
  \<^verbatim>\<open>SetIndexBuffer(nullptr)\<close> leaves no index buffer tracked; it sets the
  \<^verbatim>\<open>Update_VAO\<close> bit when an index buffer was tracked before, and changes
  nothing when none was.
\<close>

theorem SetBuffer_null:
  "SetVertexBuffer W None s = s
   \<and> s_indexBuffer (SetIndexBuffer W None s) = None
   \<and> SetIndexBuffer W None s =
       (if s_indexBuffer s = None then s
        else s\<lparr>s_indexBuffer := None, s_updateFlags := s_updateFlags s OR Update_VAO\<rparr>)
   \<and> (s_updateFlags s OR Update_VAO) AND Update_VAO \<noteq> 0"
proof -
  have "(s_updateFlags s OR Update_VAO) AND Update_VAO = Update_VAO"
    by (simp add: word_bw_comms word_ao_absorbs)
  then show ?thesis
    by (simp add: SetVertexBuffer_def SetIndexBuffer_def Update_VAO_def)
qed

subsection \<open>Instanced draws\<close>

text \<open>
  C8. An instance count above the vertex count of the instance buffer: the call
  returns with one error reported; the state after the call is the state before it with
  that report and last error, so no command was issued and nothing else changed.
\<close>

theorem DrawPrimitivesInstanced_over_capacity:
  assumes "instanceCount > vb_GetVertexCount (s_instanceBuffer s)"
    and "\<not> ErrorFlag_Silent s"
  shows "\<exists>msg. DrawPrimitivesInstanced W M instanceCount mode firstVertex vertexCount s =
                 Inr (s\<lparr>reports := reports s @ [ReportError msg], lastError := msg\<rparr>)
               \<and> commands (s\<lparr>reports := reports s @ [ReportError msg], lastError := msg\<rparr>)
                   = commands s"
  using assms by (auto simp: DrawPrimitivesInstanced_def NazaraError_def)

subsection \<open>Vertex-array cache: release of a resource\<close>

lemma context_vaoMap_erase:
  "context_vaoMap (erase_VAOs P vaos) c = filter (\<lambda>(key, e). \<not> P key) (context_vaoMap vaos c)"
  by (induction vaos) (auto simp: context_vaoMap_def erase_VAOs_def)

lemma map_of_filter_key:
  "map_of (filter (\<lambda>(key, e). \<not> P key) m) k = (if P k then None else map_of m k)"
  by (induction m) auto

lemma cached_VAO_release:
  "cached_VAO (release_VAOs P s) c k = (if P k then None else cached_VAO s c k)"
  by (simp add: cached_VAO_def release_VAOs_def issue_def context_vaoMap_erase map_of_filter_key)

lemma context_vaoMap_append_new:
  "map_of vaos c = None \<Longrightarrow>
   context_vaoMap (vaos @ [(c, \<lparr>vaoMap = [], onReleaseSlot = x\<rparr>)]) c' = context_vaoMap vaos c'"
  by (auto simp: context_vaoMap_def map_add_def split: option.splits)

lemma context_vaoMap_map:
  "map_of vaos c \<noteq> None \<Longrightarrow> context_vaoMap (map_vaoMap c f vaos) c = f (context_vaoMap vaos c)"
  by (induction vaos) (auto simp: context_vaoMap_def map_vaoMap_def)

lemma map_of_append_new: "map_of (vaos @ [(c, e)]) c \<noteq> None"
  by (simp add: map_add_def split: option.splits)

lemma VAO_key_s_vaos [simp]: "VAO_key W vb (s\<lparr>s_vaos := x\<rparr>) = VAO_key W vb s"
  by (simp add: VAO_key_def)

lemma find_or_create_VAO_miss:
  assumes "cached_VAO s c (VAO_key W vb s) = None"
    and "vb_GetVertexDeclaration (vertexBuffers W vb) \<noteq> None"
  shows "\<exists>V e. find_or_create_VAO W c vb s =
                  Inr (True, VAO_key W vb s,
                       s\<lparr>s_vaos := V, gl_genCount := Suc (gl_genCount s),
                         s_currentVAO := Suc (gl_genCount s),
                         commands := commands s @ [glGenVertexArrays (Suc (gl_genCount s)),
                                                   glBindVertexArray (Suc (gl_genCount s))]\<rparr>)
           \<and> vao e = Suc (gl_genCount s)
           \<and> context_vaoMap V c = context_vaoMap (s_vaos s) c @ [(VAO_key W vb s, e)]"
proof -
  let ?key = "VAO_key W vb s"
  let ?vaos1 = "if map_of (s_vaos s) c = None
                then s_vaos s @ [(c, \<lparr>vaoMap = [], onReleaseSlot = Some c\<rparr>)] else s_vaos s"
  let ?e = "\<lparr>vao = Suc (gl_genCount s),
             onIndexBufferReleaseSlot = s_indexBuffer s,
             onVertexBufferReleaseSlot = s_vertexBuffer s,
             onInstancingDeclarationReleaseSlot = snd (snd (snd ?key)),
             onVertexDeclarationReleaseSlot = fst (snd (snd ?key))\<rparr>"
  let ?V = "map_vaoMap c (\<lambda>m. m @ [(?key, ?e)]) ?vaos1"
  have key: "fst (snd (snd ?key)) \<noteq> None"
    using assms(2) by (simp add: VAO_key_def)
  have present: "map_of ?vaos1 c \<noteq> None"
  proof (cases "map_of (s_vaos s) c = None")
    case True
    then show ?thesis
      using map_of_append_new [of "s_vaos s" c "\<lparr>vaoMap = [], onReleaseSlot = Some c\<rparr>"] by simp
  next
    case False
    then show ?thesis by auto
  qed
  have same: "context_vaoMap ?vaos1 c = context_vaoMap (s_vaos s) c"
  proof (cases "map_of (s_vaos s) c = None")
    case True
    then show ?thesis
      using context_vaoMap_append_new [OF True, of "Some c" c] by simp
  next
    case False
    then show ?thesis by auto
  qed
  have miss: "map_of (context_vaoMap ?vaos1 c) ?key = None"
    using assms(1) by (simp only: same cached_VAO_def)
  have 1: "find_or_create_VAO W c vb s =
             Inr (True, ?key,
                  s\<lparr>s_vaos := ?V, gl_genCount := Suc (gl_genCount s),
                    s_currentVAO := Suc (gl_genCount s),
                    commands := commands s @ [glGenVertexArrays (Suc (gl_genCount s)),
                                              glBindVertexArray (Suc (gl_genCount s))]\<rparr>)"
  proof (cases "map_of (s_vaos s) c = None")
    case True
    with miss key show ?thesis
      by (simp add: find_or_create_VAO_def Let_def issue_def)
  next
    case False
    then obtain y where "map_of (s_vaos s) c = Some y" by blast
    with miss key show ?thesis
      by (simp add: find_or_create_VAO_def Let_def issue_def)
  qed
  have 2: "vao ?e = Suc (gl_genCount s)" by simp
  have 3: "context_vaoMap ?V c = context_vaoMap (s_vaos s) c @ [(?key, ?e)]"
    using context_vaoMap_map [OF present, of "\<lambda>m. m @ [(?key, ?e)]"] by (simp only: same)
  from 1 2 3 show ?thesis by blast
qed

lemma find_or_create_VAO_miss_fault:
  assumes "cached_VAO s c (VAO_key W vb s) = None"
    and "vb_GetVertexDeclaration (vertexBuffers W vb) = None"
  shows "find_or_create_VAO W c vb s = Inl NullPointerDereference"
proof (cases "map_of (s_vaos s) c")
  case None
  have key: "fst (snd (snd (VAO_key W vb s))) = None"
    using assms(2) by (simp add: VAO_key_def)
  from None assms(1) key show ?thesis
    by (simp add: find_or_create_VAO_def Let_def cached_VAO_def context_vaoMap_append_new)
next
  case (Some y)
  have key: "fst (snd (snd (VAO_key W vb s))) = None"
    using assms(2) by (simp add: VAO_key_def)
  from Some assms(1) key show ?thesis
    by (simp add: find_or_create_VAO_def Let_def cached_VAO_def)
qed

lemma find_or_create_VAO_hit:
  assumes "cached_VAO s c (VAO_key W vb s) = Some e"
  shows "find_or_create_VAO W c vb s = Inr (False, VAO_key W vb s, s\<lparr>s_currentVAO := vao e\<rparr>)"
proof (cases "map_of (s_vaos s) c")
  case None
  with assms show ?thesis by (simp add: cached_VAO_def context_vaoMap_def)
next
  case (Some y)
  with assms show ?thesis
    by (simp add: find_or_create_VAO_def Let_def cached_VAO_def)
qed

lemma builds_fresh_VAO_miss:
  assumes "cached_VAO s c (VAO_key W vb s) = None"
    and "vb_GetVertexDeclaration (vertexBuffers W vb) \<noteq> None"
  shows "builds_fresh_VAO W c vb s"
proof -
  from find_or_create_VAO_miss [OF assms] obtain V e where
    r: "find_or_create_VAO W c vb s =
          Inr (True, VAO_key W vb s,
               s\<lparr>s_vaos := V, gl_genCount := Suc (gl_genCount s),
                 s_currentVAO := Suc (gl_genCount s),
                 commands := commands s @ [glGenVertexArrays (Suc (gl_genCount s)),
                                           glBindVertexArray (Suc (gl_genCount s))]\<rparr>)"
    and h: "vao e = Suc (gl_genCount s)"
    and m: "context_vaoMap V c = context_vaoMap (s_vaos s) c @ [(VAO_key W vb s, e)]"
    by blast
  have "map_of (context_vaoMap V c) (VAO_key W vb s) = Some e"
    using assms(1) by (simp add: cached_VAO_def m map_add_def)
  with r h show ?thesis
    by (simp add: builds_fresh_VAO_def new_commands_def cached_VAO_def)
qed

lemma VAO_key_release [simp]:
  "VAO_key W vb (release_VAOs P s) = VAO_key W vb s"
  by (simp add: VAO_key_def release_VAOs_def issue_def)

text \<open>
  C5. After the release notification of an index buffer, a vertex buffer or a vertex
  declaration \<open>r\<close>, the map of every context \<open>c\<close> holds no entry under a key
  \<open>k\<close> that has \<open>r\<close> in that place (for a declaration: as the vertex or as the
  instancing declaration), and every other entry is as before; the current context
  plays no part. With the bindings as they are, a lookup whose key has \<open>r\<close> in that
  place then builds a new entry.
\<close>

theorem release_evicts_everywhere:
  assumes "vb_GetVertexDeclaration (vertexBuffers W vb) \<noteq> None"
  shows "cached_VAO (OnIndexBufferRelease r s) c k =
           (if key_indexBuffer k = r then None else cached_VAO s c k)
       \<and> cached_VAO (OnVertexBufferRelease r s) c k =
           (if key_vertexBuffer k = r then None else cached_VAO s c k)
       \<and> cached_VAO (OnVertexDeclarationRelease r s) c k =
           (if key_vertexDeclaration k = r \<or> key_instancingDeclaration k = r then None
            else cached_VAO s c k)
       \<and> (key_indexBuffer (VAO_key W vb s) = r \<longrightarrow>
            builds_fresh_VAO W c' vb (OnIndexBufferRelease r s))
       \<and> (key_vertexBuffer (VAO_key W vb s) = r \<longrightarrow>
            builds_fresh_VAO W c' vb (OnVertexBufferRelease r s))
       \<and> (key_vertexDeclaration (VAO_key W vb s) = r \<or> key_instancingDeclaration (VAO_key W vb s) = r \<longrightarrow>
            builds_fresh_VAO W c' vb (OnVertexDeclarationRelease r s))"
proof -
  have e1: "cached_VAO (OnIndexBufferRelease r s) c k =
           (if key_indexBuffer k = r then None else cached_VAO s c k)" for c k
    by (cases k) (simp add: OnIndexBufferRelease_def cached_VAO_release key_indexBuffer_def)
  have e2: "cached_VAO (OnVertexBufferRelease r s) c k =
           (if key_vertexBuffer k = r then None else cached_VAO s c k)" for c k
    by (cases k) (simp add: OnVertexBufferRelease_def cached_VAO_release key_vertexBuffer_def)
  have e3: "cached_VAO (OnVertexDeclarationRelease r s) c k =
           (if key_vertexDeclaration k = r \<or> key_instancingDeclaration k = r then None
            else cached_VAO s c k)" for c k
    by (cases k) (simp add: OnVertexDeclarationRelease_def cached_VAO_release
          key_vertexDeclaration_def key_instancingDeclaration_def)
  have k1: "VAO_key W vb (OnIndexBufferRelease r s) = VAO_key W vb s"
    and k2: "VAO_key W vb (OnVertexBufferRelease r s) = VAO_key W vb s"
    and k3: "VAO_key W vb (OnVertexDeclarationRelease r s) = VAO_key W vb s"
    by (simp_all add: OnIndexBufferRelease_def OnVertexBufferRelease_def
          OnVertexDeclarationRelease_def)
  have f1: "builds_fresh_VAO W c' vb (OnIndexBufferRelease r s)"
    if "key_indexBuffer (VAO_key W vb s) = r"
    using that by (intro builds_fresh_VAO_miss assms) (simp add: e1 k1)
  have f2: "builds_fresh_VAO W c' vb (OnVertexBufferRelease r s)"
    if "key_vertexBuffer (VAO_key W vb s) = r"
    using that by (intro builds_fresh_VAO_miss assms) (simp add: e2 k2)
  have f3: "builds_fresh_VAO W c' vb (OnVertexDeclarationRelease r s)"
    if "key_vertexDeclaration (VAO_key W vb s) = r \<or> key_instancingDeclaration (VAO_key W vb s) = r"
    using that by (intro builds_fresh_VAO_miss assms) (auto simp: e3 k3)
  from e1 e2 e3 f1 f2 f3 show ?thesis by blast
qed

subsection \<open>Steps that only issue quiet commands\<close>

lemma quiet_step_refl: "quiet_step (s :: ('a, 'b, 'c) Renderer) s"
proof -
  have "s = s\<lparr>commands := commands s @ [], lastError := lastError s, reports := reports s\<rparr>"
    by simp
  moreover have "list_all quiet ([] :: ('a, 'b, 'c) command list)" by simp
  ultimately show ?thesis unfolding quiet_step_def by blast
qed

lemma quiet_step_trans:
  assumes "quiet_step s s'" and "quiet_step s' s''"
  shows "quiet_step s s''"
proof -
  from assms(1) obtain cs e r where
    1: "s' = s\<lparr>commands := commands s @ cs, lastError := e, reports := r\<rparr>"
    and q1: "list_all quiet cs" and r1: "ErrorFlag_Silent s \<longrightarrow> r = reports s"
    unfolding quiet_step_def by blast
  from assms(2) obtain cs' e' r' where
    2: "s'' = s'\<lparr>commands := commands s' @ cs', lastError := e', reports := r'\<rparr>"
    and q2: "list_all quiet cs'" and r2: "ErrorFlag_Silent s' \<longrightarrow> r' = reports s'"
    unfolding quiet_step_def by blast
  have "s'' = s\<lparr>commands := commands s @ (cs @ cs'), lastError := e', reports := r'\<rparr>"
    by (simp add: 1 2)
  moreover have "list_all quiet (cs @ cs')" using q1 q2 by simp
  moreover have "ErrorFlag_Silent s \<longrightarrow> r' = reports s" using r1 r2 by (simp add: 1)
  ultimately show ?thesis unfolding quiet_step_def by blast
qed

lemma quiet_step_issue: "list_all quiet cs \<Longrightarrow> quiet_step s (issue cs s)"
proof -
  assume "list_all quiet cs"
  moreover have "issue cs s = s\<lparr>commands := commands s @ cs, lastError := lastError s, reports := reports s\<rparr>"
    by (simp add: issue_def)
  ultimately show ?thesis unfolding quiet_step_def by blast
qed

lemma quiet_step_NazaraError: "quiet_step (s :: ('a, 'b, 'c) Renderer) (NazaraError msg s)"
proof -
  have "NazaraError msg s =
          s\<lparr>commands := commands s @ [], lastError := msg,
            reports := (if ErrorFlag_Silent s then reports s else reports s @ [ReportError msg])\<rparr>"
    by (simp add: NazaraError_def)
  moreover have "list_all quiet ([] :: ('a, 'b, 'c) command list)" by simp
  moreover have "ErrorFlag_Silent s \<longrightarrow>
      (if ErrorFlag_Silent s then reports s else reports s @ [ReportError msg]) = reports s"
    by simp
  ultimately show ?thesis unfolding quiet_step_def by blast
qed

lemma quiet_step_NazaraWarning: "quiet_step (s :: ('a, 'b, 'c) Renderer) (NazaraWarning msg s)"
proof -
  have "NazaraWarning msg s =
          s\<lparr>commands := commands s @ [], lastError := lastError s,
            reports := (if ErrorFlag_Silent s then reports s else reports s @ [ReportWarning msg])\<rparr>"
    by (simp add: NazaraWarning_def)
  moreover have "list_all quiet ([] :: ('a, 'b, 'c) command list)" by simp
  moreover have "ErrorFlag_Silent s \<longrightarrow>
      (if ErrorFlag_Silent s then reports s else reports s @ [ReportWarning msg]) = reports s"
    by simp
  ultimately show ?thesis unfolding quiet_step_def by blast
qed

lemma quiet_step_fields:
  assumes "quiet_step s s'"
  shows "s_vaos s' = s_vaos s" "s_dirtyTextureUnits s' = s_dirtyTextureUnits s"
    "s_textureUnits s' = s_textureUnits s" "s_currentVAO s' = s_currentVAO s"
    "s_instanceBuffer s' = s_instanceBuffer s" "s_matrices s' = s_matrices s"
    "s_states s' = s_states s" "s_targetSize s' = s_targetSize s"
    "s_updateFlags s' = s_updateFlags s" "s_indexBuffer s' = s_indexBuffer s"
    "s_target s' = s_target s" "s_shader s' = s_shader s"
    "s_vertexBuffer s' = s_vertexBuffer s" "s_capabilities s' = s_capabilities s"
    "s_instancing s' = s_instancing s" "s_useSamplerObjects s' = s_useSamplerObjects s"
    "s_useVertexArrayObjects s' = s_useVertexArrayObjects s"
    "s_maxTextureUnit s' = s_maxTextureUnit s"
    "s_moduleReferenceCounter s' = s_moduleReferenceCounter s"
    "ErrorFlag_Silent s' = ErrorFlag_Silent s" "gl_genCount s' = gl_genCount s"
proof -
  from assms obtain cs e r where
    "s' = s\<lparr>commands := commands s @ cs, lastError := e, reports := r\<rparr>"
    unfolding quiet_step_def by blast
  then show "s_vaos s' = s_vaos s" "s_dirtyTextureUnits s' = s_dirtyTextureUnits s"
    "s_textureUnits s' = s_textureUnits s" "s_currentVAO s' = s_currentVAO s"
    "s_instanceBuffer s' = s_instanceBuffer s" "s_matrices s' = s_matrices s"
    "s_states s' = s_states s" "s_targetSize s' = s_targetSize s"
    "s_updateFlags s' = s_updateFlags s" "s_indexBuffer s' = s_indexBuffer s"
    "s_target s' = s_target s" "s_shader s' = s_shader s"
    "s_vertexBuffer s' = s_vertexBuffer s" "s_capabilities s' = s_capabilities s"
    "s_instancing s' = s_instancing s" "s_useSamplerObjects s' = s_useSamplerObjects s"
    "s_useVertexArrayObjects s' = s_useVertexArrayObjects s"
    "s_maxTextureUnit s' = s_maxTextureUnit s"
    "s_moduleReferenceCounter s' = s_moduleReferenceCounter s"
    "ErrorFlag_Silent s' = ErrorFlag_Silent s" "gl_genCount s' = gl_genCount s"
    by simp_all
qed

lemma quiet_step_commands:
  "quiet_step s s' \<Longrightarrow> \<exists>cs. commands s' = commands s @ cs \<and> list_all quiet cs"
  unfolding quiet_step_def by auto

lemma quiet_step_reports:
  "quiet_step s s' \<Longrightarrow> ErrorFlag_Silent s \<Longrightarrow> reports s' = reports s"
  unfolding quiet_step_def by auto

subsection \<open>Programming the attributes\<close>

lemma set_attribute_pointer_quiet:
  "quiet_step s (set_attribute_pointer index type stride pointer s)"
  by (cases type) (simp_all add: quiet_step_issue quiet_step_NazaraError quiet_def)

lemma declare_components_quiet:
  "quiet_step s (snd (declare_components W i off decl js s))"
proof (induction js arbitrary: s)
  case Nil
  show ?case by (simp add: quiet_step_refl)
next
  case (Cons j js)
  obtain enabled type offset where c: "GetComponent decl j = (enabled, type, offset)"
    by (cases "GetComponent decl j")
  show ?case
  proof (cases enabled)
    case False
    have "quiet_step s (issue [glDisableVertexAttribArray (VertexComponentIndex W j)] s)"
      by (simp add: quiet_step_issue quiet_def)
    with Cons.IH show ?thesis
      using c False by (auto intro: quiet_step_trans)
  next
    case True
    show ?thesis
    proof (cases "IsComponentTypeSupported W type")
      case False
      with c True show ?thesis by (simp add: quiet_step_NazaraError)
    next
      case sup: True
      let ?s1 = "issue [glEnableVertexAttribArray (VertexComponentIndex W j)] s"
      let ?s2 = "set_attribute_pointer (VertexComponentIndex W j) type (GetStride decl) (off + offset) ?s1"
      let ?s3 = "if i = 1 then issue [glVertexAttribDivisor (VertexComponentIndex W j) 1] ?s2 else ?s2"
      have 1: "quiet_step s ?s1" by (simp add: quiet_step_issue quiet_def)
      have 2: "quiet_step ?s1 ?s2" by (rule set_attribute_pointer_quiet)
      have 3: "quiet_step ?s2 ?s3"
        by (simp add: quiet_step_issue quiet_def quiet_step_refl)
      have "quiet_step s ?s3" using 1 2 3 by (blast intro: quiet_step_trans)
      moreover have "quiet_step ?s3 (snd (declare_components W i off decl js ?s3))"
        by (rule Cons.IH)
      ultimately have "quiet_step s (snd (declare_components W i off decl js ?s3))"
        by (rule quiet_step_trans)
      with c True sup show ?thesis by (simp add: Let_def)
    qed
  qed
qed

lemma declare_components_failed:
  "fst (declare_components W i off decl js s) = list_ex (unsupported_component W decl) js"
proof (induction js arbitrary: s)
  case Nil
  show ?case by simp
next
  case (Cons j js)
  obtain enabled type offset where c: "GetComponent decl j = (enabled, type, offset)"
    by (cases "GetComponent decl j")
  with Cons.IH show ?case
    by (simp add: unsupported_component_def Let_def)
qed

lemma program_buffer_Inr:
  assumes "program_buffer W i vbuf s = Inr (b, s')"
  shows "quiet_step s s'"
    and "\<exists>d. vb_GetVertexDeclaration vbuf = Some d
           \<and> b = list_ex (unsupported_component W (vertexDeclarations W d))
                   (if i = 0 then vertex_components W else instance_components W)"
proof -
  from assms obtain d where d: "vb_GetVertexDeclaration vbuf = Some d"
    by (cases "vb_GetVertexDeclaration vbuf") (simp_all add: program_buffer_def Let_def)
  let ?s1 = "issue [glBindBuffer BufferType_Vertex (vb_GetOpenGLID vbuf)] s"
  let ?js = "if i = 0 then vertex_components W else instance_components W"
  let ?r = "declare_components W i (vb_GetStartOffset vbuf) (vertexDeclarations W d) ?js ?s1"
  have r: "program_buffer W i vbuf s = Inr ?r"
    using d by (simp add: program_buffer_def Let_def vertex_components_def instance_components_def)
  with assms have bs: "b = fst ?r" "s' = snd ?r" by simp_all
  have "quiet_step s ?s1" by (simp add: quiet_step_issue quiet_def)
  moreover have "quiet_step ?s1 (snd ?r)" by (rule declare_components_quiet)
  ultimately show "quiet_step s s'" unfolding bs by (rule quiet_step_trans)
  show "\<exists>d. vb_GetVertexDeclaration vbuf = Some d
           \<and> b = list_ex (unsupported_component W (vertexDeclarations W d)) ?js"
    using d bs(1) by (simp only: declare_components_failed) simp
qed

lemma program_buffer_Some:
  assumes "vb_GetVertexDeclaration vbuf = Some d"
  shows "\<exists>s'. program_buffer W i vbuf s =
                Inr (list_ex (unsupported_component W (vertexDeclarations W d))
                       (if i = 0 then vertex_components W else instance_components W), s')"
proof -
  let ?s1 = "issue [glBindBuffer BufferType_Vertex (vb_GetOpenGLID vbuf)] s"
  let ?js = "if i = 0 then vertex_components W else instance_components W"
  let ?r = "declare_components W i (vb_GetStartOffset vbuf) (vertexDeclarations W d) ?js ?s1"
  have "program_buffer W i vbuf s = Inr ?r"
    using assms by (simp add: program_buffer_def Let_def vertex_components_def instance_components_def)
  moreover have "?r = (list_ex (unsupported_component W (vertexDeclarations W d)) ?js, snd ?r)"
    using declare_components_failed [of W i "vb_GetStartOffset vbuf" "vertexDeclarations W d" ?js ?s1]
    by (cases ?r) simp
  ultimately have "program_buffer W i vbuf s =
      Inr (list_ex (unsupported_component W (vertexDeclarations W d)) ?js, snd ?r)"
    by simp
  then show ?thesis by blast
qed

text \<open>The steps of \<open>program_attributes\<close> after the two loops.\<close>

lemma program_attributes_tail_quiet:
  "quiet_step (s :: ('a, 'b, 'c) Renderer)
     (issue [OpenGL_SetBuffer BufferType_Index 0, OpenGL_SetBuffer BufferType_Vertex 0]
        (case s_indexBuffer x of
           Some ib \<Rightarrow> issue [glBindBuffer BufferType_Index (ib_GetOpenGLID (indexBuffers W ib))]
                        (if \<not> s_instancing y
                         then issue (map (\<lambda>i. glDisableVertexAttribArray (VertexComponentIndex W i)) js) s
                         else s)
         | None \<Rightarrow> issue [glBindBuffer BufferType_Index 0]
                     (if \<not> s_instancing y
                      then issue (map (\<lambda>i. glDisableVertexAttribArray (VertexComponentIndex W i)) js) s
                      else s)))"
proof -
  let ?a = "if \<not> s_instancing y
            then issue (map (\<lambda>i. glDisableVertexAttribArray (VertexComponentIndex W i)) js) s
            else s"
  have q: "list_all quiet
             (map (\<lambda>i. glDisableVertexAttribArray (VertexComponentIndex W i)) js
               :: ('a, 'b, 'c) command list)"
    by (induction js) (simp_all add: quiet_def)
  have a: "quiet_step s ?a" using quiet_step_issue [OF q] by (simp add: quiet_step_refl)
  have b: "quiet_step ?a (issue [c] ?a)" if "quiet c" for c
    using that by (simp add: quiet_step_issue)
  have c: "quiet_step t (issue [OpenGL_SetBuffer BufferType_Index 0, OpenGL_SetBuffer BufferType_Vertex 0] t)"
    for t :: "('a, 'b, 'c) Renderer"
    by (simp add: quiet_step_issue quiet_def)
  have d: "quiet_step s (issue [OpenGL_SetBuffer BufferType_Index 0, OpenGL_SetBuffer BufferType_Vertex 0]
            (issue [k] ?a))" if "quiet k" for k
    using a b [OF that] c by (blast intro: quiet_step_trans)
  show ?thesis
  proof (cases "s_indexBuffer x")
    case None
    then show ?thesis using d [of "glBindBuffer BufferType_Index 0"] by (simp add: quiet_def)
  next
    case (Some ib)
    then show ?thesis
      using d [of "glBindBuffer BufferType_Index (ib_GetOpenGLID (indexBuffers W ib))"]
      by (simp add: quiet_def)
  qed
qed

lemma program_attributes_Inr:
  assumes "program_attributes W vb s = Inr (b, s')"
  shows "quiet_step s s'" and "b = attributes_fail W vb s" and "declarations_present W vb s"
proof -
  have "\<exists>p. program_buffer W 0 (vertexBuffers W vb) s = Inr p"
    using assms
    by (cases "program_buffer W 0 (vertexBuffers W vb) s") (simp_all add: program_attributes_def)
  then obtain f0 sa where
    p0: "program_buffer W 0 (vertexBuffers W vb) s = Inr (f0, sa)"
    by (metis prod.collapse)
  let ?second = "if s_instancing sa then program_buffer W 1 (s_instanceBuffer sa) sa
                 else Inr (False, sa)"
  have "\<exists>p. ?second = Inr p"
    using assms p0
    by (cases ?second) (simp_all add: program_attributes_def)
  then obtain f1 sb where p1: "?second = Inr (f1, sb)"
    by (metis prod.collapse)
  have q0: "quiet_step s sa" using program_buffer_Inr(1) [OF p0] .
  note fa = quiet_step_fields [OF q0]
  have q1: "quiet_step sa sb"
    using p1 program_buffer_Inr(1) [of W 1 "s_instanceBuffer sa" sa f1 sb]
    by (auto simp: quiet_step_refl split: if_splits)
  from assms p0 p1 have b: "b = (f0 \<or> f1)" and s': "s' =
     issue [OpenGL_SetBuffer BufferType_Index 0, OpenGL_SetBuffer BufferType_Vertex 0]
        (case s_indexBuffer (if \<not> s_instancing sb
                         then issue (map (\<lambda>i. glDisableVertexAttribArray (VertexComponentIndex W i))
                                      [VertexComponent_FirstInstanceData W ..<
                                         Suc (VertexComponent_LastInstanceData W)]) sb
                         else sb) of
           Some ib \<Rightarrow> issue [glBindBuffer BufferType_Index (ib_GetOpenGLID (indexBuffers W ib))]
                        (if \<not> s_instancing sb
                         then issue (map (\<lambda>i. glDisableVertexAttribArray (VertexComponentIndex W i))
                                      [VertexComponent_FirstInstanceData W ..<
                                         Suc (VertexComponent_LastInstanceData W)]) sb
                         else sb)
         | None \<Rightarrow> issue [glBindBuffer BufferType_Index 0]
                     (if \<not> s_instancing sb
                      then issue (map (\<lambda>i. glDisableVertexAttribArray (VertexComponentIndex W i))
                                      [VertexComponent_FirstInstanceData W ..<
                                         Suc (VertexComponent_LastInstanceData W)]) sb
                      else sb))"
    by (simp_all add: program_attributes_def Let_def)
  have q2: "quiet_step sb s'" unfolding s' by (rule program_attributes_tail_quiet)
  show "quiet_step s s'" using q0 q1 q2 by (blast intro: quiet_step_trans)
  from program_buffer_Inr(2) [OF p0] obtain d where
    d: "vb_GetVertexDeclaration (vertexBuffers W vb) = Some d"
    and f0: "f0 = list_ex (unsupported_component W (vertexDeclarations W d)) (vertex_components W)"
    by auto
  show "b = attributes_fail W vb s"
  proof (cases "s_instancing s")
    case False
    with p1 fa(15) have "f1 = False" by simp
    with b d f0 False show ?thesis by (simp add: attributes_fail_def)
  next
    case True
    with p1 fa(15) have p1': "program_buffer W 1 (s_instanceBuffer s) sa = Inr (f1, sb)"
      by (simp add: fa(5))
    from program_buffer_Inr(2) [OF p1'] obtain d' where
      "vb_GetVertexDeclaration (s_instanceBuffer s) = Some d'"
      "f1 = list_ex (unsupported_component W (vertexDeclarations W d')) (instance_components W)"
      by auto
    with b d f0 True show ?thesis by (simp add: attributes_fail_def)
  qed
  show "declarations_present W vb s"
  proof (cases "s_instancing s")
    case False
    with d show ?thesis by (simp add: declarations_present_def)
  next
    case True
    with p1 fa(15) have p1': "program_buffer W 1 (s_instanceBuffer s) sa = Inr (f1, sb)"
      by (simp add: fa(5))
    from program_buffer_Inr(2) [OF p1'] d True show ?thesis
      by (auto simp: declarations_present_def)
  qed
qed

lemma program_attributes_total:
  assumes "declarations_present W vb s"
  shows "\<exists>s'. program_attributes W vb s = Inr (attributes_fail W vb s, s') \<and> quiet_step s s'"
proof -
  from assms obtain d where d: "vb_GetVertexDeclaration (vertexBuffers W vb) = Some d"
    by (auto simp: declarations_present_def)
  from program_buffer_Some [OF d, of W 0 s] obtain f0 sa where
    p0: "program_buffer W 0 (vertexBuffers W vb) s = Inr (f0, sa)"
    by blast
  note fa = quiet_step_fields [OF program_buffer_Inr(1) [OF p0]]
  let ?second = "if s_instancing sa then program_buffer W 1 (s_instanceBuffer sa) sa
                 else Inr (False, sa)"
  have "\<exists>f1 sb. ?second = Inr (f1, sb)"
  proof (cases "s_instancing s")
    case False
    with fa(15) show ?thesis by auto
  next
    case True
    with assms obtain d' where "vb_GetVertexDeclaration (s_instanceBuffer s) = Some d'"
      by (auto simp: declarations_present_def)
    from program_buffer_Some [OF this, of W 1 sa] True fa(15) fa(5) show ?thesis
      by auto
  qed
  then obtain f1 sb where p1: "?second = Inr (f1, sb)" by blast
  have "\<exists>b s'. program_attributes W vb s = Inr (b, s')"
    using p0 p1 by (simp add: program_attributes_def Let_def)
  then obtain b s' where r: "program_attributes W vb s = Inr (b, s')" by blast
  from program_attributes_Inr(1,2) [OF r] r show ?thesis by blast
qed

subsection \<open>The block under \<open>Update_VAO\<close>\<close>

lemma context_vaoMap_map_gen:
  "f [] = [] \<Longrightarrow> context_vaoMap (map_vaoMap c f vaos) c = f (context_vaoMap vaos c)"
  by (induction vaos) (auto simp: context_vaoMap_def map_vaoMap_def)

lemma zero_entry_append:
  "map_of m key = None \<Longrightarrow>
   map (\<lambda>(k, entry). if k = key then (k, entry\<lparr>vao := 0\<rparr>) else (k, entry)) (m @ [(key, e)])
     = m @ [(key, e\<lparr>vao := 0\<rparr>)]"
  by (induction m) (auto split: if_splits)

lemma declarations_present_cong:
  "s_instancing s' = s_instancing s \<Longrightarrow> s_instanceBuffer s' = s_instanceBuffer s \<Longrightarrow>
   declarations_present W vb s' = declarations_present W vb s"
  by (simp add: declarations_present_def)

lemma attributes_fail_cong:
  "s_instancing s' = s_instancing s \<Longrightarrow> s_instanceBuffer s' = s_instanceBuffer s \<Longrightarrow>
   attributes_fail W vb s' = attributes_fail W vb s"
  by (simp add: attributes_fail_def)

lemma update_VAO_miss:
  assumes vb: "s_vertexBuffer s = Some vb"
    and vao: "s_useVertexArrayObjects s"
    and miss: "cached_VAO s c (VAO_key W vb s) = None"
    and dp: "declarations_present W vb s"
  shows "\<exists>s' V e. update_VAO W c s = Inr (True, s')
    \<and> quiet_step (s\<lparr>s_vaos := V, gl_genCount := Suc (gl_genCount s), s_currentVAO := vao e,
                     s_updateFlags := s_updateFlags s AND NOT Update_VAO\<rparr>) s'
    \<and> context_vaoMap V c = context_vaoMap (s_vaos s) c @ [(VAO_key W vb s, e)]
    \<and> vao e = (if attributes_fail W vb s then 0 else Suc (gl_genCount s))
    \<and> glGenVertexArrays (Suc (gl_genCount s)) \<in> set (new_commands s s')
    \<and> (attributes_fail W vb s \<longrightarrow>
          glDeleteVertexArrays (Suc (gl_genCount s)) \<in> set (new_commands s s'))"
proof -
  let ?key = "VAO_key W vb s"
  let ?h = "Suc (gl_genCount s)"
  let ?m = "context_vaoMap (s_vaos s) c"
  let ?F = "s_updateFlags s AND NOT Update_VAO"
  from dp have "vb_GetVertexDeclaration (vertexBuffers W vb) \<noteq> None"
    by (simp add: declarations_present_def)
  from find_or_create_VAO_miss [OF miss this] obtain V1 e1 where
    foc: "find_or_create_VAO W c vb s =
            Inr (True, ?key,
                 s\<lparr>s_vaos := V1, gl_genCount := ?h, s_currentVAO := ?h,
                   commands := commands s @ [glGenVertexArrays ?h, glBindVertexArray ?h]\<rparr>)"
    and e1: "vao e1 = ?h"
    and cm: "context_vaoMap V1 c = ?m @ [(?key, e1)]"
    by blast
  let ?s1 = "s\<lparr>s_vaos := V1, gl_genCount := ?h, s_currentVAO := ?h,
               commands := commands s @ [glGenVertexArrays ?h, glBindVertexArray ?h]\<rparr>"
  have dp1: "declarations_present W vb ?s1"
    using dp by (simp add: declarations_present_def)
  have af1: "attributes_fail W vb ?s1 = attributes_fail W vb s"
    by (simp add: attributes_fail_def)
  from program_attributes_total [OF dp1] obtain s2 where
    pa: "program_attributes W vb ?s1 = Inr (attributes_fail W vb s, s2)"
    and q: "quiet_step ?s1 s2"
    unfolding af1 by blast
  from q obtain cs e r where
    s2: "s2 = ?s1\<lparr>commands := commands ?s1 @ cs, lastError := e, reports := r\<rparr>"
    and qcs: "list_all quiet cs"
    and rr: "ErrorFlag_Silent s \<longrightarrow> r = reports s"
    unfolding quiet_step_def by auto
  have mm: "map_of ?m ?key = None" using miss by (simp add: cached_VAO_def)
  have look: "map_of (context_vaoMap V1 c) ?key = Some e1"
    using mm by (simp add: cm map_add_def)
  show ?thesis
  proof (cases "attributes_fail W vb s")
    case True
    let ?zero = "map (\<lambda>(k, entry). if k = ?key then (k, entry\<lparr>vao := 0\<rparr>) else (k, entry))"
    let ?V = "map_vaoMap c ?zero V1"
    let ?cs = "[glGenVertexArrays ?h, glBindVertexArray ?h] @ cs @ [glDeleteVertexArrays ?h]"
    let ?s' = "s\<lparr>s_vaos := ?V, gl_genCount := ?h, s_currentVAO := 0, s_updateFlags := ?F,
                 commands := commands s @ ?cs, lastError := e, reports := r\<rparr>"
    have r: "update_VAO W c s = Inr (True, ?s')"
      using True look
      by (simp add: update_VAO_def vb vao foc pa s2 mark_VAO_failed_def issue_def e1 Let_def)
    have qs: "quiet_step (s\<lparr>s_vaos := ?V, gl_genCount := ?h, s_currentVAO := vao (e1\<lparr>vao := 0\<rparr>),
                            s_updateFlags := ?F\<rparr>) ?s'"
      unfolding quiet_step_def
      by (rule exI [of _ ?cs], rule exI [of _ e], rule exI [of _ r])
         (use qcs rr in \<open>simp add: quiet_def\<close>)
    have "context_vaoMap ?V c = ?zero (context_vaoMap V1 c)"
      by (rule context_vaoMap_map_gen) simp
    also have "\<dots> = ?zero (?m @ [(?key, e1)])"
      by (simp only: cm)
    also have "\<dots> = ?m @ [(?key, e1\<lparr>vao := 0\<rparr>)]"
      by (rule zero_entry_append [OF mm])
    finally have cv: "context_vaoMap ?V c = ?m @ [(?key, e1\<lparr>vao := 0\<rparr>)]" .
    have nc: "glDeleteVertexArrays ?h \<in> set (new_commands s ?s')"
      "glGenVertexArrays ?h \<in> set (new_commands s ?s')"
      by (simp_all add: new_commands_def)
    from r qs cv nc True show ?thesis
      by (intro exI [of _ ?s'] exI [of _ ?V] exI [of _ "e1\<lparr>vao := 0\<rparr>"]) simp
  next
    case False
    let ?cs = "[glGenVertexArrays ?h, glBindVertexArray ?h] @ cs @ [glBindVertexArray 0]"
    let ?s' = "s\<lparr>s_vaos := V1, gl_genCount := ?h, s_currentVAO := ?h, s_updateFlags := ?F,
                 commands := commands s @ ?cs, lastError := e, reports := r\<rparr>"
    have r: "update_VAO W c s = Inr (True, ?s')"
      using False
      by (simp add: update_VAO_def vb vao foc pa s2 issue_def Let_def)
    have qs: "quiet_step (s\<lparr>s_vaos := V1, gl_genCount := ?h, s_currentVAO := vao e1,
                            s_updateFlags := ?F\<rparr>) ?s'"
      unfolding quiet_step_def
      by (rule exI [of _ ?cs], rule exI [of _ e], rule exI [of _ r])
         (use qcs rr e1 in \<open>simp add: quiet_def\<close>)
    have nc: "glGenVertexArrays ?h \<in> set (new_commands s ?s')"
      by (simp add: new_commands_def)
    from r qs cm e1 nc False show ?thesis
      by (intro exI [of _ ?s'] exI [of _ V1] exI [of _ e1]) simp
  qed
qed

lemma update_VAO_hit:
  assumes vb: "s_vertexBuffer s = Some vb"
    and vao: "s_useVertexArrayObjects s"
    and hit: "cached_VAO s c (VAO_key W vb s) = Some e"
  shows "update_VAO W c s =
           Inr (True, s\<lparr>s_currentVAO := vao e,
                        s_updateFlags := s_updateFlags s AND NOT Update_VAO\<rparr>)"
  by (simp add: update_VAO_def vb vao find_or_create_VAO_hit [OF hit])

lemma update_VAO_fallback:
  assumes vb: "s_vertexBuffer s = Some vb"
    and vao: "\<not> s_useVertexArrayObjects s"
    and dp: "declarations_present W vb s"
  shows "\<exists>s'. update_VAO W c s = Inr (True, s') \<and> quiet_step s s'"
proof -
  from program_attributes_total [OF dp] obtain s2 where
    pa: "program_attributes W vb s = Inr (attributes_fail W vb s, s2)"
    and q: "quiet_step s s2"
    by blast
  have "update_VAO W c s = Inr (True, s2)"
    using quiet_step_fields(17) [OF q] vao
    by (simp add: update_VAO_def vb pa)
  with q show ?thesis by blast
qed

lemma update_VAO_Inr_present:
  assumes vb: "s_vertexBuffer s = Some vb"
    and res: "update_VAO W c s = Inr (ok, s')"
    and miss: "s_useVertexArrayObjects s \<longrightarrow> cached_VAO s c (VAO_key W vb s) = None"
  shows "declarations_present W vb s"
proof (cases "s_useVertexArrayObjects s")
  case False
  from res vb False obtain b s2 where "program_attributes W vb s = Inr (b, s2)"
    by (cases "program_attributes W vb s") (auto simp: update_VAO_def)
  from program_attributes_Inr(3) [OF this] show ?thesis .
next
  case True
  with miss have m: "cached_VAO s c (VAO_key W vb s) = None" by simp
  have d: "vb_GetVertexDeclaration (vertexBuffers W vb) \<noteq> None"
  proof
    assume "vb_GetVertexDeclaration (vertexBuffers W vb) = None"
    from find_or_create_VAO_miss_fault [OF m this] res vb True show False
      by (simp add: update_VAO_def)
  qed
  from find_or_create_VAO_miss [OF m d] obtain V1 e1 where
    foc: "find_or_create_VAO W c vb s =
            Inr (True, VAO_key W vb s,
                 s\<lparr>s_vaos := V1, gl_genCount := Suc (gl_genCount s),
                   s_currentVAO := Suc (gl_genCount s),
                   commands := commands s @ [glGenVertexArrays (Suc (gl_genCount s)),
                                             glBindVertexArray (Suc (gl_genCount s))]\<rparr>)"
    by blast
  let ?s1 = "s\<lparr>s_vaos := V1, gl_genCount := Suc (gl_genCount s),
                   s_currentVAO := Suc (gl_genCount s),
                   commands := commands s @ [glGenVertexArrays (Suc (gl_genCount s)),
                                             glBindVertexArray (Suc (gl_genCount s))]\<rparr>"
  from res vb True foc obtain b s2 where "program_attributes W vb ?s1 = Inr (b, s2)"
    by (cases "program_attributes W vb ?s1") (auto simp: update_VAO_def)
  from program_attributes_Inr(3) [OF this] show ?thesis
    by (simp add: declarations_present_def)
qed

subsection \<open>Vertex-array cache: lookups\<close>






lemma cached_VAO_cong: "s_vaos t = s_vaos s \<Longrightarrow> cached_VAO t c k = cached_VAO s c k"
  by (simp add: cached_VAO_def)



subsection \<open>Matrices during reconciliation\<close>

lemma sent_locations_append [simp]:
  "sent_locations (xs @ ys) = sent_locations xs @ sent_locations ys"
  by (simp add: sent_locations_def)

lemma sent_locations_Nil [simp]: "sent_locations [] = []"
  by (simp add: sent_locations_def)

lemma sent_locations_quiet: "list_all quiet cs \<Longrightarrow> sent_locations cs = []"
  by (induction cs) (simp_all add: sent_locations_def quiet_def)

lemma quiet_no_draw: "list_all quiet cs \<Longrightarrow> list_all (\<lambda>c. \<not> is_draw c) cs"
  by (induction cs) (simp_all add: quiet_def)

lemma matrix_phase_refl: "matrix_phase (s :: ('a, 'b, 'c) Renderer) s []"
proof -
  have "s = s\<lparr>s_matrices := s_matrices s, commands := commands s @ [], reports := reports s\<rparr>"
    by simp
  moreover have "list_all (\<lambda>c. \<not> is_draw c) ([] :: ('a, 'b, 'c) command list)" by simp
  moreover have "sent_locations ([] :: ('a, 'b, 'c) command list) = []" by simp
  ultimately show ?thesis unfolding matrix_phase_def by blast
qed

lemma matrix_phase_trans:
  assumes "matrix_phase s s' L1" and "matrix_phase s' s'' L2"
  shows "matrix_phase s s'' (L1 @ L2)"
proof -
  from assms(1) obtain mats cs r where
    1: "s' = s\<lparr>s_matrices := mats, commands := commands s @ cs, reports := r\<rparr>"
    and l1: "\<forall>i. location (mats i) = location (s_matrices s i)"
    and r1: "ErrorFlag_Silent s \<longrightarrow> r = reports s"
    and d1: "list_all (\<lambda>c. \<not> is_draw c) cs" and s1: "sent_locations cs = L1"
    unfolding matrix_phase_def by blast
  from assms(2) obtain mats' cs' r' where
    2: "s'' = s'\<lparr>s_matrices := mats', commands := commands s' @ cs', reports := r'\<rparr>"
    and l2: "\<forall>i. location (mats' i) = location (s_matrices s' i)"
    and r2: "ErrorFlag_Silent s' \<longrightarrow> r' = reports s'"
    and d2: "list_all (\<lambda>c. \<not> is_draw c) cs'" and s2: "sent_locations cs' = L2"
    unfolding matrix_phase_def by blast
  have "s'' = s\<lparr>s_matrices := mats', commands := commands s @ (cs @ cs'), reports := r'\<rparr>"
    by (simp add: 1 2)
  moreover have "\<forall>i. location (mats' i) = location (s_matrices s i)"
    using l1 l2 by (simp add: 1)
  moreover have "ErrorFlag_Silent s \<longrightarrow> r' = reports s" using r1 r2 by (simp add: 1)
  moreover have "list_all (\<lambda>c. \<not> is_draw c) (cs @ cs')" using d1 d2 by simp
  moreover have "sent_locations (cs @ cs') = L1 @ L2" using s1 s2 by simp
  ultimately show ?thesis unfolding matrix_phase_def by blast
qed

lemma matrix_phase_trans0:
  "matrix_phase s s' [] \<Longrightarrow> matrix_phase s' s'' [] \<Longrightarrow> matrix_phase s s'' []"
  using matrix_phase_trans [of s s' "[]" s'' "[]"] by simp

lemma matrix_phase_set_updated: "matrix_phase (s :: ('a, 'b, 'c) Renderer) (set_updated t b s) []"
proof -
  let ?mats = "(s_matrices s)(t := (s_matrices s t)\<lparr>updated := b\<rparr>)"
  have "set_updated t b s = s\<lparr>s_matrices := ?mats, commands := commands s @ [], reports := reports s\<rparr>"
    by (simp add: set_updated_def)
  moreover have "\<forall>i. location (?mats i) = location (s_matrices s i)" by simp
  moreover have "list_all (\<lambda>c. \<not> is_draw c) ([] :: ('a, 'b, 'c) command list)" by simp
  moreover have "sent_locations ([] :: ('a, 'b, 'c) command list) = []" by simp
  ultimately show ?thesis unfolding matrix_phase_def by blast
qed

lemma matrix_phase_set_matrix: "matrix_phase (s :: ('a, 'b, 'c) Renderer) (set_matrix t m s) []"
proof -
  let ?mats = "(s_matrices s)(t := (s_matrices s t)\<lparr>matrix := m\<rparr>)"
  have "set_matrix t m s = s\<lparr>s_matrices := ?mats, commands := commands s @ [], reports := reports s\<rparr>"
    by (simp add: set_matrix_def)
  moreover have "\<forall>i. location (?mats i) = location (s_matrices s i)" by simp
  moreover have "list_all (\<lambda>c. \<not> is_draw c) ([] :: ('a, 'b, 'c) command list)" by simp
  moreover have "sent_locations ([] :: ('a, 'b, 'c) command list) = []" by simp
  ultimately show ?thesis unfolding matrix_phase_def by blast
qed

lemma matrix_phase_NazaraWarning:
  "matrix_phase (s :: ('a, 'b, 'c) Renderer) (NazaraWarning msg s) []"
proof -
  let ?r = "if ErrorFlag_Silent s then reports s else reports s @ [ReportWarning msg]"
  have "NazaraWarning msg s = s\<lparr>s_matrices := s_matrices s, commands := commands s @ [], reports := ?r\<rparr>"
    by (simp add: NazaraWarning_def)
  moreover have "ErrorFlag_Silent s \<longrightarrow> ?r = reports s" by simp
  moreover have "list_all (\<lambda>c. \<not> is_draw c) ([] :: ('a, 'b, 'c) command list)" by simp
  moreover have "sent_locations ([] :: ('a, 'b, 'c) command list) = []" by simp
  ultimately show ?thesis unfolding matrix_phase_def by blast
qed

lemma matrix_phase_send:
  "matrix_phase (s :: ('a, 'b, 'c) Renderer) (issue [Shader_SendMatrix sh loc m] s) [loc]"
proof -
  have "issue [Shader_SendMatrix sh loc m] s =
          s\<lparr>s_matrices := s_matrices s, commands := commands s @ [Shader_SendMatrix sh loc m],
            reports := reports s\<rparr>"
    by (simp add: issue_def)
  moreover have "list_all (\<lambda>c. \<not> is_draw c) [Shader_SendMatrix sh loc m :: ('a, 'b, 'c) command]"
    by simp
  moreover have "sent_locations [Shader_SendMatrix sh loc m :: ('a, 'b, 'c) command] = [loc]"
    by (simp add: sent_locations_def)
  ultimately show ?thesis unfolding matrix_phase_def by blast
qed

lemma matrix_phase_invert_into: "matrix_phase s (invert_into M src dst msg s) []"
proof -
  obtain ok d where g: "GetInverse M (matrix (s_matrices s src)) (matrix (s_matrices s dst)) = (ok, d)"
    by (cases "GetInverse M (matrix (s_matrices s src)) (matrix (s_matrices s dst))")
  let ?s1 = "set_matrix dst d s"
  let ?s2 = "if \<not> ok then NazaraWarning msg ?s1 else ?s1"
  have "matrix_phase s ?s1 []" by (rule matrix_phase_set_matrix)
  moreover have "matrix_phase ?s1 ?s2 []"
    by (simp add: matrix_phase_NazaraWarning matrix_phase_refl)
  moreover have "matrix_phase ?s2 (set_updated dst True ?s2) []" by (rule matrix_phase_set_updated)
  ultimately have "matrix_phase s (set_updated dst True ?s2) []"
    by (blast intro: matrix_phase_trans0)
  then show ?thesis by (simp add: invert_into_def g Let_def)
qed

lemma matrix_phase_three:
  assumes "matrix_phase s s1 []"
  shows "matrix_phase s (set_updated t b (set_matrix t y (set_matrix t x s1))) []"
proof -
  have "matrix_phase s1 (set_matrix t x s1) []" by (rule matrix_phase_set_matrix)
  moreover have "matrix_phase (set_matrix t x s1) (set_matrix t y (set_matrix t x s1)) []"
    by (rule matrix_phase_set_matrix)
  moreover have "matrix_phase (set_matrix t y (set_matrix t x s1))
                   (set_updated t b (set_matrix t y (set_matrix t x s1))) []"
    by (rule matrix_phase_set_updated)
  ultimately show ?thesis using assms by (blast intro: matrix_phase_trans0)
qed

lemma matrix_phase_WorldView: "matrix_phase s (UpdateMatrix M MatrixType_WorldView s) []"
  using matrix_phase_three [OF matrix_phase_refl, where t = MatrixType_WorldView and b = True]
  by (simp add: Let_def)

lemma matrix_phase_WorldViewProj:
  "matrix_phase s (UpdateMatrix M MatrixType_WorldViewProj s) []"
proof (cases "updated (s_matrices s MatrixType_WorldView)")
  case True
  then show ?thesis
    using matrix_phase_three [OF matrix_phase_refl, where t = MatrixType_WorldViewProj and b = True]
    by (simp add: Let_def)
next
  case False
  then show ?thesis
    using matrix_phase_three [OF matrix_phase_WorldView, where t = MatrixType_WorldViewProj and b = True]
    by (simp add: Let_def del: UpdateMatrix.simps(5))
qed

lemma matrix_phase_noninverse:
  assumes "inverse_source t = None"
  shows "matrix_phase s (UpdateMatrix M t s) []"
proof (cases t)
  case MatrixType_Projection
  then show ?thesis by (simp add: matrix_phase_set_updated)
next
  case MatrixType_View
  then show ?thesis by (simp add: matrix_phase_set_updated)
next
  case MatrixType_World
  then show ?thesis by (simp add: matrix_phase_set_updated)
next
  case MatrixType_ViewProj
  then show ?thesis
    using matrix_phase_three [OF matrix_phase_refl, where t = MatrixType_ViewProj and b = True]
    by (simp add: Let_def)
next
  case MatrixType_WorldView
  then show ?thesis by (simp only: matrix_phase_WorldView)
next
  case MatrixType_WorldViewProj
  then show ?thesis by (simp only: matrix_phase_WorldViewProj)
qed (use assms in simp_all)

lemma matrix_phase_UpdateMatrix: "matrix_phase s (UpdateMatrix M t s) []"
proof (cases "inverse_source t")
  case None
  then show ?thesis by (rule matrix_phase_noninverse)
next
  case (Some src)
  then have "inverse_source src = None" by (cases t) auto
  then have "matrix_phase s (ensure_updated M src s) []"
    by (simp add: ensure_updated_def matrix_phase_noninverse matrix_phase_refl)
  moreover obtain msg where "UpdateMatrix M t s = invert_into M src t msg (ensure_updated M src s)"
    using UpdateMatrix_inverse [OF Some] by blast
  ultimately show ?thesis
    using matrix_phase_invert_into [of "ensure_updated M src s" M src t msg]
    by (auto intro: matrix_phase_trans0)
qed

lemma matrix_phase_location:
  "matrix_phase s s' L \<Longrightarrow> location (s_matrices s' i) = location (s_matrices s i)"
  unfolding matrix_phase_def by auto

lemma send_matrices_phase:
  "matrix_phase s (send_matrices M sh ts s)
     (filter (\<lambda>l. l \<noteq> - 1) (map (\<lambda>i. location (s_matrices s i)) ts))"
proof (induction ts arbitrary: s)
  case Nil
  show ?case by (simp add: matrix_phase_refl)
next
  case (Cons i ts)
  show ?case
  proof (cases "location (s_matrices s i) = - 1")
    case True
    with Cons.IH [of s] show ?thesis by simp
  next
    case False
    let ?s1 = "if \<not> updated (s_matrices s i) then UpdateMatrix M i s else s"
    let ?s2 = "issue [Shader_SendMatrix sh (location (s_matrices ?s1 i)) (matrix (s_matrices ?s1 i))] ?s1"
    have p1: "matrix_phase s ?s1 []"
      by (simp add: matrix_phase_UpdateMatrix matrix_phase_refl)
    have loc1: "location (s_matrices ?s1 j) = location (s_matrices s j)" for j
      using matrix_phase_location [OF p1] .
    have p2: "matrix_phase ?s1 ?s2 [location (s_matrices s i)]"
      using matrix_phase_send [of ?s1 sh "location (s_matrices ?s1 i)"] by (simp only: loc1)
    have p12: "matrix_phase s ?s2 [location (s_matrices s i)]"
      using matrix_phase_trans [OF p1 p2] by simp
    have loc2: "location (s_matrices ?s2 j) = location (s_matrices s j)" for j
      using matrix_phase_location [OF p12] .
    have "matrix_phase ?s2 (send_matrices M sh ts ?s2)
            (filter (\<lambda>l. l \<noteq> - 1) (map (\<lambda>i. location (s_matrices s i)) ts))"
      using Cons.IH [of ?s2] by (simp only: loc2)
    from matrix_phase_trans [OF p12 this] False show ?thesis
      by (simp add: Let_def)
  qed
qed

subsection \<open>The other steps of reconciliation\<close>

lemma flag_facts:
  "(((x :: 32 word) OR Update_Matrices) AND NOT Update_Shader) AND Update_Matrices \<noteq> 0"
  "((x :: 32 word) AND NOT Update_Textures) AND Update_Matrices = x AND Update_Matrices"
  "(x :: 32 word) AND Update_Matrices \<noteq> 0 \<Longrightarrow> x \<noteq> Update_None"
proof -
  have a: "NOT Update_Shader AND Update_Matrices = (Update_Matrices :: 32 word)"
    by (simp add: Update_Shader_def Update_Matrices_def)
  have "((x OR Update_Matrices) AND NOT Update_Shader) AND Update_Matrices
          = (x OR Update_Matrices) AND (NOT Update_Shader AND Update_Matrices)"
    by (simp add: and.assoc)
  also have "\<dots> = (x OR Update_Matrices) AND Update_Matrices" by (simp only: a)
  also have "\<dots> = Update_Matrices" by (simp add: word_bw_comms word_ao_absorbs)
  finally show "((x OR Update_Matrices) AND NOT Update_Shader) AND Update_Matrices \<noteq> 0"
    by (simp add: Update_Matrices_def)
  have b: "NOT Update_Textures AND Update_Matrices = (Update_Matrices :: 32 word)"
    by (simp add: Update_Textures_def Update_Matrices_def)
  have "(x AND NOT Update_Textures) AND Update_Matrices
          = x AND (NOT Update_Textures AND Update_Matrices)"
    by (simp add: and.assoc)
  then show "(x AND NOT Update_Textures) AND Update_Matrices = x AND Update_Matrices"
    by (simp only: b)
  show "x AND Update_Matrices \<noteq> 0 \<Longrightarrow> x \<noteq> Update_None"
    by (auto simp: Update_None_def)
qed

lemma resolve_locations_eq:
  "resolve_locations W sh s =
     s\<lparr>s_matrices := s_matrices (resolve_locations W sh s), s_targetSize := (0, 0),
       s_updateFlags := (s_updateFlags s OR Update_Matrices) AND NOT Update_Shader\<rparr>"
  by (simp add: resolve_locations_def set_location_def Let_def)

lemma resolve_locations_location:
  "location (s_matrices (resolve_locations W sh s) i) =
     GetUniformLocation (shaders W sh) (MatrixType_uniform i)"
  by (cases i) (simp_all add: resolve_locations_def set_location_def Let_def)

lemma send_target_size_eq:
  "\<exists>cs. send_target_size W sh tg s =
           s\<lparr>s_targetSize := (GetWidth (targets W tg), GetHeight (targets W tg)),
             commands := commands s @ cs\<rparr>
        \<and> list_all quiet cs"
proof (cases "s_targetSize s = (GetWidth (targets W tg), GetHeight (targets W tg))")
  case True
  then have "send_target_size W sh tg s =
      s\<lparr>s_targetSize := (GetWidth (targets W tg), GetHeight (targets W tg)),
        commands := commands s @ []\<rparr>"
    by (simp add: send_target_size_def Let_def)
  moreover have "list_all quiet ([] :: ('a, 'b, 'c) command list)" by simp
  ultimately show ?thesis by blast
next
  case False
  let ?l1 = "GetUniformLocation (shaders W sh) ShaderUniform_InvTargetSize"
  let ?l2 = "GetUniformLocation (shaders W sh) ShaderUniform_TargetSize"
  let ?sz = "(GetWidth (targets W tg), GetHeight (targets W tg))"
  let ?cs = "(if ?l1 \<noteq> - 1 then [Shader_SendInvTargetSize sh ?l1 ?sz] else [])
             @ (if ?l2 \<noteq> - 1 then [Shader_SendTargetSize sh ?l2 ?sz] else [])"
  from False have "send_target_size W sh tg s = s\<lparr>s_targetSize := ?sz, commands := commands s @ ?cs\<rparr>"
    by (simp add: send_target_size_def Let_def issue_def)
  moreover have "list_all quiet (?cs :: ('a, 'b, 'c) command list)" by (simp add: quiet_def)
  ultimately show ?thesis by blast
qed

lemma apply_samplers_Inr:
  "apply_samplers js s = Inr s' \<Longrightarrow>
   \<exists>units cs. s' = s\<lparr>s_textureUnits := units, commands := commands s @ cs\<rparr>
             \<and> list_all quiet cs \<and> length units = length (s_textureUnits s)"
proof (induction js arbitrary: s)
  case Nil
  then have "s' = s\<lparr>s_textureUnits := s_textureUnits s, commands := commands s @ []\<rparr>" by simp
  moreover have "list_all quiet ([] :: ('a, 'b, 'c) command list)" by simp
  ultimately show ?case by blast
next
  case (Cons j js)
  from Cons.prems have inb: "j < length (s_textureUnits s)"
    by (simp split: if_splits)
  let ?unit = "s_textureUnits s ! j"
  show ?case
  proof (cases "texture ?unit \<noteq> None \<and> \<not> samplerUpdated ?unit")
    case False
    with Cons.prems inb have "apply_samplers js s = Inr s'"
      by (auto simp: Let_def split: option.splits if_splits)
    from Cons.IH [OF this] show ?thesis .
  next
    case True
    then obtain tex where tex: "texture ?unit = Some tex" by auto
    let ?c = "if s_useSamplerObjects s then [Sampler_Bind (sampler ?unit) j]
              else [OpenGL_BindTextureUnit j, Sampler_Apply (sampler ?unit) tex]"
    let ?s1 = "s\<lparr>commands := commands s @ ?c,
                 s_textureUnits := (s_textureUnits s)[j := ?unit\<lparr>samplerUpdated := True\<rparr>]\<rparr>"
    from Cons.prems inb True tex have "apply_samplers js ?s1 = Inr s'"
      by (cases "s_useSamplerObjects s") (simp_all add: Let_def issue_def)
    from Cons.IH [OF this] obtain units cs where
      1: "s' = ?s1\<lparr>s_textureUnits := units, commands := commands ?s1 @ cs\<rparr>"
      and 2: "list_all quiet cs" and 3: "length units = length (s_textureUnits ?s1)"
      by blast
    have "s' = s\<lparr>s_textureUnits := units, commands := commands s @ (?c @ cs)\<rparr>"
      by (simp add: 1)
    moreover have "list_all quiet (?c @ cs)" using 2 by (simp add: quiet_def)
    moreover have "length units = length (s_textureUnits s)" using 3 by simp
    ultimately show ?thesis by blast
  qed
qed

lemma update_textures_Inr:
  assumes "update_textures s = Inr s'"
  shows "\<exists>units cs. s' = s\<lparr>s_textureUnits := units, s_dirtyTextureUnits := [],
                           s_updateFlags := s_updateFlags s AND NOT Update_Textures,
                           commands := commands s @ cs\<rparr>
                   \<and> list_all quiet cs \<and> length units = length (s_textureUnits s)"
proof -
  from assms obtain s1 where a: "apply_samplers (s_dirtyTextureUnits s) s = Inr s1"
    and s': "s' = s1\<lparr>s_dirtyTextureUnits := [],
                     s_updateFlags := s_updateFlags s1 AND NOT Update_Textures\<rparr>"
    by (cases "apply_samplers (s_dirtyTextureUnits s) s") (simp_all add: update_textures_def)
  from apply_samplers_Inr [OF a] obtain units cs where
    1: "s1 = s\<lparr>s_textureUnits := units, commands := commands s @ cs\<rparr>"
    and 2: "list_all quiet cs" "length units = length (s_textureUnits s)"
    by blast
  have "s' = s\<lparr>s_textureUnits := units, s_dirtyTextureUnits := [],
               s_updateFlags := s_updateFlags s AND NOT Update_Textures,
               commands := commands s @ cs\<rparr>"
    by (simp add: s' 1)
  with 2 show ?thesis by blast
qed

lemma bind_textures_Inr: "bind_textures W js s = Inr s' \<Longrightarrow> quiet_step s s'"
proof (induction js arbitrary: s)
  case Nil
  then show ?case by (simp add: quiet_step_refl)
next
  case (Cons j js)
  from Cons.prems have inb: "j < length (s_textureUnits s)"
    by (simp split: if_splits)
  show ?case
  proof (cases "texture (s_textureUnits s ! j)")
    case None
    with Cons.prems inb have "bind_textures W js s = Inr s'" by simp
    from Cons.IH [OF this] show ?thesis .
  next
    case (Some tex)
    let ?s1 = "issue [OpenGL_BindTexture j (tex_GetType (textures W tex)) (tex_GetOpenGLID (textures W tex)),
                      Texture_EnsureMipmapsUpdate tex] s"
    from Some Cons.prems inb have "bind_textures W js ?s1 = Inr s'" by simp
    from Cons.IH [OF this] have "quiet_step ?s1 s'" .
    moreover have "quiet_step s ?s1" by (simp add: quiet_step_issue quiet_def)
    ultimately show ?thesis by (blast intro: quiet_step_trans)
  qed
qed

lemma bind_textures_total:
  "\<forall>j \<in> set js. j < length (s_textureUnits s) \<Longrightarrow> \<exists>s'. bind_textures W js s = Inr s'"
proof (induction js arbitrary: s)
  case Nil
  show ?case by simp
next
  case (Cons j js)
  then have inb: "j < length (s_textureUnits s)" by simp
  show ?case
  proof (cases "texture (s_textureUnits s ! j)")
    case None
    with Cons inb show ?thesis by simp
  next
    case (Some tex)
    let ?s1 = "issue [OpenGL_BindTexture j (tex_GetType (textures W tex)) (tex_GetOpenGLID (textures W tex)),
                      Texture_EnsureMipmapsUpdate tex] s"
    have "s_textureUnits ?s1 = s_textureUnits s" by (simp add: issue_def)
    with Cons.prems have "\<forall>j \<in> set js. j < length (s_textureUnits ?s1)" by simp
    from Cons.IH [OF this] Some inb show ?thesis by simp
  qed
qed

subsection \<open>Reconciliation as a whole\<close>

lemma reconcile_step_refl: "reconcile_step (s :: ('a, 'b, 'c) Renderer) s []"
proof -
  have "commands s = commands s @ []" by simp
  moreover have "list_all (\<lambda>c. \<not> is_draw c) ([] :: ('a, 'b, 'c) command list)" by simp
  moreover have "sent_locations ([] :: ('a, 'b, 'c) command list) = []" by simp
  ultimately have "extends_log s s []" unfolding extends_log_def by blast
  then show ?thesis by (simp add: reconcile_step_def reconcile_frame_def)
qed

lemma extends_log_trans:
  assumes "extends_log s s' L1" and "extends_log s' s'' L2"
  shows "extends_log s s'' (L1 @ L2)"
proof -
  from assms(1) obtain cs where 1: "commands s' = commands s @ cs"
    "list_all (\<lambda>c. \<not> is_draw c) cs" "sent_locations cs = L1"
    unfolding extends_log_def by blast
  from assms(2) obtain cs' where 2: "commands s'' = commands s' @ cs'"
    "list_all (\<lambda>c. \<not> is_draw c) cs'" "sent_locations cs' = L2"
    unfolding extends_log_def by blast
  have "commands s'' = commands s @ (cs @ cs')" using 1 2 by simp
  moreover have "list_all (\<lambda>c. \<not> is_draw c) (cs @ cs')" using 1 2 by simp
  moreover have "sent_locations (cs @ cs') = L1 @ L2" using 1 2 by simp
  ultimately show ?thesis unfolding extends_log_def by blast
qed

lemma reconcile_step_trans:
  assumes "reconcile_step s s' L1" and "reconcile_step s' s'' L2"
  shows "reconcile_step s s'' (L1 @ L2)"
proof -
  from assms have "extends_log s s'' (L1 @ L2)"
    by (auto simp: reconcile_step_def intro: extends_log_trans)
  moreover from assms have "reconcile_frame s s''"
    by (simp add: reconcile_step_def reconcile_frame_def)
  ultimately show ?thesis by (simp add: reconcile_step_def)
qed

lemma reconcile_step_trans0:
  "reconcile_step s s' [] \<Longrightarrow> reconcile_step s' s'' L \<Longrightarrow> reconcile_step s s'' L"
  using reconcile_step_trans [of s s' "[]" s'' L] by simp

lemma reconcile_step_trans1:
  "reconcile_step s s' L \<Longrightarrow> reconcile_step s' s'' [] \<Longrightarrow> reconcile_step s s'' L"
  using reconcile_step_trans [of s s' L s'' "[]"] by simp

lemma reconcile_step_quiet:
  assumes "quiet_step s s'"
  shows "reconcile_step s s' []"
proof -
  from quiet_step_commands [OF assms] obtain cs where
    cs: "commands s' = commands s @ cs" "list_all quiet cs" by blast
  then have "extends_log s s' []"
    unfolding extends_log_def using quiet_no_draw sent_locations_quiet by blast
  moreover have "reconcile_frame s s'"
    using quiet_step_fields [OF assms] quiet_step_reports [OF assms]
    by (simp add: reconcile_frame_def)
  ultimately show ?thesis by (simp add: reconcile_step_def)
qed

lemma reconcile_step_matrix:
  assumes "matrix_phase s s' L"
  shows "reconcile_step s s' L"
proof -
  from assms obtain mats cs r where
    s': "s' = s\<lparr>s_matrices := mats, commands := commands s @ cs, reports := r\<rparr>"
    and r: "ErrorFlag_Silent s \<longrightarrow> r = reports s"
    and d: "list_all (\<lambda>c. \<not> is_draw c) cs" and l: "sent_locations cs = L"
    unfolding matrix_phase_def by blast
  have "commands s' = commands s @ cs" by (simp add: s')
  with d l have "extends_log s s' L" unfolding extends_log_def by blast
  moreover have "reconcile_frame s s'" using r by (simp add: reconcile_frame_def s')
  ultimately show ?thesis by (simp add: reconcile_step_def)
qed

text \<open>A state that differs from another in the fields a reconciliation may change.\<close>

lemma reconcile_step_same:
  assumes "reconcile_frame s t" and "commands t = commands s" and "reconcile_step t s' L"
  shows "reconcile_step s s' L"
proof -
  have "commands t = commands s @ []" using assms(2) by simp
  moreover have "list_all (\<lambda>c. \<not> is_draw c) ([] :: ('a, 'b, 'c) command list)" by simp
  moreover have "sent_locations ([] :: ('a, 'b, 'c) command list) = []" by simp
  ultimately have "extends_log s t []" unfolding extends_log_def by blast
  with assms(1) have "reconcile_step s t []" by (simp add: reconcile_step_def)
  from reconcile_step_trans0 [OF this assms(3)] show ?thesis .
qed

lemma update_VAO_frame:
  assumes "update_VAO W c s = Inr (ok, s')"
  shows "reconcile_step s s' []" and "s_matrices s' = s_matrices s"
proof -
  have "\<exists>t. quiet_step t s' \<and> reconcile_frame s t \<and> commands t = commands s
            \<and> s_matrices t = s_matrices s"
  proof (cases "s_vertexBuffer s")
    case None
    with assms have "s' = NazaraError ''No vertex buffer'' s"
      by (simp add: update_VAO_def)
    then have "quiet_step s s'" by (simp add: quiet_step_NazaraError)
    then show ?thesis by (auto simp: reconcile_frame_def)
  next
    case (Some vb)
    show ?thesis
    proof (cases "s_useVertexArrayObjects s")
      case False
      from assms Some False obtain b s2 where pa: "program_attributes W vb s = Inr (b, s2)"
        by (cases "program_attributes W vb s") (auto simp: update_VAO_def)
      note q = program_attributes_Inr(1) [OF pa]
      from assms Some False pa quiet_step_fields(17) [OF q] have "s' = s2"
        by (simp add: update_VAO_def)
      with q show ?thesis by (auto simp: reconcile_frame_def)
    next
      case True
      show ?thesis
      proof (cases "cached_VAO s c (VAO_key W vb s)")
        case (Some e)
        from update_VAO_hit [OF \<open>s_vertexBuffer s = Some vb\<close> True Some] assms
        have "s' = s\<lparr>s_currentVAO := vao e, s_updateFlags := s_updateFlags s AND NOT Update_VAO\<rparr>"
          by simp
        then show ?thesis
          using quiet_step_refl [of s'] by (auto simp: reconcile_frame_def)
      next
        case None
        have dp: "declarations_present W vb s"
          using update_VAO_Inr_present [OF \<open>s_vertexBuffer s = Some vb\<close> assms] None by simp
        from update_VAO_miss [OF \<open>s_vertexBuffer s = Some vb\<close> True None dp] assms
        obtain V and e :: VAO_Entry where
          "quiet_step (s\<lparr>s_vaos := V, gl_genCount := Suc (gl_genCount s), s_currentVAO := vao e,
                          s_updateFlags := s_updateFlags s AND NOT Update_VAO\<rparr>) s'"
          by auto
        then show ?thesis
          by (rule_tac x = "s\<lparr>s_vaos := V, gl_genCount := Suc (gl_genCount s), s_currentVAO := vao e,
                          s_updateFlags := s_updateFlags s AND NOT Update_VAO\<rparr>" in exI)
             (simp add: reconcile_frame_def)
      qed
    qed
  qed
  then obtain t where t: "quiet_step t s'" "reconcile_frame s t" "commands t = commands s"
    "s_matrices t = s_matrices s"
    by blast
  from reconcile_step_same [OF t(2,3) reconcile_step_quiet [OF t(1)]]
  show "reconcile_step s s' []" .
  from quiet_step_fields(6) [OF t(1)] t(4) show "s_matrices s' = s_matrices s" by simp
qed

lemma update_matrices_step:
  "reconcile_step s (update_matrices M sh s) (slot_locations s)"
  "location (s_matrices (update_matrices M sh s) i) = location (s_matrices s i)"
  "s_updateFlags (update_matrices M sh s) = s_updateFlags s AND NOT Update_Matrices"
proof -
  let ?s1 = "send_matrices M sh all_MatrixTypes s"
  have p: "matrix_phase s ?s1 (slot_locations s)"
    unfolding slot_locations_def by (rule send_matrices_phase)
  have u: "update_matrices M sh s = ?s1\<lparr>s_updateFlags := s_updateFlags ?s1 AND NOT Update_Matrices\<rparr>"
    by (simp add: update_matrices_def Let_def)
  from p obtain mats cs r where
    s1: "?s1 = s\<lparr>s_matrices := mats, commands := commands s @ cs, reports := r\<rparr>"
    unfolding matrix_phase_def by blast
  have "reconcile_step ?s1 (update_matrices M sh s) []"
    using reconcile_step_refl [of ?s1]
    by (simp add: u reconcile_step_def reconcile_frame_def extends_log_def)
  from reconcile_step_trans1 [OF reconcile_step_matrix [OF p] this]
  show "reconcile_step s (update_matrices M sh s) (slot_locations s)" .
  show "location (s_matrices (update_matrices M sh s) i) = location (s_matrices s i)"
    using matrix_phase_location [OF p, of i] by (simp add: u)
  have "s_updateFlags ?s1 = s_updateFlags s"
    using arg_cong [OF s1, of s_updateFlags] by simp
  then show "s_updateFlags (update_matrices M sh s) = s_updateFlags s AND NOT Update_Matrices"
    by (simp add: u)
qed

lemma update_textures_step:
  assumes "update_textures s = Inr s'"
  shows "reconcile_step s s' []" and "s_matrices s' = s_matrices s"
    and "s_updateFlags s' = s_updateFlags s AND NOT Update_Textures"
proof -
  from update_textures_Inr [OF assms] obtain units cs where
    s': "s' = s\<lparr>s_textureUnits := units, s_dirtyTextureUnits := [],
                s_updateFlags := s_updateFlags s AND NOT Update_Textures,
                commands := commands s @ cs\<rparr>"
    and q: "list_all quiet cs" and l: "length units = length (s_textureUnits s)"
    by blast
  have "commands s' = commands s @ cs" by (simp add: s')
  then have "extends_log s s' []"
    unfolding extends_log_def using q quiet_no_draw sent_locations_quiet by blast
  moreover have "reconcile_frame s s'" using l by (simp add: reconcile_frame_def s')
  ultimately show "reconcile_step s s' []" by (simp add: reconcile_step_def)
  show "s_matrices s' = s_matrices s" by (simp add: s')
  show "s_updateFlags s' = s_updateFlags s AND NOT Update_Textures" by (simp add: s')
qed

lemma update_flagged_step:
  assumes res: "update_flagged W M c sh s = Inr (ok, s')"
  shows "reconcile_step s s'
           (if s_updateFlags s AND Update_Matrices \<noteq> 0 then slot_locations s else [])"
    and "location (s_matrices s' i) = location (s_matrices s i)"
proof -
  let ?L = "if s_updateFlags s AND Update_Matrices \<noteq> 0 then slot_locations s else []"
  have both: "reconcile_step s s' ?L
                \<and> (\<forall>i. location (s_matrices s' i) = location (s_matrices s i))"
  proof (cases "s_updateFlags s \<noteq> Update_None")
    case False
    with res have "s' = s" by (simp add: update_flagged_def)
    moreover from False have "s_updateFlags s AND Update_Matrices = 0"
      by (simp add: Update_None_def)
    ultimately show ?thesis by (simp add: reconcile_step_refl)
  next
    case True
    let ?tex = "if s_updateFlags s AND Update_Textures \<noteq> 0 then update_textures s else Inr s"
    from res True have "\<exists>sT. ?tex = Inr sT"
      by (cases ?tex) (simp_all add: update_flagged_def)
    then obtain sT where T: "?tex = Inr sT" by blast
    have sT: "reconcile_step s sT []" "s_matrices sT = s_matrices s"
      "s_updateFlags sT AND Update_Matrices = s_updateFlags s AND Update_Matrices"
    proof -
      show "reconcile_step s sT []"
        using T update_textures_step(1) [of s sT]
        by (auto simp: reconcile_step_refl split: if_splits)
      show "s_matrices sT = s_matrices s"
        using T update_textures_step(2) [of s sT] by (auto split: if_splits)
      show "s_updateFlags sT AND Update_Matrices = s_updateFlags s AND Update_Matrices"
        using T update_textures_step(3) [of s sT]
        by (auto simp: flag_facts(2) split: if_splits)
    qed
    let ?sM = "if s_updateFlags sT AND Update_Matrices \<noteq> 0 then update_matrices M sh sT else sT"
    have sl: "slot_locations sT = slot_locations s"
      by (simp add: slot_locations_def sT(2))
    have sM: "reconcile_step sT ?sM ?L"
      "\<And>i. location (s_matrices ?sM i) = location (s_matrices s i)"
    proof -
      show "reconcile_step sT ?sM ?L"
        using update_matrices_step(1) [of sT M sh]
        by (simp add: sT(3) sl reconcile_step_refl)
      show "location (s_matrices ?sM i) = location (s_matrices s i)" for i
        using update_matrices_step(2) [of M sh sT i] by (simp add: sT(2))
    qed
    let ?vao = "if s_updateFlags ?sM AND Update_VAO \<noteq> 0 then update_VAO W c ?sM
                else Inr (True, ?sM)"
    from res True T have "\<exists>p. ?vao = Inr p"
      by (cases ?vao) (simp_all add: update_flagged_def Let_def)
    then obtain okv sV where V: "?vao = Inr (okv, sV)" by (metis prod.collapse)
    have sV: "reconcile_step ?sM sV []" "s_matrices sV = s_matrices ?sM"
    proof -
      show "reconcile_step ?sM sV []"
        using V update_VAO_frame(1) [of W c ?sM okv sV]
        by (cases "s_updateFlags ?sM AND Update_VAO \<noteq> 0") (simp_all add: reconcile_step_refl)
      show "s_matrices sV = s_matrices ?sM"
        using V update_VAO_frame(2) [of W c ?sM okv sV]
        by (cases "s_updateFlags ?sM AND Update_VAO \<noteq> 0") simp_all
    qed
    let ?w = "NazaraWarning ''Update flags not fully cleared'' sV"
    from res True T V have s': "s' = sV \<or> s' = ?w"
      by (cases okv) (simp_all add: update_flagged_def Let_def split: if_splits)
    have last: "reconcile_step sV s' []" "s_matrices s' = s_matrices sV"
    proof -
      have "reconcile_step sV ?w []"
        by (rule reconcile_step_quiet) (rule quiet_step_NazaraWarning)
      with s' show "reconcile_step sV s' []" by (auto simp: reconcile_step_refl)
      from s' show "s_matrices s' = s_matrices sV" by (auto simp: NazaraWarning_def)
    qed
    have "reconcile_step s s' ?L"
      using sT(1) sM(1) sV(1) last(1)
      by (blast intro: reconcile_step_trans0 reconcile_step_trans1)
    moreover have "location (s_matrices s' i) = location (s_matrices s i)" for i
      using sM(2) [of i] by (simp only: last(2) sV(2))
    ultimately show ?thesis by blast
  qed
  from both show "reconcile_step s s' ?L" by blast
  from both show "location (s_matrices s' i) = location (s_matrices s i)" by blast
qed

lemma resolve_locations_step:
  "reconcile_step s (resolve_locations W sh s) []"
  "s_updateFlags (resolve_locations W sh s) AND Update_Matrices \<noteq> 0"
  "slot_locations (resolve_locations W sh s) = program_locations W sh"
proof -
  let ?r = "resolve_locations W sh s"
  have f: "s_updateFlags ?r = (s_updateFlags s OR Update_Matrices) AND NOT Update_Shader"
    using arg_cong [OF resolve_locations_eq [of W sh s], of s_updateFlags] by simp
  have "reconcile_frame s ?r"
    by (subst resolve_locations_eq) (simp add: reconcile_frame_def)
  moreover have "commands ?r = commands s"
    by (subst resolve_locations_eq) simp
  ultimately show "reconcile_step s ?r []"
    using reconcile_step_same [OF _ _ reconcile_step_refl [of ?r]] by simp
  show "s_updateFlags ?r AND Update_Matrices \<noteq> 0"
    unfolding f by (rule flag_facts(1))
  show "slot_locations ?r = program_locations W sh"
    by (simp add: slot_locations_def program_locations_def resolve_locations_location)
qed

lemma send_target_size_step:
  "reconcile_step s (send_target_size W sh tg s) []"
  "s_matrices (send_target_size W sh tg s) = s_matrices s"
  "s_updateFlags (send_target_size W sh tg s) = s_updateFlags s"
proof -
  from send_target_size_eq [of W sh tg s] obtain cs where
    e: "send_target_size W sh tg s =
          s\<lparr>s_targetSize := (GetWidth (targets W tg), GetHeight (targets W tg)),
            commands := commands s @ cs\<rparr>"
    and q: "list_all quiet cs"
    by blast
  have "extends_log s (send_target_size W sh tg s) []"
    unfolding extends_log_def e using q quiet_no_draw sent_locations_quiet by auto
  moreover have "reconcile_frame s (send_target_size W sh tg s)"
    by (simp add: e reconcile_frame_def)
  ultimately show "reconcile_step s (send_target_size W sh tg s) []"
    by (simp add: reconcile_step_def)
  show "s_matrices (send_target_size W sh tg s) = s_matrices s" by (simp add: e)
  show "s_updateFlags (send_target_size W sh tg s) = s_updateFlags s" by (simp add: e)
qed

lemma reconcile_step_issue_quiet:
  "list_all quiet cs \<Longrightarrow> reconcile_step s (issue cs s) []"
  by (rule reconcile_step_quiet) (rule quiet_step_issue)

lemma EnsureStateUpdate_body_step:
  assumes ctx: "Context_GetCurrent W = Some c"
    and sh: "s_shader s = Some sh"
    and tg: "s_target s = Some tg"
    and res: "EnsureStateUpdate_body W M s = Inr (ok, s')"
  shows "reconcile_step s s'
           (if s_updateFlags s AND Update_Shader \<noteq> 0 then program_locations W sh
            else if s_updateFlags s AND Update_Matrices \<noteq> 0 then slot_locations s else [])"
    and "s_updateFlags s AND Update_Shader \<noteq> 0 \<Longrightarrow>
         location (s_matrices s' i) = GetUniformLocation (shaders W sh) (MatrixType_uniform i)"
proof -
  let ?L = "if s_updateFlags s AND Update_Shader \<noteq> 0 then program_locations W sh
            else if s_updateFlags s AND Update_Matrices \<noteq> 0 then slot_locations s else []"
  let ?sA = "issue [Shader_Bind sh] (issue [Target_EnsureTargetUpdated tg] s)"
  let ?sB = "if s_updateFlags ?sA AND Update_Shader \<noteq> 0 then resolve_locations W sh ?sA else ?sA"
  let ?sC = "send_target_size W sh tg ?sB"
  have A: "reconcile_step s ?sA []" "s_matrices ?sA = s_matrices s"
    "s_updateFlags ?sA = s_updateFlags s"
  proof -
    have "quiet_step s (issue [Target_EnsureTargetUpdated tg] s)"
      by (simp add: quiet_step_issue quiet_def)
    moreover have "quiet_step (issue [Target_EnsureTargetUpdated tg] s) ?sA"
      by (simp add: quiet_step_issue quiet_def)
    ultimately have "quiet_step s ?sA" by (rule quiet_step_trans)
    then show "reconcile_step s ?sA []" by (rule reconcile_step_quiet)
    show "s_matrices ?sA = s_matrices s" "s_updateFlags ?sA = s_updateFlags s"
      by (simp_all add: issue_def)
  qed
  have slA: "slot_locations ?sA = slot_locations s"
    by (simp add: slot_locations_def A(2))
  have B: "reconcile_step ?sA ?sB []"
    using resolve_locations_step(1) [of ?sA W sh] by (simp add: reconcile_step_refl)
  have BL: "(if s_updateFlags ?sB AND Update_Matrices \<noteq> 0 then slot_locations ?sB else []) = ?L"
    using resolve_locations_step(2,3) [of W sh ?sA] by (simp add: A(3) slA)
  have Bloc: "location (s_matrices ?sB i) = GetUniformLocation (shaders W sh) (MatrixType_uniform i)"
    if "s_updateFlags s AND Update_Shader \<noteq> 0"
    using that by (simp add: A(3) resolve_locations_location)
  have C: "reconcile_step ?sB ?sC []" "s_matrices ?sC = s_matrices ?sB"
    "s_updateFlags ?sC = s_updateFlags ?sB"
    by (rule send_target_size_step)+
  have CL: "(if s_updateFlags ?sC AND Update_Matrices \<noteq> 0 then slot_locations ?sC else []) = ?L"
    using BL by (simp only: C(3) slot_locations_def C(2))
  from res have "\<exists>p. update_flagged W M c sh ?sC = Inr p"
    by (cases "update_flagged W M c sh ?sC")
       (simp_all add: EnsureStateUpdate_body_def ctx sh tg Let_def)
  then obtain okf sD where D: "update_flagged W M c sh ?sC = Inr (okf, sD)"
    by (metis prod.collapse)
  note Dstep = update_flagged_step [OF D]
  have Dl: "reconcile_step ?sC sD ?L" using Dstep(1) by (simp only: CL)
  have tail: "reconcile_step sD s' [] \<and> s_matrices s' = s_matrices sD"
  proof (cases okf)
    case False
    with res D have "s' = sD"
      by (simp add: EnsureStateUpdate_body_def ctx sh tg Let_def)
    then show ?thesis by (simp add: reconcile_step_refl)
  next
    case True
    show ?thesis
    proof (cases "s_useVertexArrayObjects sD \<and> s_currentVAO sD = 0")
      case fail: True
      with res D True have "s' = NazaraError ''Failed to create VAO'' sD"
        by (simp add: EnsureStateUpdate_body_def ctx sh tg Let_def)
      then show ?thesis
        using reconcile_step_quiet [OF quiet_step_NazaraError [of sD "''Failed to create VAO''"]]
        by (simp add: NazaraError_def)
    next
      case False
      let ?sE = "if s_useVertexArrayObjects sD then issue [glBindVertexArray (s_currentVAO sD)] sD
                 else sD"
      let ?bt = "bind_textures W [0 ..< s_maxTextureUnit ?sE] ?sE"
      from res D True False have "\<exists>sF. ?bt = Inr sF"
        by (cases ?bt) (auto simp: EnsureStateUpdate_body_def ctx sh tg Let_def split: if_splits)
      then obtain sF where F: "?bt = Inr sF" by blast
      from res D True False F have s': "s' = issue [OpenGL_ApplyStates (s_states sF)] sF"
        by (auto simp: EnsureStateUpdate_body_def ctx sh tg Let_def split: if_splits)
      have qE: "quiet_step sD ?sE"
        by (simp add: quiet_step_issue quiet_def quiet_step_refl)
      have qF: "quiet_step ?sE sF" using bind_textures_Inr [OF F] .
      have qG: "quiet_step sF s'" unfolding s' by (simp add: quiet_step_issue quiet_def)
      have q: "quiet_step sD s'" using qE qF qG by (blast intro: quiet_step_trans)
      from reconcile_step_quiet [OF q] quiet_step_fields(6) [OF q] show ?thesis by simp
    qed
  qed
  have "reconcile_step s ?sC []"
    using A(1) B C(1) by (blast intro: reconcile_step_trans0)
  from reconcile_step_trans1 [OF reconcile_step_trans0 [OF this Dl]] tail
  show "reconcile_step s s' ?L" by blast
  show "location (s_matrices s' i) = GetUniformLocation (shaders W sh) (MatrixType_uniform i)"
    if "s_updateFlags s AND Update_Shader \<noteq> 0"
    using Bloc [OF that] Dstep(2) [of i] tail by (simp only: C(2))
qed

lemma flag_facts2:
  "(((x :: 32 word) OR Update_Matrices) AND NOT Update_Shader) AND Update_Textures
     = x AND Update_Textures"
  "(((x :: 32 word) OR Update_Matrices) AND NOT Update_Shader) AND Update_VAO = x AND Update_VAO"
  "((x :: 32 word) AND NOT Update_Matrices) AND Update_VAO = x AND Update_VAO"
  "(x :: 32 word) AND Update_VAO \<noteq> 0 \<Longrightarrow> x \<noteq> Update_None"
proof -
  have o: "(x OR y) AND z = x AND z" if "y AND z = 0" for y z :: "32 word"
    using that by (simp add: bit.conj_disj_distrib2)
  have n: "(x AND NOT y) AND z = x AND z" if "NOT y AND z = z" for x y z :: "32 word"
    using that by (simp add: and.assoc)
  have 1: "Update_Matrices AND Update_Textures = (0 :: 32 word)"
    "Update_Matrices AND Update_VAO = (0 :: 32 word)"
    "NOT Update_Shader AND Update_Textures = (Update_Textures :: 32 word)"
    "NOT Update_Shader AND Update_VAO = (Update_VAO :: 32 word)"
    "NOT Update_Matrices AND Update_VAO = (Update_VAO :: 32 word)"
    by (simp_all add: Update_Matrices_def Update_Textures_def Update_VAO_def Update_Shader_def)
  show "((x OR Update_Matrices) AND NOT Update_Shader) AND Update_Textures = x AND Update_Textures"
    by (simp only: n [OF 1(3)] o [OF 1(1)])
  show "((x OR Update_Matrices) AND NOT Update_Shader) AND Update_VAO = x AND Update_VAO"
    by (simp only: n [OF 1(4)] o [OF 1(2)])
  show "(x AND NOT Update_Matrices) AND Update_VAO = x AND Update_VAO"
    by (simp only: n [OF 1(5)])
  show "x AND Update_VAO \<noteq> 0 \<Longrightarrow> x \<noteq> Update_None"
    by (auto simp: Update_None_def)
qed

text \<open>The steps before the block under \<open>Update_VAO\<close> leave the cache and the texture units alone.\<close>

lemma early_steps_keep:
  "s_vaos (resolve_locations W sh s) = s_vaos s"
  "s_textureUnits (resolve_locations W sh s) = s_textureUnits s"
  "s_vaos (send_target_size W sh tg s) = s_vaos s"
  "s_textureUnits (send_target_size W sh tg s) = s_textureUnits s"
  "s_vaos (update_matrices M sh s) = s_vaos s"
  "s_textureUnits (update_matrices M sh s) = s_textureUnits s"
proof -
  show "s_vaos (resolve_locations W sh s) = s_vaos s"
    "s_textureUnits (resolve_locations W sh s) = s_textureUnits s"
    using arg_cong [OF resolve_locations_eq [of W sh s], of s_vaos]
      arg_cong [OF resolve_locations_eq [of W sh s], of s_textureUnits]
    by simp_all
  from send_target_size_eq [of W sh tg s] obtain cs where
    "send_target_size W sh tg s =
       s\<lparr>s_targetSize := (GetWidth (targets W tg), GetHeight (targets W tg)),
         commands := commands s @ cs\<rparr>"
    by blast
  then show "s_vaos (send_target_size W sh tg s) = s_vaos s"
    "s_textureUnits (send_target_size W sh tg s) = s_textureUnits s"
    by simp_all
  let ?s1 = "send_matrices M sh all_MatrixTypes s"
  from send_matrices_phase [of s M sh all_MatrixTypes] obtain mats cs r where
    "?s1 = s\<lparr>s_matrices := mats, commands := commands s @ cs, reports := r\<rparr>"
    unfolding matrix_phase_def by blast
  from arg_cong [OF this, of s_vaos] arg_cong [OF this, of s_textureUnits]
  show "s_vaos (update_matrices M sh s) = s_vaos s"
    "s_textureUnits (update_matrices M sh s) = s_textureUnits s"
    by (simp_all add: update_matrices_def Let_def)
qed

lemma reconcile_frame_of_step: "reconcile_step s s' L \<Longrightarrow> reconcile_frame s s'"
  by (simp add: reconcile_step_def)

lemma cached_VAO_empty: "s_vaos s = [] \<Longrightarrow> cached_VAO s c k = None"
  by (simp add: cached_VAO_def context_vaoMap_def)

text \<open>
  The block under the update flags goes through when no texture unit is dirty, a
  vertex buffer is bound whose attributes can all be declared, and nothing is cached.
\<close>

lemma update_flagged_success:
  assumes tex: "s_updateFlags s AND Update_Textures = 0"
    and vb: "s_vertexBuffer s = Some vb"
    and dp: "declarations_present W vb s"
    and af: "\<not> attributes_fail W vb s"
    and empty: "s_vaos s = []"
  shows "\<exists>s'. update_flagged W M c sh s = Inr (True, s')
              \<and> (s_updateFlags s AND Update_VAO \<noteq> 0 \<and> s_useVertexArrayObjects s
                    \<longrightarrow> s_currentVAO s' \<noteq> 0)"
proof (cases "s_updateFlags s \<noteq> Update_None")
  case False
  then have "s_updateFlags s AND Update_VAO = 0" by (simp add: Update_None_def)
  with False show ?thesis by (simp add: update_flagged_def)
next
  case True
  let ?sM = "if s_updateFlags s AND Update_Matrices \<noteq> 0 then update_matrices M sh s else s"
  have fr: "reconcile_frame s ?sM"
    using reconcile_frame_of_step [OF update_matrices_step(1) [of s M sh]]
      reconcile_frame_of_step [OF reconcile_step_refl [of s]]
    by simp
  have vM: "s_vertexBuffer ?sM = Some vb" using fr vb by (simp add: reconcile_frame_def)
  have dpM: "declarations_present W vb ?sM"
    using fr dp declarations_present_cong [of ?sM s W vb] by (simp add: reconcile_frame_def)
  have afM: "\<not> attributes_fail W vb ?sM"
    using fr af attributes_fail_cong [of ?sM s W vb] by (simp add: reconcile_frame_def)
  have uM: "s_useVertexArrayObjects ?sM = s_useVertexArrayObjects s"
    using fr by (simp add: reconcile_frame_def)
  have eM: "s_vaos ?sM = []" using empty by (simp add: early_steps_keep)
  have flM: "s_updateFlags ?sM AND Update_VAO = s_updateFlags s AND Update_VAO"
    by (simp add: update_matrices_step(3) flag_facts2(3))
  let ?vao = "if s_updateFlags ?sM AND Update_VAO \<noteq> 0 then update_VAO W c ?sM
              else Inr (True, ?sM)"
  have "\<exists>sV. ?vao = Inr (True, sV)
          \<and> (s_updateFlags s AND Update_VAO \<noteq> 0 \<and> s_useVertexArrayObjects s
               \<longrightarrow> s_currentVAO sV \<noteq> 0)"
  proof (cases "s_updateFlags s AND Update_VAO \<noteq> 0")
    case False
    with flM show ?thesis by simp
  next
    case bit: True
    show ?thesis
    proof (cases "s_useVertexArrayObjects s")
      case False
      with uM have "\<not> s_useVertexArrayObjects ?sM" by simp
      from update_VAO_fallback [OF vM this dpM, of c] bit flM False show ?thesis by auto
    next
      case True
      with uM have u: "s_useVertexArrayObjects ?sM" by simp
      have miss: "cached_VAO ?sM c (VAO_key W vb ?sM) = None"
        by (rule cached_VAO_empty [OF eM])
      from update_VAO_miss [OF vM u miss dpM] afM obtain sV V
        and e :: VAO_Entry where
        r: "update_VAO W c ?sM = Inr (True, sV)"
        and q: "quiet_step (?sM\<lparr>s_vaos := V, gl_genCount := Suc (gl_genCount ?sM),
                                s_currentVAO := vao e,
                                s_updateFlags := s_updateFlags ?sM AND NOT Update_VAO\<rparr>) sV"
        and h: "vao e = Suc (gl_genCount ?sM)"
        by auto
      from quiet_step_fields(4) [OF q] h have "s_currentVAO sV \<noteq> 0" by simp
      with r bit flM show ?thesis by auto
    qed
  qed
  then obtain sV where V: "?vao = Inr (True, sV)"
    and cur: "s_updateFlags s AND Update_VAO \<noteq> 0 \<and> s_useVertexArrayObjects s
               \<longrightarrow> s_currentVAO sV \<noteq> 0"
    by blast
  let ?s' = "if s_updateFlags sV \<noteq> Update_None \<and> \<not> s_useVertexArrayObjects sV
                \<and> s_updateFlags sV \<noteq> Update_VAO
             then NazaraWarning ''Update flags not fully cleared'' sV else sV"
  have "update_flagged W M c sh s = Inr (True, ?s')"
    using True tex V by (simp add: update_flagged_def Let_def)
  moreover have "s_currentVAO ?s' = s_currentVAO sV" by (simp add: NazaraWarning_def)
  ultimately show ?thesis using cur by auto
qed

lemma EnsureStateUpdate_body_success:
  assumes ctx: "Context_GetCurrent W = Some c"
    and sh: "s_shader s = Some sh"
    and tg: "s_target s = Some tg"
    and tex: "s_updateFlags s AND Update_Textures = 0"
    and bit: "s_updateFlags s AND Update_VAO \<noteq> 0"
    and vb: "s_vertexBuffer s = Some vb"
    and dp: "declarations_present W vb s"
    and af: "\<not> attributes_fail W vb s"
    and empty: "s_vaos s = []"
    and units: "s_maxTextureUnit s \<le> length (s_textureUnits s)"
  shows "\<exists>s'. EnsureStateUpdate_body W M s = Inr (True, s')"
proof -
  let ?sA = "issue [Shader_Bind sh] (issue [Target_EnsureTargetUpdated tg] s)"
  let ?sB = "if s_updateFlags ?sA AND Update_Shader \<noteq> 0 then resolve_locations W sh ?sA else ?sA"
  let ?sC = "send_target_size W sh tg ?sB"
  have fA: "s_updateFlags ?sA = s_updateFlags s" by (simp add: issue_def)
  have fB: "s_updateFlags ?sB AND Update_Textures = 0" "s_updateFlags ?sB AND Update_VAO \<noteq> 0"
    using tex bit arg_cong [OF resolve_locations_eq [of W sh ?sA], of s_updateFlags]
    by (simp_all add: fA flag_facts2)
  have fC: "s_updateFlags ?sC AND Update_Textures = 0" "s_updateFlags ?sC AND Update_VAO \<noteq> 0"
    using fB by (simp_all add: send_target_size_step(3))
  have "quiet_step s (issue [Target_EnsureTargetUpdated tg] s)"
    by (simp add: quiet_step_issue quiet_def)
  moreover have "quiet_step (issue [Target_EnsureTargetUpdated tg] s) ?sA"
    by (simp add: quiet_step_issue quiet_def)
  ultimately have "quiet_step s ?sA" by (rule quiet_step_trans)
  then have rA: "reconcile_step s ?sA []" by (rule reconcile_step_quiet)
  have rB: "reconcile_step ?sA ?sB []"
    using resolve_locations_step(1) [of ?sA W sh] by (simp add: reconcile_step_refl)
  have rC: "reconcile_step ?sB ?sC []" by (rule send_target_size_step)
  have "reconcile_step s ?sC []" using rA rB rC by (blast intro: reconcile_step_trans0)
  then have fr: "reconcile_frame s ?sC" by (rule reconcile_frame_of_step)
  have vC: "s_vertexBuffer ?sC = Some vb" using fr vb by (simp add: reconcile_frame_def)
  have dpC: "declarations_present W vb ?sC"
    using fr dp declarations_present_cong [of ?sC s W vb] by (simp add: reconcile_frame_def)
  have afC: "\<not> attributes_fail W vb ?sC"
    using fr af attributes_fail_cong [of ?sC s W vb] by (simp add: reconcile_frame_def)
  have eC: "s_vaos ?sC = []"
    using empty by (simp add: early_steps_keep issue_def)
  from update_flagged_success [OF fC(1) vC dpC afC eC, of M c sh] fC(2) obtain sD where
    D: "update_flagged W M c sh ?sC = Inr (True, sD)"
    and cur: "s_useVertexArrayObjects ?sC \<longrightarrow> s_currentVAO sD \<noteq> 0"
    by auto
  have frD: "reconcile_frame ?sC sD"
    using reconcile_frame_of_step [OF update_flagged_step(1) [OF D]] .
  have uD: "s_useVertexArrayObjects sD = s_useVertexArrayObjects ?sC"
    using frD by (simp add: reconcile_frame_def)
  have ok: "\<not> (s_useVertexArrayObjects sD \<and> s_currentVAO sD = 0)"
    using cur uD by auto
  let ?sE = "if s_useVertexArrayObjects sD then issue [glBindVertexArray (s_currentVAO sD)] sD
             else sD"
  have "s_maxTextureUnit ?sE = s_maxTextureUnit s"
    "length (s_textureUnits ?sE) = length (s_textureUnits s)"
    using fr frD by (simp_all add: reconcile_frame_def issue_def)
  with units have "\<forall>j \<in> set [0 ..< s_maxTextureUnit ?sE]. j < length (s_textureUnits ?sE)"
    by simp
  from bind_textures_total [OF this, of W] obtain sF where
    F: "bind_textures W [0 ..< s_maxTextureUnit ?sE] ?sE = Inr sF" by blast
  have "EnsureStateUpdate_body W M s = Inr (True, issue [OpenGL_ApplyStates (s_states sF)] sF)"
    using D ok F by (auto simp: EnsureStateUpdate_body_def ctx sh tg Let_def)
  then show ?thesis by blast
qed

lemma EnsureStateUpdate_Inr:
  assumes ctx: "Context_GetCurrent W = Some c"
    and sh: "s_shader s = Some sh"
    and tg: "s_target s = Some tg"
    and res: "EnsureStateUpdate W M s = Inr (ok, s')"
  shows "extends_log s s'
           (if s_updateFlags s AND Update_Shader \<noteq> 0 then program_locations W sh
            else if s_updateFlags s AND Update_Matrices \<noteq> 0 then slot_locations s else [])"
    and "reports s' = reports s"
    and "ErrorFlag_Silent s' = ErrorFlag_Silent s"
    and "s_useVertexArrayObjects s' = s_useVertexArrayObjects s"
    and "s_updateFlags s AND Update_Shader \<noteq> 0 \<Longrightarrow>
         location (s_matrices s' i) = GetUniformLocation (shaders W sh) (MatrixType_uniform i)"
proof -
  let ?s0 = "s\<lparr>ErrorFlag_Silent := True\<rparr>"
  from res have "\<exists>p. EnsureStateUpdate_body W M ?s0 = Inr p"
    by (cases "EnsureStateUpdate_body W M ?s0") (simp_all add: EnsureStateUpdate_def)
  then obtain ok1 s1 where b: "EnsureStateUpdate_body W M ?s0 = Inr (ok1, s1)"
    by (metis prod.collapse)
  with res have s': "s' = s1\<lparr>ErrorFlag_Silent := ErrorFlag_Silent s\<rparr>"
    by (simp add: EnsureStateUpdate_def)
  have sh0: "s_shader ?s0 = Some sh" and tg0: "s_target ?s0 = Some tg"
    using sh tg by simp_all
  note st = EnsureStateUpdate_body_step [OF ctx sh0 tg0 b]
  have sl: "slot_locations ?s0 = slot_locations s" by (simp add: slot_locations_def)
  from st(1) have rs: "reconcile_step ?s0 s1
           (if s_updateFlags s AND Update_Shader \<noteq> 0 then program_locations W sh
            else if s_updateFlags s AND Update_Matrices \<noteq> 0 then slot_locations s else [])"
    by (simp add: sl cong: if_cong)
  then show "extends_log s s'
           (if s_updateFlags s AND Update_Shader \<noteq> 0 then program_locations W sh
            else if s_updateFlags s AND Update_Matrices \<noteq> 0 then slot_locations s else [])"
    by (simp add: reconcile_step_def extends_log_def s')
  from rs show "reports s' = reports s"
    by (simp add: reconcile_step_def reconcile_frame_def s')
  show "ErrorFlag_Silent s' = ErrorFlag_Silent s" by (simp add: s')
  from rs show "s_useVertexArrayObjects s' = s_useVertexArrayObjects s"
    by (simp add: reconcile_step_def reconcile_frame_def s')
  show "location (s_matrices s' i) = GetUniformLocation (shaders W sh) (MatrixType_uniform i)"
    if "s_updateFlags s AND Update_Shader \<noteq> 0"
    using st(2) [of i] that by (simp add: s')
qed

lemma new_commands_extends:
  assumes "extends_log s s' L"
  shows "sent_locations (new_commands s s') = L"
    and "list_all (\<lambda>c. \<not> is_draw c) (new_commands s s')"
    and "commands s' = commands s @ new_commands s s'"
proof -
  from assms obtain cs where "commands s' = commands s @ cs"
    "list_all (\<lambda>c. \<not> is_draw c) cs" "sent_locations cs = L"
    unfolding extends_log_def by blast
  then show "sent_locations (new_commands s s') = L"
    and "list_all (\<lambda>c. \<not> is_draw c) (new_commands s s')"
    and "commands s' = commands s @ new_commands s s'"
    by (simp_all add: new_commands_def)
qed



subsection \<open>The draw after a setup\<close>

lemma Initialize_success:
  assumes "Initialize E M s0 = (True, s1)" and "s_moduleReferenceCounter s0 = 0"
  shows "s_shader s1 = None" and "s_target s1 = None" and "s_vertexBuffer s1 = None"
    and "s_updateFlags s1 = Update_Matrices OR Update_Shader OR Update_VAO"
    and "s_vaos s1 = s_vaos s0"
    and "ErrorFlag_Silent s1 = ErrorFlag_Silent s0"
    and "length (s_textureUnits s1) = s_maxTextureUnit s1"
proof -
  let ?s = "Initialize_instanceBuffer E
              (Initialize_variables E M
                 (s0\<lparr>s_moduleReferenceCounter := s_moduleReferenceCounter s0 + 1\<rparr>))"
  from assms have s1: "s1 = ?s"
    by (auto simp: Initialize_def Let_def split: if_splits option.splits)
  show "s_shader s1 = None" and "s_target s1 = None" and "s_vertexBuffer s1 = None"
    and "s_updateFlags s1 = Update_Matrices OR Update_Shader OR Update_VAO"
    and "s_vaos s1 = s_vaos s0"
    and "ErrorFlag_Silent s1 = ErrorFlag_Silent s0"
    and "length (s_textureUnits s1) = s_maxTextureUnit s1"
    unfolding s1
    by (auto simp: Initialize_instanceBuffer_def Initialize_variables_def Let_def
          NazaraError_def resize_textureUnits_def min_def split: option.splits)
qed

lemma SetTarget_first:
  assumes "s_target s = None" and "IsRenderable (targets W t)" and "Activate (targets W t)"
  shows "fst (SetTarget W (Some t) s)"
    and "s_target (snd (SetTarget W (Some t) s)) = Some t"
    and "s_shader (snd (SetTarget W (Some t) s)) = s_shader s"
    and "s_vertexBuffer (snd (SetTarget W (Some t) s)) = s_vertexBuffer s"
    and "s_updateFlags (snd (SetTarget W (Some t) s)) = s_updateFlags s"
    and "s_vaos (snd (SetTarget W (Some t) s)) = s_vaos s"
    and "ErrorFlag_Silent (snd (SetTarget W (Some t) s)) = ErrorFlag_Silent s"
    and "s_textureUnits (snd (SetTarget W (Some t) s)) = s_textureUnits s"
    and "s_maxTextureUnit (snd (SetTarget W (Some t) s)) = s_maxTextureUnit s"
  using assms by (simp_all add: SetTarget_def issue_def Let_def)

lemma SetVertexBuffer_first:
  assumes "s_vertexBuffer s = None" and "vb_IsHardware (vertexBuffers W vb)"
  shows "SetVertexBuffer W (Some vb) s =
           s\<lparr>s_vertexBuffer := Some vb, s_updateFlags := s_updateFlags s OR Update_VAO\<rparr>"
  using assms by (simp add: SetVertexBuffer_def)

lemma SetShader_first:
  assumes "s_shader s = None" and "IsValid (shaders W sh)" and "IsLinked (shaders W sh)"
  shows "SetShader W (Some sh) s =
           s\<lparr>s_shader := Some sh, s_updateFlags := s_updateFlags s OR Update_Shader\<rparr>"
  using assms by (simp add: SetShader_def)

lemma initial_flags:
  "((Update_Matrices OR Update_Shader OR Update_VAO) OR Update_VAO) AND Update_Textures
     = (0 :: 32 word)"
  "((Update_Matrices OR Update_Shader OR Update_VAO) OR Update_VAO) AND Update_VAO
     \<noteq> (0 :: 32 word)"
  "(((Update_Matrices OR Update_Shader OR Update_VAO) OR Update_Shader) OR Update_VAO)
     AND Update_Textures = (0 :: 32 word)"
  "(((Update_Matrices OR Update_Shader OR Update_VAO) OR Update_Shader) OR Update_VAO)
     AND Update_VAO \<noteq> (0 :: 32 word)"
  by (simp_all add: Update_Matrices_def Update_Shader_def Update_VAO_def Update_Textures_def)

lemma EnableInstancing_off:
  "s_shader (EnableInstancing False s) = s_shader s"
  "s_target (EnableInstancing False s) = s_target s"
  "s_vertexBuffer (EnableInstancing False s) = s_vertexBuffer s"
  "s_vaos (EnableInstancing False s) = s_vaos s"
  "s_textureUnits (EnableInstancing False s) = s_textureUnits s"
  "s_maxTextureUnit (EnableInstancing False s) = s_maxTextureUnit s"
  "commands (EnableInstancing False s) = commands s"
  "reports (EnableInstancing False s) = reports s"
  "lastError (EnableInstancing False s) = lastError s"
  "ErrorFlag_Silent (EnableInstancing False s) = ErrorFlag_Silent s"
  "\<not> s_instancing (EnableInstancing False s)"
  by (simp_all add: EnableInstancing_def)

lemma EnableInstancing_flags:
  "s_updateFlags (EnableInstancing b s) AND Update_Textures = s_updateFlags s AND Update_Textures"
  "s_updateFlags s AND Update_VAO \<noteq> 0 \<Longrightarrow> s_updateFlags (EnableInstancing b s) AND Update_VAO \<noteq> 0"
proof -
  have 1: "Update_VAO AND Update_Textures = (0 :: 32 word)"
    by (simp add: Update_VAO_def Update_Textures_def)
  have "(s_updateFlags s OR Update_VAO) AND Update_Textures = s_updateFlags s AND Update_Textures"
    by (simp add: bit.conj_disj_distrib2 1)
  then show "s_updateFlags (EnableInstancing b s) AND Update_Textures
               = s_updateFlags s AND Update_Textures"
    by (simp add: EnableInstancing_def)
  have "(s_updateFlags s OR Update_VAO) AND Update_VAO = Update_VAO"
    by (simp add: word_bw_comms word_ao_absorbs)
  then have "(s_updateFlags s OR Update_VAO) AND Update_VAO \<noteq> 0"
    by (simp add: Update_VAO_def)
  then show "s_updateFlags s AND Update_VAO \<noteq> 0 \<Longrightarrow>
             s_updateFlags (EnableInstancing b s) AND Update_VAO \<noteq> 0"
    by (simp add: EnableInstancing_def)
qed

lemma no_draw_filter: "list_all (\<lambda>c. \<not> is_draw c) cs \<Longrightarrow> filter is_draw cs = []"
  by (induction cs) simp_all

text \<open>
  A draw in a state with a shader, a target and a vertex buffer whose attributes can all
  be declared, an empty cache and no dirty texture unit: it returns, reports nothing and
  issues one draw command.
\<close>

lemma DrawPrimitives_ready:
  assumes ctx: "Context_GetCurrent W = Some c"
    and sh: "s_shader s = Some sh"
    and tg: "s_target s = Some tg"
    and tex: "s_updateFlags s AND Update_Textures = 0"
    and bit: "s_updateFlags s AND Update_VAO \<noteq> 0"
    and vb: "s_vertexBuffer s = Some vb"
    and decl: "vb_GetVertexDeclaration (vertexBuffers W vb) = Some d"
    and sup: "\<not> list_ex (unsupported_component W (vertexDeclarations W d)) (vertex_components W)"
    and empty: "s_vaos s = []"
    and units: "s_maxTextureUnit s \<le> length (s_textureUnits s)"
  shows "\<exists>s'. DrawPrimitives W M mode firstVertex vertexCount s = Inr s'
              \<and> reports s' = reports s
              \<and> filter is_draw (new_commands s s') = [glDrawArrays mode firstVertex vertexCount]"
proof -
  let ?sE = "EnableInstancing False s"
  let ?s0 = "?sE\<lparr>ErrorFlag_Silent := True\<rparr>"
  have sh0: "s_shader ?s0 = Some sh" and tg0: "s_target ?s0 = Some tg"
    and vb0: "s_vertexBuffer ?s0 = Some vb" and e0: "s_vaos ?s0 = []"
    and u0: "s_maxTextureUnit ?s0 \<le> length (s_textureUnits ?s0)"
    using sh tg vb empty units by (simp_all add: EnableInstancing_off)
  have tex0: "s_updateFlags ?s0 AND Update_Textures = 0"
    and bit0: "s_updateFlags ?s0 AND Update_VAO \<noteq> 0"
    using tex bit EnableInstancing_flags [where b = False and s = s] by simp_all
  have dp: "declarations_present W vb ?s0"
    by (simp add: declarations_present_def decl EnableInstancing_off)
  have af: "\<not> attributes_fail W vb ?s0"
    using sup by (simp add: attributes_fail_def decl EnableInstancing_off)
  from EnsureStateUpdate_body_success [OF ctx sh0 tg0 tex0 bit0 vb0 dp af e0 u0, of M]
  obtain sB where B: "EnsureStateUpdate_body W M ?s0 = Inr (True, sB)" by blast
  let ?sU = "sB\<lparr>ErrorFlag_Silent := ErrorFlag_Silent ?sE\<rparr>"
  have U: "EnsureStateUpdate W M ?sE = Inr (True, ?sU)"
    by (simp add: EnsureStateUpdate_def B)
  have shE: "s_shader ?sE = Some sh" and tgE: "s_target ?sE = Some tg"
    using sh tg by (simp_all add: EnableInstancing_off)
  note e = EnsureStateUpdate_Inr [OF ctx shE tgE U]
  from e(1) obtain cs where cs: "commands ?sU = commands ?sE @ cs"
    "list_all (\<lambda>c. \<not> is_draw c) cs"
    unfolding extends_log_def by blast
  let ?sD = "issue [glDrawArrays mode firstVertex vertexCount] ?sU"
  let ?s' = "if s_useVertexArrayObjects ?sD then issue [glBindVertexArray 0] ?sD else ?sD"
  have D: "DrawPrimitives W M mode firstVertex vertexCount s = Inr ?s'"
    by (simp add: DrawPrimitives_def ctx U Let_def)
  have r: "reports ?s' = reports s"
    using e(2) by (simp add: issue_def EnableInstancing_off)
  have "commands ?s' = commands s @ cs @ [glDrawArrays mode firstVertex vertexCount]
                         @ (if s_useVertexArrayObjects ?sD then [glBindVertexArray 0] else [])"
    using cs(1) by (simp add: issue_def EnableInstancing_off)
  then have "filter is_draw (new_commands s ?s') = [glDrawArrays mode firstVertex vertexCount]"
    by (simp add: new_commands_def no_draw_filter [OF cs(2)])
  with D r show ?thesis by blast
qed

text \<open>The same draw with no shader: one report, no command.\<close>

lemma DrawPrimitives_no_shader:
  assumes ctx: "Context_GetCurrent W = Some c"
    and sh: "s_shader s = None"
    and loud: "\<not> ErrorFlag_Silent s"
  shows "\<exists>s'. DrawPrimitives W M mode firstVertex vertexCount s = Inr s'
              \<and> reports s' = reports s @ [ReportError ''Failed to update states: No shader'']
              \<and> commands s' = commands s"
proof -
  let ?sE = "EnableInstancing False s"
  have "EnsureStateUpdate W M ?sE = Inr (False, ?sE\<lparr>lastError := ''No shader''\<rparr>)"
    by (simp add: EnsureStateUpdate_def EnsureStateUpdate_body_def ctx sh NazaraError_def
          EnableInstancing_off)
  then have "DrawPrimitives W M mode firstVertex vertexCount s =
               Inr (NazaraError (''Failed to update states: '' @ ''No shader'')
                      (?sE\<lparr>lastError := ''No shader''\<rparr>))"
    by (simp add: DrawPrimitives_def ctx Let_def)
  then show ?thesis
    using loud by (simp add: NazaraError_def EnableInstancing_off)
qed

text \<open>
  C7. \<^verbatim>\<open>Initialize\<close> succeeds as the first initialization, with an empty cache of
  vertex arrays and the error channel not silenced. With a current context, a target
  \<open>T\<close> that is renderable and activates, a valid and linked shader \<open>S\<close>, and a
  hardware vertex buffer \<open>V\<close> whose declaration has no enabled vertex component of an
  unsupported type: \<^verbatim>\<open>SetTarget\<close> returns true, and after \<^verbatim>\<open>SetShader\<close> and
  \<^verbatim>\<open>SetVertexBuffer\<close> the draw of a strip of 4 vertices returns, reports nothing, and
  the commands it issues hold one draw, \<^verbatim>\<open>glDrawArrays\<close> of the strip. Without
  \<^verbatim>\<open>SetShader\<close> the same draw reports "Failed to update states: No shader" and
  issues no command.
\<close>

theorem DrawPrimitives_after_setup:
  assumes init: "Initialize E M s0 = (True, s1)"
    and first: "s_moduleReferenceCounter s0 = 0"
    and empty: "s_vaos s0 = []"
    and loud: "\<not> ErrorFlag_Silent s0"
    and ctx: "Context_GetCurrent W = Some c"
    and T: "IsRenderable (targets W T)" "Activate (targets W T)"
    and S: "IsValid (shaders W S)" "IsLinked (shaders W S)"
    and V: "vb_IsHardware (vertexBuffers W V)"
    and decl: "vb_GetVertexDeclaration (vertexBuffers W V) = Some d"
    and sup: "\<not> list_ex (unsupported_component W (vertexDeclarations W d)) (vertex_components W)"
  shows "fst (SetTarget W (Some T) s1)
    \<and> (\<exists>s'. DrawPrimitives W M PrimitiveMode_TriangleStrip 0 4
               (SetVertexBuffer W (Some V) (SetShader W (Some S) (snd (SetTarget W (Some T) s1))))
               = Inr s'
            \<and> reports s' =
                reports (SetVertexBuffer W (Some V)
                           (SetShader W (Some S) (snd (SetTarget W (Some T) s1))))
            \<and> filter is_draw
                (new_commands
                   (SetVertexBuffer W (Some V)
                      (SetShader W (Some S) (snd (SetTarget W (Some T) s1)))) s')
                = [glDrawArrays PrimitiveMode_TriangleStrip 0 4])
    \<and> (\<exists>s'. DrawPrimitives W M PrimitiveMode_TriangleStrip 0 4
               (SetVertexBuffer W (Some V) (snd (SetTarget W (Some T) s1))) = Inr s'
            \<and> reports s' =
                reports (SetVertexBuffer W (Some V) (snd (SetTarget W (Some T) s1)))
                  @ [ReportError ''Failed to update states: No shader'']
            \<and> commands s' =
                commands (SetVertexBuffer W (Some V) (snd (SetTarget W (Some T) s1))))"
proof -
  note i = Initialize_success [OF init first]
  let ?sT = "snd (SetTarget W (Some T) s1)"
  note t = SetTarget_first [OF i(2) T]
  let ?sS = "SetShader W (Some S) ?sT"
  have shT: "s_shader ?sT = None" using t(3) i(1) by simp
  have vbT: "s_vertexBuffer ?sT = None" using t(4) i(3) by simp
  note sS = SetShader_first [OF shT S]
  have vbS: "s_vertexBuffer ?sS = None" using vbT by (simp add: sS)
  let ?sW = "SetVertexBuffer W (Some V) ?sS"
  note sW = SetVertexBuffer_first [OF vbS V]
  let ?sN = "SetVertexBuffer W (Some V) ?sT"
  note sN = SetVertexBuffer_first [OF vbT V]
  have fl: "s_updateFlags ?sT = Update_Matrices OR Update_Shader OR Update_VAO"
    using t(5) i(4) by simp
  have f: "s_updateFlags ?sW =
             ((Update_Matrices OR Update_Shader OR Update_VAO) OR Update_Shader) OR Update_VAO"
    by (simp only: sW) (simp add: sS fl)
  have w: "s_shader ?sW = Some S" "s_target ?sW = Some T"
    "s_vertexBuffer ?sW = Some V" "s_vaos ?sW = []"
    "s_maxTextureUnit ?sW \<le> length (s_textureUnits ?sW)"
    using t i empty by (simp_all only: sW) (simp_all add: sS)
  have wf: "s_updateFlags ?sW AND Update_Textures = 0" "s_updateFlags ?sW AND Update_VAO \<noteq> 0"
    unfolding f by (rule initial_flags(3), rule initial_flags(4))
  have n: "s_shader ?sN = None" "\<not> ErrorFlag_Silent ?sN"
    using t i loud by (simp_all add: sN)
  from DrawPrimitives_ready [OF ctx w(1,2) wf w(3) decl sup w(4,5)]
    DrawPrimitives_no_shader [OF ctx n] t(1)
  show ?thesis by blast
qed

subsection \<open>A build that fails\<close>

lemma early_steps_genCount:
  "gl_genCount (resolve_locations W sh s) = gl_genCount s"
  "gl_genCount (send_target_size W sh tg s) = gl_genCount s"
  "gl_genCount (update_matrices M sh s) = gl_genCount s"
proof -
  show "gl_genCount (resolve_locations W sh s) = gl_genCount s"
    using arg_cong [OF resolve_locations_eq [of W sh s], of gl_genCount] by simp
  from send_target_size_eq [of W sh tg s] obtain cs where
    "send_target_size W sh tg s =
       s\<lparr>s_targetSize := (GetWidth (targets W tg), GetHeight (targets W tg)),
         commands := commands s @ cs\<rparr>"
    by blast
  then show "gl_genCount (send_target_size W sh tg s) = gl_genCount s" by simp
  let ?s1 = "send_matrices M sh all_MatrixTypes s"
  from send_matrices_phase [of s M sh all_MatrixTypes] obtain mats cs r where
    "?s1 = s\<lparr>s_matrices := mats, commands := commands s @ cs, reports := r\<rparr>"
    unfolding matrix_phase_def by blast
  from arg_cong [OF this, of gl_genCount]
  show "gl_genCount (update_matrices M sh s) = gl_genCount s"
    by (simp add: update_matrices_def Let_def)
qed

lemma VAO_key_frame: "reconcile_frame s s' \<Longrightarrow> VAO_key W vb s' = VAO_key W vb s"
  by (simp add: reconcile_frame_def VAO_key_def)

lemma new_commands_later:
  assumes "extends_log s t L" and "extends_log t s' L'"
  shows "set (new_commands t s') \<subseteq> set (new_commands s s')"
  using assms by (auto simp: extends_log_def new_commands_def)

lemma extends_log_of_step: "reconcile_step s s' L \<Longrightarrow> extends_log s s' L"
  by (simp add: reconcile_step_def)

lemma update_flagged_failed_build:
  assumes tex: "s_updateFlags s AND Update_Textures = 0"
    and bit: "s_updateFlags s AND Update_VAO \<noteq> 0"
    and vb: "s_vertexBuffer s = Some vb"
    and vao: "s_useVertexArrayObjects s"
    and miss: "cached_VAO s c (VAO_key W vb s) = None"
    and dp: "declarations_present W vb s"
    and af: "attributes_fail W vb s"
  shows "\<exists>s' e. update_flagged W M c sh s = Inr (True, s')
           \<and> s_currentVAO s' = 0
           \<and> cached_VAO s' c (VAO_key W vb s) = Some e \<and> vao e = 0
           \<and> glDeleteVertexArrays (Suc (gl_genCount s)) \<in> set (new_commands s s')"
proof -
  let ?key = "VAO_key W vb s"
  let ?L = "if s_updateFlags s AND Update_Matrices \<noteq> 0 then slot_locations s else []"
  let ?sM = "if s_updateFlags s AND Update_Matrices \<noteq> 0 then update_matrices M sh s else s"
  have ne: "s_updateFlags s \<noteq> Update_None" using bit by (rule flag_facts2(4))
  have stM: "reconcile_step s ?sM ?L"
    using update_matrices_step(1) [of s M sh] reconcile_step_refl [of s] by simp
  then have fr: "reconcile_frame s ?sM" by (rule reconcile_frame_of_step)
  have vM: "s_vertexBuffer ?sM = Some vb" using fr vb by (simp add: reconcile_frame_def)
  have dpM: "declarations_present W vb ?sM"
    using fr dp declarations_present_cong [of ?sM s W vb] by (simp add: reconcile_frame_def)
  have afM: "attributes_fail W vb ?sM"
    using fr af attributes_fail_cong [of ?sM s W vb] by (simp add: reconcile_frame_def)
  have uM: "s_useVertexArrayObjects ?sM" using fr vao by (simp add: reconcile_frame_def)
  have kM: "VAO_key W vb ?sM = ?key" using fr by (rule VAO_key_frame)
  have cM: "s_vaos ?sM = s_vaos s" by (simp add: early_steps_keep)
  have gM: "gl_genCount ?sM = gl_genCount s" by (simp add: early_steps_genCount)
  have missM: "cached_VAO ?sM c (VAO_key W vb ?sM) = None"
    using miss by (simp only: kM cached_VAO_cong [OF cM])
  have flM: "s_updateFlags ?sM AND Update_VAO \<noteq> 0"
    using bit by (simp add: update_matrices_step(3) flag_facts2(3))
  from update_VAO_miss [OF vM uM missM dpM] afM obtain sV V and e :: VAO_Entry where
    r: "update_VAO W c ?sM = Inr (True, sV)"
    and q: "quiet_step (?sM\<lparr>s_vaos := V, gl_genCount := Suc (gl_genCount ?sM),
                            s_currentVAO := vao e,
                            s_updateFlags := s_updateFlags ?sM AND NOT Update_VAO\<rparr>) sV"
    and m: "context_vaoMap V c = context_vaoMap (s_vaos ?sM) c @ [(VAO_key W vb ?sM, e)]"
    and h: "vao e = 0"
    and del: "glDeleteVertexArrays (Suc (gl_genCount ?sM)) \<in> set (new_commands ?sM sV)"
    by auto
  have curV: "s_currentVAO sV = 0" using quiet_step_fields(4) [OF q] h by simp
  have vaosV: "s_vaos sV = V" using quiet_step_fields(1) [OF q] by simp
  have "map_of (context_vaoMap (s_vaos s) c) ?key = None"
    using miss by (simp add: cached_VAO_def)
  then have cachedV: "cached_VAO sV c ?key = Some e"
    using m by (simp add: cached_VAO_def vaosV kM cM map_add_def)
  have "set (new_commands ?sM sV) \<subseteq> set (new_commands s sV)"
    using new_commands_later [OF extends_log_of_step [OF stM]
        extends_log_of_step [OF update_VAO_frame(1) [OF r]]] .
  with del have delV: "glDeleteVertexArrays (Suc (gl_genCount s)) \<in> set (new_commands s sV)"
    by (auto simp only: gM)
  let ?s' = "if s_updateFlags sV \<noteq> Update_None \<and> \<not> s_useVertexArrayObjects sV
                \<and> s_updateFlags sV \<noteq> Update_VAO
             then NazaraWarning ''Update flags not fully cleared'' sV else sV"
  have res: "update_flagged W M c sh s = Inr (True, ?s')"
    using ne tex flM r by (simp add: update_flagged_def Let_def)
  have same: "s_currentVAO ?s' = s_currentVAO sV" "s_vaos ?s' = s_vaos sV"
    "commands ?s' = commands sV"
    by (simp_all add: NazaraWarning_def)
  have "cached_VAO ?s' c ?key = Some e"
    using cachedV by (simp only: cached_VAO_cong [OF same(2)])
  moreover have "glDeleteVertexArrays (Suc (gl_genCount s)) \<in> set (new_commands s ?s')"
    using delV by (simp only: new_commands_def same(3))
  moreover have "s_currentVAO ?s' = 0" using curV by (simp only: same(1))
  ultimately show ?thesis using res h by blast
qed

lemma EnsureStateUpdate_body_failed_build:
  assumes ctx: "Context_GetCurrent W = Some c"
    and sh: "s_shader s = Some sh"
    and tg: "s_target s = Some tg"
    and tex: "s_updateFlags s AND Update_Textures = 0"
    and bit: "s_updateFlags s AND Update_VAO \<noteq> 0"
    and vb: "s_vertexBuffer s = Some vb"
    and vao: "s_useVertexArrayObjects s"
    and miss: "cached_VAO s c (VAO_key W vb s) = None"
    and dp: "declarations_present W vb s"
    and af: "attributes_fail W vb s"
  shows "\<exists>s' e. EnsureStateUpdate_body W M s = Inr (False, s')
           \<and> lastError s' = ''Failed to create VAO''
           \<and> s_currentVAO s' = 0
           \<and> cached_VAO s' c (VAO_key W vb s) = Some e \<and> vao e = 0
           \<and> glDeleteVertexArrays (Suc (gl_genCount s)) \<in> set (new_commands s s')"
proof -
  let ?key = "VAO_key W vb s"
  let ?sA = "issue [Shader_Bind sh] (issue [Target_EnsureTargetUpdated tg] s)"
  let ?sB = "if s_updateFlags ?sA AND Update_Shader \<noteq> 0 then resolve_locations W sh ?sA else ?sA"
  let ?sC = "send_target_size W sh tg ?sB"
  have fA: "s_updateFlags ?sA = s_updateFlags s" by (simp add: issue_def)
  have fB: "s_updateFlags ?sB AND Update_Textures = 0" "s_updateFlags ?sB AND Update_VAO \<noteq> 0"
    using tex bit arg_cong [OF resolve_locations_eq [of W sh ?sA], of s_updateFlags]
    by (simp_all add: fA flag_facts2)
  have fC: "s_updateFlags ?sC AND Update_Textures = 0" "s_updateFlags ?sC AND Update_VAO \<noteq> 0"
    using fB by (simp_all add: send_target_size_step(3))
  have "quiet_step s (issue [Target_EnsureTargetUpdated tg] s)"
    by (simp add: quiet_step_issue quiet_def)
  moreover have "quiet_step (issue [Target_EnsureTargetUpdated tg] s) ?sA"
    by (simp add: quiet_step_issue quiet_def)
  ultimately have "quiet_step s ?sA" by (rule quiet_step_trans)
  then have rA: "reconcile_step s ?sA []" by (rule reconcile_step_quiet)
  have rB: "reconcile_step ?sA ?sB []"
    using resolve_locations_step(1) [of ?sA W sh] by (simp add: reconcile_step_refl)
  have rC: "reconcile_step ?sB ?sC []" by (rule send_target_size_step)
  have stC: "reconcile_step s ?sC []" using rA rB rC by (blast intro: reconcile_step_trans0)
  then have fr: "reconcile_frame s ?sC" by (rule reconcile_frame_of_step)
  have vC: "s_vertexBuffer ?sC = Some vb" using fr vb by (simp add: reconcile_frame_def)
  have uC: "s_useVertexArrayObjects ?sC" using fr vao by (simp add: reconcile_frame_def)
  have dpC: "declarations_present W vb ?sC"
    using fr dp declarations_present_cong [of ?sC s W vb] by (simp add: reconcile_frame_def)
  have afC: "attributes_fail W vb ?sC"
    using fr af attributes_fail_cong [of ?sC s W vb] by (simp add: reconcile_frame_def)
  have kC: "VAO_key W vb ?sC = ?key" using fr by (rule VAO_key_frame)
  have cC: "s_vaos ?sC = s_vaos s" by (simp add: early_steps_keep issue_def)
  have gC: "gl_genCount ?sC = gl_genCount s" by (simp add: early_steps_genCount issue_def)
  have missC: "cached_VAO ?sC c (VAO_key W vb ?sC) = None"
    using miss by (simp only: kC cached_VAO_cong [OF cC])
  from update_flagged_failed_build [OF fC vC uC missC dpC afC, of M sh]
  obtain sD and e :: VAO_Entry where
    D: "update_flagged W M c sh ?sC = Inr (True, sD)"
    and cur: "s_currentVAO sD = 0"
    and cached: "cached_VAO sD c (VAO_key W vb ?sC) = Some e" and h: "vao e = 0"
    and del: "glDeleteVertexArrays (Suc (gl_genCount ?sC)) \<in> set (new_commands ?sC sD)"
    by blast
  note stD = update_flagged_step(1) [OF D]
  have uD: "s_useVertexArrayObjects sD"
    using reconcile_frame_of_step [OF stD] uC by (simp add: reconcile_frame_def)
  let ?s' = "NazaraError ''Failed to create VAO'' sD"
  have res: "EnsureStateUpdate_body W M s = Inr (False, ?s')"
    using D uD cur by (simp add: EnsureStateUpdate_body_def ctx sh tg Let_def)
  have same: "s_currentVAO ?s' = s_currentVAO sD" "s_vaos ?s' = s_vaos sD"
    "commands ?s' = commands sD" "lastError ?s' = ''Failed to create VAO''"
    by (simp_all add: NazaraError_def)
  have "set (new_commands ?sC sD) \<subseteq> set (new_commands s sD)"
    using new_commands_later [OF extends_log_of_step [OF stC] extends_log_of_step [OF stD]] .
  with del have "glDeleteVertexArrays (Suc (gl_genCount s)) \<in> set (new_commands s sD)"
    by (auto simp only: gC)
  then have "glDeleteVertexArrays (Suc (gl_genCount s)) \<in> set (new_commands s ?s')"
    by (simp only: new_commands_def same(3))
  moreover have "cached_VAO ?s' c ?key = Some e"
    using cached by (simp only: kC cached_VAO_cong [OF same(2)])
  moreover have "s_currentVAO ?s' = 0" using cur by (simp only: same(1))
  ultimately show ?thesis using res h same(4) by blast
qed

text \<open>
  C6, as the code has it. A reconciliation has a context, a shader, a target and a vertex
  buffer, no dirty texture unit, vertex-array objects in use and the vertex layout to
  update; nothing is cached for the key of the bindings, and an enabled component of a
  declaration has a type that is not supported. Then \<^verbatim>\<open>EnsureStateUpdate\<close> returns
  false with the last error "Failed to create VAO", the vertex array generated for the
  entry has been deleted and no draw command issued; the entry is not erased: the key
  is still cached, with the handle 0, and the current vertex array is 0.
\<close>

theorem failed_build_keeps_entry:
  assumes "Context_GetCurrent W = Some c"
    and "s_shader s = Some sh"
    and "s_target s = Some tg"
    and "s_updateFlags s AND Update_Textures = 0"
    and "s_updateFlags s AND Update_VAO \<noteq> 0"
    and "s_vertexBuffer s = Some vb"
    and "s_useVertexArrayObjects s"
    and "cached_VAO s c (VAO_key W vb s) = None"
    and "declarations_present W vb s"
    and "attributes_fail W vb s"
  shows "\<exists>s' e. EnsureStateUpdate W M s = Inr (False, s')
           \<and> lastError s' = ''Failed to create VAO''
           \<and> cached_VAO s' c (VAO_key W vb s) = Some e \<and> vao e = 0
           \<and> s_currentVAO s' = 0
           \<and> glDeleteVertexArrays (Suc (gl_genCount s)) \<in> set (new_commands s s')
           \<and> filter is_draw (new_commands s s') = []"
proof -
  let ?s0 = "s\<lparr>ErrorFlag_Silent := True\<rparr>"
  have k0: "VAO_key W vb ?s0 = VAO_key W vb s" by (simp add: VAO_key_def)
  have h0: "s_shader ?s0 = Some sh" "s_target ?s0 = Some tg"
    "s_updateFlags ?s0 AND Update_Textures = 0" "s_updateFlags ?s0 AND Update_VAO \<noteq> 0"
    "s_vertexBuffer ?s0 = Some vb" "s_useVertexArrayObjects ?s0"
    "cached_VAO ?s0 c (VAO_key W vb ?s0) = None"
    "declarations_present W vb ?s0" "attributes_fail W vb ?s0"
    using assms
    by (simp_all add: k0 cached_VAO_def declarations_present_def attributes_fail_def)
  from EnsureStateUpdate_body_failed_build [OF assms(1) h0, of M]
  obtain sB and e :: VAO_Entry where
    B: "EnsureStateUpdate_body W M ?s0 = Inr (False, sB)"
    and p: "lastError sB = ''Failed to create VAO''" "s_currentVAO sB = 0"
      "cached_VAO sB c (VAO_key W vb ?s0) = Some e" "vao e = 0"
      "glDeleteVertexArrays (Suc (gl_genCount ?s0)) \<in> set (new_commands ?s0 sB)"
    by blast
  let ?s' = "sB\<lparr>ErrorFlag_Silent := ErrorFlag_Silent s\<rparr>"
  have U: "EnsureStateUpdate W M s = Inr (False, ?s')"
    by (simp add: EnsureStateUpdate_def B)
  note n = new_commands_extends [OF EnsureStateUpdate_Inr(1) [OF assms(1,2,3) U]]
  have "filter is_draw (new_commands s ?s') = []"
    using n(2) by (rule no_draw_filter)
  moreover have "lastError ?s' = ''Failed to create VAO''" "s_currentVAO ?s' = 0"
    "cached_VAO ?s' c (VAO_key W vb s) = Some e"
    "glDeleteVertexArrays (Suc (gl_genCount s)) \<in> set (new_commands s ?s')"
    using p by (simp_all add: k0 cached_VAO_def new_commands_def)
  ultimately show ?thesis using U p(4) by blast
qed

section \<open>Concrete runs\<close>

text \<open>
  The runs below are on \<open>world0\<close>, from \<open>state1\<close>, the state after the first
  \<^verbatim>\<open>Initialize\<close>: target 7, shader 5, and vertex buffer 0 (two floats) or 1 (a
  quaternion, which no backend supports).
\<close>

theorem DrawPrimitivesInstanced_over_capacity_witness:
  "vb_GetVertexCount (s_instanceBuffer state1) < 101
   \<and> \<not> ErrorFlag_Silent state1
   \<and> (\<exists>msg. DrawPrimitivesInstanced world0 int_ops 101 PrimitiveMode_TriangleStrip 0 4 state1 =
              Inr (state1\<lparr>reports := reports state1 @ [ReportError msg], lastError := msg\<rparr>))"
proof -
  have h: "vb_GetVertexCount (s_instanceBuffer state1) < 101" "\<not> ErrorFlag_Silent state1"
    by code_simp+
  from DrawPrimitivesInstanced_over_capacity
    [OF h, of world0 int_ops PrimitiveMode_TriangleStrip 0 4] h
  show ?thesis by blast
qed


theorem release_evicts_everywhere_witness:
  "vb_GetVertexDeclaration (vertexBuffers world0 0) = Some 0
   \<and> VAO_key world0 0 state_cached = (None, Some 0, Some 0, None)
   \<and> map_option vao (cached_VAO state_cached 0 (None, Some 0, Some 0, None)) = Some 1
   \<and> cached_VAO (OnVertexBufferRelease (Some 0) state_cached) 0 (None, Some 0, Some 0, None) = None
   \<and> cached_VAO (OnVertexDeclarationRelease (Some 0) state_cached) 0 (None, Some 0, Some 0, None)
       = None
   \<and> builds_fresh_VAO world0 0 0 (OnVertexBufferRelease (Some 0) state_cached)"
proof -
  have d: "vb_GetVertexDeclaration (vertexBuffers world0 0) = Some 0"
    by (simp add: world0_def)
  have k: "VAO_key world0 0 state_cached = (None, Some 0, Some 0, None)" by code_simp
  have c: "map_option vao (cached_VAO state_cached 0 (None, Some 0, Some 0, None)) = Some 1"
    by code_simp
  from release_evicts_everywhere
    [of world0 0 "Some 0" state_cached 0 "(None, Some 0, Some 0, None)" 0] d k c
  show ?thesis
    by (simp add: key_vertexBuffer_def key_vertexDeclaration_def)
qed


theorem DrawPrimitives_after_setup_witness:
  "fst (Initialize startup0 int_ops state0)
   \<and> s_moduleReferenceCounter state0 = 0 \<and> s_vaos state0 = [] \<and> \<not> ErrorFlag_Silent state0
   \<and> Context_GetCurrent world0 = Some 0
   \<and> IsRenderable (targets world0 7) \<and> Activate (targets world0 7)
   \<and> IsValid (shaders world0 5) \<and> IsLinked (shaders world0 5)
   \<and> vb_IsHardware (vertexBuffers world0 0)
   \<and> vb_GetVertexDeclaration (vertexBuffers world0 0) = Some 0
   \<and> \<not> list_ex (unsupported_component world0 (vertexDeclarations world0 0))
           (vertex_components world0)
   \<and> (\<exists>s'. DrawPrimitives world0 int_ops PrimitiveMode_TriangleStrip 0 4 (state_ready 0) = Inr s'
           \<and> reports s' = reports (state_ready 0)
           \<and> filter is_draw (new_commands (state_ready 0) s')
               = [glDrawArrays PrimitiveMode_TriangleStrip 0 4])
   \<and> (\<exists>s'. DrawPrimitives world0 int_ops PrimitiveMode_TriangleStrip 0 4
              (SetVertexBuffer world0 (Some 0) state_target) = Inr s'
           \<and> reports s' = reports (SetVertexBuffer world0 (Some 0) state_target)
                             @ [ReportError ''Failed to update states: No shader'']
           \<and> commands s' = commands (SetVertexBuffer world0 (Some 0) state_target))"
proof -
  have i: "fst (Initialize startup0 int_ops state0)" by code_simp
  then have init: "Initialize startup0 int_ops state0 = (True, state1)"
    by (simp add: state1_def prod_eq_iff)
  have h: "s_moduleReferenceCounter state0 = 0" "s_vaos state0 = []" "\<not> ErrorFlag_Silent state0"
    "Context_GetCurrent world0 = Some 0"
    "IsRenderable (targets world0 7)" "Activate (targets world0 7)"
    "IsValid (shaders world0 5)" "IsLinked (shaders world0 5)"
    "vb_IsHardware (vertexBuffers world0 0)"
    "vb_GetVertexDeclaration (vertexBuffers world0 0) = Some 0"
    "\<not> list_ex (unsupported_component world0 (vertexDeclarations world0 0))
           (vertex_components world0)"
    by code_simp+
  from DrawPrimitives_after_setup [OF init h] i h
  show ?thesis unfolding state_ready_def state_target_def by blast
qed

text \<open>
  C6, as stated, at a concrete input: vertex buffer 1 is bound, whose declaration has
  an enabled quaternion; nothing is cached. After the reconciliation, which returns
  false, the key is cached, with the handle 0.
\<close>

theorem failed_build_counterexample:
  "VAO_key world0 1 (state_ready 1) = (None, Some 1, Some 1, None)
   \<and> cached_VAO (state_ready 1) 0 (None, Some 1, Some 1, None) = None
   \<and> unsupported_component world0 (vertexDeclarations world0 1) 8
   \<and> \<not> isl (EnsureStateUpdate world0 int_ops (state_ready 1))
   \<and> \<not> fst (projr (EnsureStateUpdate world0 int_ops (state_ready 1)))
   \<and> map_option vao
        (cached_VAO (snd (projr (EnsureStateUpdate world0 int_ops (state_ready 1)))) 0
           (None, Some 1, Some 1, None)) = Some 0"
proof -
  have "let r = EnsureStateUpdate world0 int_ops (state_ready 1)
        in \<not> isl r \<and> \<not> fst (projr r)
           \<and> map_option vao (cached_VAO (snd (projr r)) 0 (None, Some 1, Some 1, None)) = Some 0"
    by code_simp
  moreover have "VAO_key world0 1 (state_ready 1) = (None, Some 1, Some 1, None)"
    "cached_VAO (state_ready 1) 0 (None, Some 1, Some 1, None) = None"
    "unsupported_component world0 (vertexDeclarations world0 1) 8"
    by code_simp+
  ultimately show ?thesis by (simp add: Let_def)
qed

theorem failed_build_keeps_entry_witness:
  "Context_GetCurrent world0 = Some 0
   \<and> s_shader (state_ready 1) = Some 5
   \<and> s_target (state_ready 1) = Some 7
   \<and> s_updateFlags (state_ready 1) AND Update_Textures = 0
   \<and> s_updateFlags (state_ready 1) AND Update_VAO \<noteq> 0
   \<and> s_vertexBuffer (state_ready 1) = Some 1
   \<and> s_useVertexArrayObjects (state_ready 1)
   \<and> cached_VAO (state_ready 1) 0 (VAO_key world0 1 (state_ready 1)) = None
   \<and> declarations_present world0 1 (state_ready 1)
   \<and> attributes_fail world0 1 (state_ready 1)
   \<and> (\<exists>s' e. EnsureStateUpdate world0 int_ops (state_ready 1) = Inr (False, s')
           \<and> lastError s' = ''Failed to create VAO''
           \<and> cached_VAO s' 0 (VAO_key world0 1 (state_ready 1)) = Some e \<and> vao e = 0
           \<and> s_currentVAO s' = 0
           \<and> glDeleteVertexArrays (Suc (gl_genCount (state_ready 1)))
               \<in> set (new_commands (state_ready 1) s')
           \<and> filter is_draw (new_commands (state_ready 1) s') = [])"
proof -
  have h: "Context_GetCurrent world0 = Some 0"
    "s_shader (state_ready 1) = Some 5"
    "s_target (state_ready 1) = Some 7"
    "s_updateFlags (state_ready 1) AND Update_Textures = 0"
    "s_updateFlags (state_ready 1) AND Update_VAO \<noteq> 0"
    "s_vertexBuffer (state_ready 1) = Some 1"
    "s_useVertexArrayObjects (state_ready 1)"
    "cached_VAO (state_ready 1) 0 (VAO_key world0 1 (state_ready 1)) = None"
    "declarations_present world0 1 (state_ready 1)"
    "attributes_fail world0 1 (state_ready 1)"
    by code_simp+
  from failed_build_keeps_entry [OF h, of int_ops] h show ?thesis by blast
qed

end
